theory Spec2Isabelle
  imports Main "HOL-Library.AList" "HOL-Library.Sublist"
begin

section \<open>Strings and decimal numerals\<close>

text \<open>
  A JavaScript string is modelled as the list of its code units, for strings whose code
  units are below 256. \<open>show_nat\<close> is the decimal rendering that a template literal
  gives a non-negative integer.
\<close>

definition digit_char :: "nat \<Rightarrow> char" where
  "digit_char d = char_of (48 + d)"

function show_nat :: "nat \<Rightarrow> string" where
  "show_nat n = (if n < 10 then [digit_char n] else show_nat (n div 10) @ [digit_char (n mod 10)])"
  by pat_completeness auto
termination
  by (relation "measure id") auto

declare show_nat.simps [simp del]

lemma digit_char_inj: "a < 10 \<Longrightarrow> b < 10 \<Longrightarrow> digit_char a = digit_char b \<Longrightarrow> a = b"
proof -
  assume a: "a < 10" and b: "b < 10" and e: "digit_char a = digit_char b"
  from e have "of_char (char_of (48 + a) :: char) = (of_char (char_of (48 + b) :: char) :: nat)"
    by (simp add: digit_char_def)
  with a b show "a = b" by simp
qed

lemma show_nat_nonempty: "show_nat n \<noteq> []"
  by (subst show_nat.simps) simp

lemma show_nat_inj: "show_nat a = show_nat b \<Longrightarrow> a = b"
proof (induction a arbitrary: b rule: show_nat.induct)
  case (1 n)
  show ?case
  proof (cases "n < 10")
    case True
    then have sn: "show_nat n = [digit_char n]" by (subst show_nat.simps) simp
    show ?thesis
    proof (cases "b < 10")
      case b: True
      then have "show_nat b = [digit_char b]" by (subst show_nat.simps) simp
      with sn "1.prems" True b show ?thesis by (auto dest: digit_char_inj)
    next
      case b: False
      then have "show_nat b = show_nat (b div 10) @ [digit_char (b mod 10)]"
        by (subst show_nat.simps) simp
      with sn "1.prems" show_nat_nonempty [of "b div 10"] show ?thesis
        by (cases "show_nat (b div 10)") auto
    qed
  next
    case False
    then have sn: "show_nat n = show_nat (n div 10) @ [digit_char (n mod 10)]"
      by (subst show_nat.simps) simp
    show ?thesis
    proof (cases "b < 10")
      case b: True
      then have "show_nat b = [digit_char b]" by (subst show_nat.simps) simp
      with sn "1.prems" show_nat_nonempty [of "n div 10"] show ?thesis
        by (cases "show_nat (n div 10)") auto
    next
      case b: False
      then have sb: "show_nat b = show_nat (b div 10) @ [digit_char (b mod 10)]"
        by (subst show_nat.simps) simp
      from sn sb "1.prems" have e1: "show_nat (n div 10) = show_nat (b div 10)"
        and e2: "digit_char (n mod 10) = digit_char (b mod 10)" by auto
      from "1.IH" [OF False e1] have d: "n div 10 = b div 10" .
      from e2 have m: "n mod 10 = b mod 10" by (auto dest!: digit_char_inj [rotated 2])
      from d m show ?thesis by (metis div_mult_mod_eq)
    qed
  qed
qed

text \<open>
  \<open>toLowerCase\<close>: the letters \<open>A\<close> to \<open>Z\<close>, and in the upper half the letters from
  192 to 222 (without the multiplication sign 215), move up by 32; no other code unit
  below 256 changes.

  \<open>toUpperCase\<close> of one character: \<open>upper_char\<close> is its value on the ASCII characters.
  Outside ASCII the upper case of a character need not be one code unit nor lie below 256
  (the sharp s becomes two letters); there it is the parameter \<open>up\<close> of the functions
  that capitalise.
\<close>

definition lower_char :: "char \<Rightarrow> char" where
  "lower_char c =
     (if (65 \<le> (of_char c :: nat) \<and> (of_char c :: nat) \<le> 90)
         \<or> (192 \<le> (of_char c :: nat) \<and> (of_char c :: nat) \<le> 222 \<and> (of_char c :: nat) \<noteq> 215)
      then char_of (of_char c + (32::nat)) else c)"

definition is_ascii :: "char \<Rightarrow> bool" where
  "is_ascii c = ((of_char c :: nat) < 128)"

definition upper_char :: "char \<Rightarrow> char" where
  "upper_char c =
     (if 97 \<le> (of_char c :: nat) \<and> (of_char c :: nat) \<le> 122 then char_of (of_char c - (32::nat)) else c)"

definition toLowerCase :: "string \<Rightarrow> string" where
  "toLowerCase s = map lower_char s"

text \<open>White space (\<open>\s\<close>, \<open>trim\<close>): tab, line feed, vertical tab, form feed, carriage
  return, space and no-break space. A line terminator (what \<open>.\<close> does not match): line
  feed and carriage return.\<close>

definition is_space :: "char \<Rightarrow> bool" where
  "is_space c = ((of_char c :: nat) \<in> {9, 10, 11, 12, 13, 32, 160})"

definition is_newline :: "char \<Rightarrow> bool" where
  "is_newline c = ((of_char c :: nat) \<in> {10, 13})"

definition trim :: "string \<Rightarrow> string" where
  "trim s = rev (dropWhile is_space (rev (dropWhile is_space s)))"

text \<open>\<open>s.split(c)\<close> for a one-character separator.\<close>

fun split :: "char \<Rightarrow> string \<Rightarrow> string list" where
  "split c [] = [[]]"
| "split c (x # xs) =
     (if x = c then [] # split c xs
      else (case split c xs of [] \<Rightarrow> [[x]] | y # ys \<Rightarrow> (x # y) # ys))"

text \<open>\<open>s.includes(p)\<close>, and \<open>s.replace(p, r)\<close> for a string pattern (the first occurrence
  only).\<close>

fun str_includes :: "string \<Rightarrow> string \<Rightarrow> bool" where
  "str_includes [] p = (p = [])"
| "str_includes (x # xs) p = (prefix p (x # xs) \<or> str_includes xs p)"

fun replace_first :: "string \<Rightarrow> string \<Rightarrow> string \<Rightarrow> string" where
  "replace_first [] p r = (if p = [] then r else [])"
| "replace_first (x # xs) p r =
     (if prefix p (x # xs) then r @ drop (length p) (x # xs) else x # replace_first xs p r)"

definition endsWith :: "string \<Rightarrow> string \<Rightarrow> bool" where
  "endsWith s p = suffix p s"

text \<open>The text before the first occurrence of a pattern, if it occurs
  (\<open>s.slice(0, s.indexOf(pat))\<close>).\<close>

fun before_first :: "string \<Rightarrow> string \<Rightarrow> string option" where
  "before_first pat [] = (if pat = [] then Some [] else None)"
| "before_first pat (x # xs) =
     (if prefix pat (x # xs) then Some [] else map_option ((#) x) (before_first pat xs))"

section \<open>Slugs\<close>

text \<open>
  \<open>sanitizeSlug\<close>: lower-case, every character outside \<open>[a-z0-9-]\<close> becomes a hyphen,
  runs of hyphens collapse to one, and a leading and a trailing hyphen are removed.
\<close>

definition is_slug_char :: "char \<Rightarrow> bool" where
  "is_slug_char c = (c \<in> set ''abcdefghijklmnopqrstuvwxyz0123456789-'')"

fun collapse_hyphens :: "string \<Rightarrow> string" where
  "collapse_hyphens (a # b # xs) =
     (if a = CHR ''-'' \<and> b = CHR ''-'' then collapse_hyphens (b # xs)
      else a # collapse_hyphens (b # xs))"
| "collapse_hyphens xs = xs"

definition strip_leading_hyphen :: "string \<Rightarrow> string" where
  "strip_leading_hyphen s = (case s of [] \<Rightarrow> [] | c # t \<Rightarrow> if c = CHR ''-'' then t else s)"

definition strip_trailing_hyphen :: "string \<Rightarrow> string" where
  "strip_trailing_hyphen s = (if s \<noteq> [] \<and> last s = CHR ''-'' then butlast s else s)"

definition sanitizeSlug :: "string \<Rightarrow> string" where
  "sanitizeSlug slug =
     strip_trailing_hyphen (strip_leading_hyphen (collapse_hyphens
       (map (\<lambda>c. if is_slug_char c then c else CHR ''-'') (toLowerCase slug))))"

text \<open>
  \<open>basename\<close> and \<open>extname\<close> of the path module, for \<open>/\<close>-separated paths: the base name
  is the last non-empty segment; the extension runs from the last dot of the base name to
  its end, and is empty when there is no dot, when the last dot is the first character, or
  when the base name is \<open>..\<close>; \<open>basename(p, ext)\<close> drops the extension when the base name
  ends with it and is longer.
\<close>

definition last_segment :: "string \<Rightarrow> string" where
  "last_segment p = (case filter (\<lambda>s. s \<noteq> []) (split CHR ''/'' p) of [] \<Rightarrow> [] | ss \<Rightarrow> last ss)"

definition extname :: "string \<Rightarrow> string" where
  "extname p =
     (let b = last_segment p;
          tail = takeWhile (\<lambda>c. c \<noteq> CHR ''.'') (rev b)
      in if CHR ''.'' \<notin> set b \<or> length tail + 1 = length b \<or> b = ''..'' then []
         else CHR ''.'' # rev tail)"

definition basename :: "string \<Rightarrow> string \<Rightarrow> string" where
  "basename p ext =
     (let b = last_segment p
      in if ext \<noteq> [] \<and> length ext < length b \<and> suffix ext b
         then take (length b - length ext) b else b)"

definition extractSlugFromPath :: "string \<Rightarrow> string" where
  "extractSlugFromPath path = sanitizeSlug (basename path (extname path))"

text \<open>A single path segment: a name that \<open>join\<close> appends to a directory as it is.\<close>

definition is_segment :: "string \<Rightarrow> bool" where
  "is_segment n = (n \<noteq> [] \<and> CHR ''/'' \<notin> set n \<and> n \<noteq> ''.'' \<and> n \<noteq> ''..'')"

lemma collapse_hyphens_set: "set (collapse_hyphens s) \<subseteq> set s"
  by (induction s rule: collapse_hyphens.induct) auto

lemma strip_leading_hyphen_set: "set (strip_leading_hyphen s) \<subseteq> set s"
  by (auto simp: strip_leading_hyphen_def split: list.splits if_splits)

lemma strip_trailing_hyphen_set: "set (strip_trailing_hyphen s) \<subseteq> set s"
  by (auto simp: strip_trailing_hyphen_def dest: in_set_butlastD)

lemma sanitizeSlug_chars: "c \<in> set (sanitizeSlug s) \<Longrightarrow> is_slug_char c"
proof -
  assume "c \<in> set (sanitizeSlug s)"
  then have "c \<in> set (map (\<lambda>c. if is_slug_char c then c else CHR ''-'') (toLowerCase s))"
    unfolding sanitizeSlug_def
    using strip_trailing_hyphen_set strip_leading_hyphen_set collapse_hyphens_set by blast
  then show ?thesis by (auto simp: is_slug_char_def split: if_splits)
qed


section \<open>Files, JSON values and the skills directory\<close>

text \<open>
  A JSON value is what \<open>JSON.parse\<close> returns; an object is an association list, read
  with \<open>map_of\<close>. The YAML front matter of a \<open>SKILL.md\<close> is a JSON object too. A value
  that may be \<open>undefined\<close> is a \<open>json option\<close>.
\<close>

datatype json = JNull | JBool bool | JNum int | JStr string | JArr "json list"
  | JObj "(string \<times> json) list"

definition truthy :: "json option \<Rightarrow> bool" where
  "truthy v =
     (case v of
        None \<Rightarrow> False
      | Some JNull \<Rightarrow> False
      | Some (JBool b) \<Rightarrow> b
      | Some (JNum n) \<Rightarrow> n \<noteq> 0
      | Some (JStr x) \<Rightarrow> x \<noteq> []
      | Some (JArr xs) \<Rightarrow> True
      | Some (JObj kv) \<Rightarrow> True)"

text \<open>Reading the property \<open>k\<close> of a value that is neither \<open>undefined\<close> nor \<open>null\<close>:
  only an object has the properties the code reads.\<close>

definition get_prop :: "json option \<Rightarrow> string \<Rightarrow> json option" where
  "get_prop v k = (case v of Some (JObj kv) \<Rightarrow> map_of kv k | _ \<Rightarrow> None)"

text \<open>
  A file is represented by what the code can read from it: a text that is a JSON document
  (\<open>JSON.parse\<close> returns the value, and \<open>JSON.stringify\<close> writes such a text); a text
  \<open>FrontMatter data body\<close> that opens with a front matter block, from which \<open>matter\<close>
  returns the data of the block and, as content, the text \<open>body\<close> that follows the line of
  the closing delimiter; or any other text, on which \<open>JSON.parse\<close> throws and
  \<open>matter\<close> finds no data. What \<open>matter.stringify\<close> writes is given with the store's
  update below.
\<close>

datatype fdata = Plain string | JsonDoc json | FrontMatter "(string \<times> json) list" string

datatype node = File fdata | Dir "(string \<times> node) list"

type_synonym dir = "(string \<times> node) list"

text \<open>A thrown value: an \<open>Error\<close> or a \<open>TypeError\<close> with its message.\<close>

datatype error = Error string | TypeError string

text \<open>
  The state is the skills directory of the workspace: its entries by name; the directory
  itself is taken to exist. \<open>skill_dir ws slug\<close> is what \<open>join(skillsDir, slug)\<close> names:
  for the empty slug the skills directory itself, and otherwise the entry called \<open>slug\<close>,
  which is what \<open>join\<close> gives for a slug that is a single path segment.
  \<open>put_skill_dir\<close> puts a directory at that place, \<open>drop_skill_dir\<close> removes what is
  there.
\<close>

definition is_file :: "node option \<Rightarrow> bool" where
  "is_file n = (case n of Some (File c) \<Rightarrow> True | _ \<Rightarrow> False)"

definition is_dir :: "node option \<Rightarrow> bool" where
  "is_dir n = (case n of Some (Dir es) \<Rightarrow> True | _ \<Rightarrow> False)"

definition entries :: "node option \<Rightarrow> dir" where
  "entries n = (case n of Some (Dir es) \<Rightarrow> es | _ \<Rightarrow> [])"

definition skill_dir :: "dir \<Rightarrow> string \<Rightarrow> node option" where
  "skill_dir ws slug = (if slug = [] then Some (Dir ws) else map_of ws slug)"

definition put_skill_dir :: "dir \<Rightarrow> string \<Rightarrow> dir \<Rightarrow> dir" where
  "put_skill_dir ws slug d = (if slug = [] then d else AList.update slug (Dir d) ws)"


text \<open>\<open>writeFileSync(join(d, name), c)\<close>: fails when a directory has that name.\<close>

definition write_file :: "dir \<Rightarrow> string \<Rightarrow> fdata \<Rightarrow> dir option" where
  "write_file d name c =
     (if is_dir (map_of d name) then None else Some (AList.update name (File c) d))"

text \<open>
  \<open>cpSync(src, dest, {recursive: true})\<close> onto an existing directory copies the entries
  of \<open>src\<close> one after the other: a file replaces a file, a directory is merged into a
  directory, and a file meeting a directory (or a directory meeting a file) makes it throw.
  What was copied before stays: \<open>merge_dir\<close> returns whether the copy went through, and
  the directory as the copy leaves it.
\<close>

lemma size_map_of [termination_simp]:
  "map_of es k = Some n \<Longrightarrow> size n < Suc (size_list (size_prod (\<lambda>_. 0) size) es)"
  by (induction es) (auto split: if_splits)

function merge_dir :: "dir \<Rightarrow> dir \<Rightarrow> bool \<times> dir" where
  "merge_dir d [] = (True, d)"
| "merge_dir d ((name, x) # src) =
     (case (map_of d name, x) of
        (None, _) \<Rightarrow> merge_dir (AList.update name x d) src
      | (Some (File c'), File c) \<Rightarrow> merge_dir (AList.update name (File c) d) src
      | (Some (Dir d'), Dir src') \<Rightarrow>
          (case merge_dir d' src' of
             (False, m) \<Rightarrow> (False, AList.update name (Dir m) d)
           | (True, m) \<Rightarrow> merge_dir (AList.update name (Dir m) d) src)
      | _ \<Rightarrow> (False, d))"
  by pat_completeness auto
termination
  by (relation "measure (\<lambda>(d, src). size_list (size_prod (\<lambda>_. 0) size) src)") auto

text \<open>A thrown error of the file system, by its code; the message Node gives with it also
  names the path.\<close>

definition EISDIR :: error where
  "EISDIR = Error ''EISDIR: illegal operation on a directory''"

definition EEXIST :: error where
  "EEXIST = Error ''EEXIST: file already exists''"

definition ERR_FS_CP :: error where
  "ERR_FS_CP = Error ''ERR_FS_CP: cannot overwrite a directory with a non-directory or a non-directory with a directory''"

text \<open>\<open>copyDirectory(src, join(skillsDir, slug))\<close>: \<open>mkdirSync\<close> with \<open>recursive\<close> throws
  when a file has the name of the directory, and makes the directory when nothing has; then
  the copy. The result is the error thrown, if any, and the state left.\<close>

definition copyDirectory :: "dir \<Rightarrow> dir \<Rightarrow> string \<Rightarrow> error option \<times> dir" where
  "copyDirectory src ws slug =
     (if is_file (skill_dir ws slug) then (Some EEXIST, ws)
      else (case merge_dir (entries (skill_dir ws slug)) src of
              (False, d) \<Rightarrow> (Some ERR_FS_CP, put_skill_dir ws slug d)
            | (True, d) \<Rightarrow> (None, put_skill_dir ws slug d)))"

definition validateSkillDirectory :: "node option \<Rightarrow> bool" where
  "validateSkillDirectory n = is_file (map_of (entries n) ''SKILL.md'')"

definition skillExists :: "dir \<Rightarrow> string \<Rightarrow> bool" where
  "skillExists ws slug =
     (skill_dir ws slug \<noteq> None \<and> map_of (entries (skill_dir ws slug)) ''SKILL.md'' \<noteq> None)"

text \<open>\<open>saveSourceMetadata\<close>: the sidecar \<open>.source.json\<close> of a skill directory.\<close>

definition saveSourceMetadata :: "dir \<Rightarrow> string \<Rightarrow> json \<Rightarrow> dir option" where
  "saveSourceMetadata ws slug source =
     (case write_file (entries (skill_dir ws slug)) ''.source.json'' (JsonDoc source) of
        None \<Rightarrow> None
      | Some d \<Rightarrow> Some (put_skill_dir ws slug d))"

subsection \<open>resolveSlugConflict\<close>

definition candidate :: "string \<Rightarrow> nat \<Rightarrow> string" where
  "candidate baseSlug counter = baseSlug @ ''-'' @ show_nat counter"

lemma candidate_inj: "candidate b i = candidate b j \<Longrightarrow> i = j"
  by (simp add: candidate_def show_nat_inj)

lemma candidate_nonempty: "candidate b k \<noteq> []"
  by (simp add: candidate_def)

lemma finite_existing: "finite {k. skillExists ws (candidate b k)}"
proof -
  have "{k. skillExists ws (candidate b k)} \<subseteq> candidate b -` (fst ` set ws)"
  proof
    fix k assume "k \<in> {k. skillExists ws (candidate b k)}"
    then obtain n where "map_of ws (candidate b k) = Some n"
      by (auto simp: skillExists_def skill_dir_def candidate_nonempty)
    then have "(candidate b k, n) \<in> set ws" by (rule map_of_SomeD)
    then have "candidate b k \<in> fst ` set ws" by force
    then show "k \<in> candidate b -` (fst ` set ws)" by simp
  qed
  moreover have "finite (candidate b -` (fst ` set ws))"
    by (rule finite_vimageI) (auto simp: inj_on_def dest: candidate_inj)
  ultimately show ?thesis by (rule finite_subset)
qed

function slug_loop :: "dir \<Rightarrow> string \<Rightarrow> string \<Rightarrow> nat \<Rightarrow> string" where
  "slug_loop ws baseSlug slug counter =
     (if skillExists ws slug then slug_loop ws baseSlug (candidate baseSlug counter) (Suc counter)
      else slug)"
  by pat_completeness auto
termination
proof (relation "measure (\<lambda>(ws, b, slug, c).
    2 * card {k. c \<le> k \<and> skillExists ws (candidate b k)} + (if skillExists ws slug then 1 else 0))")
  show "wf (measure (\<lambda>(ws, b, slug, c).
    2 * card {k. c \<le> k \<and> skillExists ws (candidate b k)} + (if skillExists ws slug then 1 else 0)))"
    by simp
next
  fix ws :: dir and baseSlug slug :: string and counter :: nat
  assume ex: "skillExists ws slug"
  let ?A = "\<lambda>c. {k. c \<le> k \<and> skillExists ws (candidate baseSlug k)}"
  have fin: "finite (?A counter)"
    by (rule finite_subset [OF _ finite_existing [of ws baseSlug]]) auto
  show "((ws, baseSlug, candidate baseSlug counter, Suc counter), (ws, baseSlug, slug, counter))
      \<in> measure (\<lambda>(ws, b, slug, c).
    2 * card {k. c \<le> k \<and> skillExists ws (candidate b k)} + (if skillExists ws slug then 1 else 0))"
  proof (cases "skillExists ws (candidate baseSlug counter)")
    case True
    then have "counter \<in> ?A counter" and "counter \<notin> ?A (Suc counter)" by auto
    moreover have "?A (Suc counter) \<subseteq> ?A counter" by auto
    ultimately have "?A (Suc counter) \<subset> ?A counter" by blast
    then have "card (?A (Suc counter)) < card (?A counter)"
      by (rule psubset_card_mono [OF fin])
    with ex True show ?thesis by simp
  next
    case False
    have "?A (Suc counter) = ?A counter"
      using False by (auto simp: le_Suc_eq Suc_le_eq) (metis Suc_leI le_neq_implies_less)
    with ex False show ?thesis by simp
  qed
qed

declare slug_loop.simps [simp del]

definition resolveSlugConflict :: "dir \<Rightarrow> string \<Rightarrow> string" where
  "resolveSlugConflict ws baseSlug = slug_loop ws baseSlug baseSlug 1"

lemma slug_loop_fresh: "\<not> skillExists ws (slug_loop ws b slug c)"
  by (induction ws b slug c rule: slug_loop.induct) (subst slug_loop.simps, simp)

lemma resolveSlugConflict_fresh: "\<not> skillExists ws (resolveSlugConflict ws b)"
  by (simp add: resolveSlugConflict_def slug_loop_fresh)

lemma resolveSlugConflict_free: "\<not> skillExists ws b \<Longrightarrow> resolveSlugConflict ws b = b"
  by (simp add: resolveSlugConflict_def slug_loop.simps)

lemma resolveSlugConflict_taken:
  "skillExists ws b \<Longrightarrow> \<not> skillExists ws (candidate b 1) \<Longrightarrow>
   resolveSlugConflict ws b = candidate b 1"
  by (simp add: resolveSlugConflict_def slug_loop.simps)

lemma slug_loop_form:
  "slug_loop ws b slug c = slug \<or> (\<exists>k \<ge> c. slug_loop ws b slug c = candidate b k)"
proof (induction ws b slug c rule: slug_loop.induct)
  case (1 ws b slug c)
  show ?case
  proof (cases "skillExists ws slug")
    case True
    from "1.IH" [OF True] True show ?thesis
      by (subst (1 2) slug_loop.simps) (auto intro: Suc_leD)
  next
    case False
    then show ?thesis by (subst slug_loop.simps) simp
  qed
qed

section \<open>Skill store\<close>

text \<open>
  The fields of the metadata are the values found in the front matter (the code casts
  them without a check). \<open>validateIconValue\<close> is a utility outside these sources: the
  functions take it as the parameter \<open>vi\<close>. The fields \<open>path\<close> and \<open>iconPath\<close> of a
  loaded skill, which are determined by the directory, are left out.
\<close>

record SkillMetadata =
  name :: "json option"
  description :: "json option"
  globs :: "json option"
  alwaysAllow :: "json option"
  icon :: "json option"

record LoadedSkill =
  slug :: string
  metadata :: SkillMetadata
  content :: string
  source :: "json option"

definition parseSkillFile :: "(json option \<Rightarrow> json option) \<Rightarrow> fdata \<Rightarrow> (SkillMetadata \<times> string) option" where
  "parseSkillFile vi c =
     (case c of
        FrontMatter data body \<Rightarrow>
          if \<not> truthy (map_of data ''name'') \<or> \<not> truthy (map_of data ''description'') then None
          else Some (\<lparr>name = map_of data ''name'', description = map_of data ''description'',
                      globs = map_of data ''globs'', alwaysAllow = map_of data ''alwaysAllow'',
                      icon = vi (map_of data ''icon'')\<rparr>, body)
      | _ \<Rightarrow> None)"

text \<open>The sidecar as \<open>loadSkill\<close> reads it: absent, unreadable or unparsable gives
  \<open>undefined\<close>.\<close>

definition load_source :: "dir \<Rightarrow> json option" where
  "load_source d = (case map_of d ''.source.json'' of Some (File (JsonDoc j)) \<Rightarrow> Some j | _ \<Rightarrow> None)"

definition loadSkill :: "(json option \<Rightarrow> json option) \<Rightarrow> dir \<Rightarrow> string \<Rightarrow> LoadedSkill option" where
  "loadSkill vi ws slug' =
     (if \<not> is_dir (skill_dir ws slug') then None
      else (case map_of (entries (skill_dir ws slug')) ''SKILL.md'' of
              None \<Rightarrow> None
            | Some (Dir es) \<Rightarrow> None
            | Some (File c) \<Rightarrow>
                (case parseSkillFile vi c of
                   None \<Rightarrow> None
                 | Some (md, body) \<Rightarrow>
                     Some \<lparr>slug = slug', metadata = md, content = body,
                           source = load_source (entries (skill_dir ws slug'))\<rparr>)))"

text \<open>
  \<open>matter.stringify(content, data)\<close>, of the front-matter library, which is outside the
  repository. Given a string, it first parses the string as \<open>matter\<close> does. A string opens
  with front matter when it starts with the delimiter \<open>---\<close> and no fourth hyphen; the
  block runs to the first line break followed by the delimiter (to the end, when there is
  none), and the content is what follows the closing delimiter, without the line break
  that ends its line. What the library's engine reads from the block is the parameter
  \<open>yaml\<close>; a block that the engine rejects makes the library throw, which the model, where
  \<open>yaml\<close> is total, leaves out. A string that does not open with front matter has no data
  and is its own content.

  Then it writes the block of the data of the string overridden by the given data
  (\<open>Object.assign\<close>), and after it the content, to which it appends a line break unless the
  content ends with one. The data the update gives has a name and is not empty. That the
  block the library writes for a data object is read back as that object is part of the
  representation of files.
\<close>

definition has_matter :: "string \<Rightarrow> bool" where
  "has_matter s = (prefix ''---'' s \<and> \<not> prefix ''----'' s)"

definition strip_eol :: "string \<Rightarrow> string" where
  "strip_eol s =
     (let t = (case s of [] \<Rightarrow> [] | c # r \<Rightarrow> if c = CHR 0x0D then r else s)
      in case t of [] \<Rightarrow> [] | c # r \<Rightarrow> if c = CHR 0x0A then r else t)"

definition matter :: "(string \<Rightarrow> (string \<times> json) list) \<Rightarrow> string
    \<Rightarrow> (string \<times> json) list \<times> string" where
  "matter yaml s =
     (if \<not> has_matter s then ([], s)
      else (case before_first (CHR 0x0A # ''---'') (drop 3 s) of
              None \<Rightarrow> (yaml (drop 3 s), [])
            | Some block \<Rightarrow> (yaml block, strip_eol (drop (length block + 4) (drop 3 s)))))"

definition newline :: "string \<Rightarrow> string" where
  "newline s = (if s \<noteq> [] \<and> last s = CHR 0x0A then s else s @ [CHR 0x0A])"

definition assign :: "(string \<times> json) list \<Rightarrow> (string \<times> json) list \<Rightarrow> (string \<times> json) list" where
  "assign base extra = fold (\<lambda>(k, v) acc. AList.update k v acc) extra base"

definition matter_stringify :: "(string \<Rightarrow> (string \<times> json) list) \<Rightarrow> string
    \<Rightarrow> (string \<times> json) list \<Rightarrow> fdata" where
  "matter_stringify yaml content' data =
     (case matter yaml content' of (d, c) \<Rightarrow> FrontMatter (assign d data) (newline c))"

text \<open>
  The store's \<open>updateSkill\<close>. \<open>source.modified = true\<close> throws a \<open>TypeError\<close> on \<open>null\<close>
  and (the module being strict code) on a boolean, a number or a string; on an array it
  sets a property that \<open>JSON.stringify\<close> does not write. Every exception of the
  \<open>try\<close> block ends in the \<open>catch\<close> clause, which writes a fresh record.
\<close>

definition local_source :: "string \<Rightarrow> json" where
  "local_source now' =
     JObj [(''type'', JStr ''local''), (''modified'', JBool True), (''installedAt'', JStr now')]"

definition mark_modified :: "json \<Rightarrow> json option" where
  "mark_modified j =
     (case j of
        JObj kv \<Rightarrow> Some (JObj (AList.update ''modified'' (JBool True) kv))
      | JArr xs \<Rightarrow> Some (JArr xs)
      | _ \<Rightarrow> None)"

definition update_sidecar :: "string \<Rightarrow> dir \<Rightarrow> dir option" where
  "update_sidecar now' d =
     (case map_of d ''.source.json'' of
        None \<Rightarrow> write_file d ''.source.json'' (JsonDoc (local_source now'))
      | Some (File (JsonDoc j)) \<Rightarrow>
          (case mark_modified j of
             Some j' \<Rightarrow> write_file d ''.source.json'' (JsonDoc j')
           | None \<Rightarrow> write_file d ''.source.json'' (JsonDoc (local_source now')))
      | Some _ \<Rightarrow> write_file d ''.source.json'' (JsonDoc (local_source now')))"

definition field :: "string \<Rightarrow> json option \<Rightarrow> (string \<times> json) list" where
  "field k v = (case v of Some j \<Rightarrow> [(k, j)] | None \<Rightarrow> [])"

definition optional_field :: "string \<Rightarrow> json option \<Rightarrow> (string \<times> json) list" where
  "optional_field k v = (if truthy v then field k v else [])"

definition build_frontmatter :: "SkillMetadata \<Rightarrow> json option \<Rightarrow> (string \<times> json) list" where
  "build_frontmatter md validatedIcon =
     field ''name'' (name md) @ field ''description'' (description md)
       @ optional_field ''globs'' (globs md) @ optional_field ''alwaysAllow'' (alwaysAllow md)
       @ optional_field ''icon'' validatedIcon"

definition storage_updateSkill ::
  "(json option \<Rightarrow> json option) \<Rightarrow> (string \<Rightarrow> (string \<times> json) list) \<Rightarrow> string \<Rightarrow> dir \<Rightarrow> string
     \<Rightarrow> SkillMetadata \<Rightarrow> string \<Rightarrow> (error + LoadedSkill option) \<times> dir" where
  "storage_updateSkill vi yaml now' ws slug' md body =
     (if skill_dir ws slug' = None \<or> map_of (entries (skill_dir ws slug')) ''SKILL.md'' = None
        then (Inr None, ws)
      else if \<not> truthy (name md) \<or> \<not> truthy (description md)
        then (Inl (Error ''Name and description are required''), ws)
      else (case write_file (entries (skill_dir ws slug')) ''SKILL.md''
                   (matter_stringify yaml body (build_frontmatter md (vi (icon md)))) of
              None \<Rightarrow> (Inl EISDIR, ws)
            | Some d1 \<Rightarrow>
                (case update_sidecar now' d1 of
                   None \<Rightarrow> (Inl EISDIR, put_skill_dir ws slug' d1)
                 | Some d2 \<Rightarrow>
                     (Inr (loadSkill vi (put_skill_dir ws slug' d2) slug'),
                      put_skill_dir ws slug' d2))))"


subsection \<open>Properties of the store's update\<close>

lemma entries_Dir [simp]: "entries (Some (Dir d)) = d"
  by (simp add: entries_def)

lemma skill_dir_put [simp]: "skill_dir (put_skill_dir ws s d) s = Some (Dir d)"
  by (simp add: skill_dir_def put_skill_dir_def update_conv')

lemma write_file_Some:
  "\<not> is_dir (map_of d k) \<Longrightarrow> write_file d k c = Some (AList.update k (File c) d)"
  by (simp add: write_file_def)

lemma map_of_write_file:
  "write_file d k c = Some d' \<Longrightarrow> map_of d' = (map_of d)(k \<mapsto> File c)"
  by (auto simp: write_file_def update_conv' split: if_splits)



lemma load_source_update [simp]:
  "load_source (AList.update ''.source.json'' (File (JsonDoc j)) d) = Some j"
  by (simp add: load_source_def update_conv')




lemma sidecar_after_skill_write [simp]:
  "map_of (AList.update ''SKILL.md'' n d) ''.source.json'' = map_of d ''.source.json''"
  by (simp add: update_conv')

lemma map_of_update_same [simp]: "map_of (AList.update k v al) k = Some v"
  by (simp add: update_conv')




lemma map_of_field: "map_of (field k v) k' = (if k' = k then v else None)"
  by (cases v) (simp_all add: field_def)



lemma update_fresh: "k \<notin> fst ` set al \<Longrightarrow> AList.update k v al = al @ [(k, v)]"
  by (induction al) auto




lemma newline_id: "body \<noteq> [] \<Longrightarrow> last body = CHR 0x0A \<Longrightarrow> newline body = body"
  by (simp add: newline_def)




definition demo_metadata :: SkillMetadata where
  "demo_metadata = \<lparr>name = Some (JStr ''Demo''), description = Some (JStr ''A demo skill''),
     globs = None, alwaysAllow = None, icon = None\<rparr>"

definition demo_workspace :: "json \<Rightarrow> dir" where
  "demo_workspace sidecar =
     [(''demo'', Dir [(''SKILL.md'', File (FrontMatter [(''name'', JStr ''Old''), (''description'', JStr ''old'')] ''old body'')),
                     (''.source.json'', File (JsonDoc sidecar))])]"

text \<open>What the engine reads from the blocks of the examples.\<close>

definition demo_yaml :: "string \<Rightarrow> (string \<times> json) list" where
  "demo_yaml block =
     (if block = [CHR 0x0A] @ ''alwaysAllow: Bash'' then [(''alwaysAllow'', JStr ''Bash'')] else [])"

text \<open>
  Modelled from the spec: \<open>validateIconValue\<close>, which is not among these sources. The
  icon is kept when it is an emoji literal or an absolute URL and is dropped otherwise:
  relative paths and inline markup are rejected. An emoji literal is taken to be a
  non-empty string without ASCII characters.
\<close>

definition validateIconValue_spec :: "json option \<Rightarrow> json option" where
  "validateIconValue_spec v =
     (case v of
        Some (JStr x) \<Rightarrow>
          if prefix ''http://'' x \<or> prefix ''https://'' x
             \<or> (x \<noteq> [] \<and> list_all (\<lambda>c. 128 \<le> (of_char c :: nat)) x)
          then Some (JStr x) else None
      | _ \<Rightarrow> None)"




text \<open>
  A content that opens with a front matter block of its own is taken apart by the library:
  the block's data are merged into the front matter written, and only the rest is kept as
  content. Here the edited metadata allow no tool, and the reloaded skill allows one.
\<close>

lemma storage_updateSkill_merges_body_matter:
  "map_option (\<lambda>sk. (alwaysAllow (metadata sk), content sk))
     (loadSkill validateIconValue_spec
        (snd (storage_updateSkill validateIconValue_spec demo_yaml ''2026-01-26T00:00:00.000Z''
           (demo_workspace (JObj [(''type'', JStr ''git'')])) ''demo'' demo_metadata
           (''---'' @ [CHR 0x0A] @ ''alwaysAllow: Bash'' @ [CHR 0x0A] @ ''---'' @ [CHR 0x0A]
              @ ''Text'' @ [CHR 0x0A])))
        ''demo'')
     = Some (Some (JStr ''Bash''), ''Text'' @ [CHR 0x0A])"
  by code_simp




section \<open>Skill importer\<close>

text \<open>
  What an import reads from outside the skills directory is the \<open>world\<close>: the clock, the
  name of the temporary directory that \<open>createTempDir\<close> makes, the local file system by
  path, what \<open>AdmZip\<close> extracts from the file at a path (or the message of the error it
  throws), the outcome of \<open>git clone\<close> for a URL and a branch (the error text or the
  checked-out tree), the output of \<open>git rev-parse HEAD\<close> in that clone, the output of
  \<open>git ls-remote <url> HEAD\<close> (\<open>None\<close> when a command fails), the outcome of
  \<open>fetch\<close>, and the outcome of the removals of \<open>deleteSkill\<close>.
  The removal of the temporary directory in the \<open>finally\<close> clauses changes nothing that
  is read afterwards and is not modelled.

  The bytes of a download are represented by what the code reads from them: what
  \<open>AdmZip\<close> makes of them, and the text they are.
\<close>

record payload =
  as_zip :: "string + dir"
  as_text :: fdata

record download =
  http_status :: nat
  http_statusText :: string
  http_contentType :: "string option"
  http_body :: payload

datatype fetch_result = FetchFailed string | Fetched download

record world =
  now :: string
  tempDir :: string
  localfs :: "string \<Rightarrow> node option"
  archive :: "string \<Rightarrow> string + dir"
  git_clone :: "string \<Rightarrow> string option \<Rightarrow> string + dir"
  git_rev_parse :: "string \<Rightarrow> string option \<Rightarrow> string option"
  git_ls_remote :: "string \<Rightarrow> string option"
  fetch :: "string \<Rightarrow> fetch_result"
  rm_failure :: "string \<Rightarrow> node \<Rightarrow> node option"

record SkillCatalogEntry =
  entry_slug :: string
  entry_name :: string
  entry_description :: string
  author :: "string option"
  version :: "string option"
  downloadUrl :: string
  iconUrl :: "string option"
  tags :: "string list option"
  downloads :: "nat option"
  lastUpdated :: "string option"

record SkillCatalog =
  skills :: "SkillCatalogEntry list"
  lastFetched :: string

text \<open>An object literal with a spread, and what \<open>JSON.stringify\<close> writes of it: a
  property whose value is \<open>undefined\<close> is not written.\<close>

definition spread :: "(string \<times> json option) list \<Rightarrow> (string \<times> json option) list
    \<Rightarrow> (string \<times> json option) list" where
  "spread base extra = fold (\<lambda>(k, v) acc. AList.update k v acc) extra base"

definition stringify :: "(string \<times> json option) list \<Rightarrow> json" where
  "stringify kvs = JObj (concat (map (\<lambda>(k, v). field k v) kvs))"

definition save_and_load ::
  "(json option \<Rightarrow> json option) \<Rightarrow> dir \<Rightarrow> string \<Rightarrow> json \<Rightarrow> (error + LoadedSkill) \<times> dir" where
  "save_and_load vi ws slug' sourceMetadata =
     (case saveSourceMetadata ws slug' sourceMetadata of
        None \<Rightarrow> (Inl EISDIR, ws)
      | Some ws' \<Rightarrow>
          (case loadSkill vi ws' slug' of
             None \<Rightarrow> (Inl (Error ''Failed to load imported skill''), ws')
           | Some sk \<Rightarrow> (Inr sk, ws')))"

definition copy_save_load ::
  "(json option \<Rightarrow> json option) \<Rightarrow> dir \<Rightarrow> dir \<Rightarrow> string \<Rightarrow> json \<Rightarrow> (error + LoadedSkill) \<times> dir" where
  "copy_save_load vi src ws slug' sourceMetadata =
     (case copyDirectory src ws slug' of
        (Some e, ws1) \<Rightarrow> (Inl e, ws1)
      | (None, ws1) \<Rightarrow> save_and_load vi ws1 slug' sourceMetadata)"

subsection \<open>Zip\<close>

text \<open>The directory that holds \<open>SKILL.md\<close>: the root of the archive, or else the first
  immediate subdirectory with one; with it, the path the slug is taken from. An error of
  \<open>AdmZip\<close> passes through the import as it is.\<close>

definition find_skill_dir :: "string \<Rightarrow> string \<Rightarrow> dir \<Rightarrow> (string \<times> dir) option" where
  "find_skill_dir tmp zipPath ex =
     (if validateSkillDirectory (Some (Dir ex)) then Some (zipPath, ex)
      else (case find (\<lambda>(n, x). is_dir (Some x) \<and> validateSkillDirectory (Some x)) ex of
              None \<Rightarrow> None
            | Some (n, x) \<Rightarrow> Some (tmp @ ''/'' @ n, entries (Some x))))"

definition importSkillFromZip ::
  "(json option \<Rightarrow> json option) \<Rightarrow> world \<Rightarrow> dir \<Rightarrow> string \<Rightarrow> (string \<times> json option) list
     \<Rightarrow> (error + LoadedSkill) \<times> dir" where
  "importSkillFromZip vi w ws zipPath source' =
     (if localfs w zipPath = None then (Inl (Error (''ZIP file not found: '' @ zipPath)), ws)
      else (case archive w zipPath of
              Inl msg \<Rightarrow> (Inl (Error msg), ws)
            | Inr ex \<Rightarrow>
                (case find_skill_dir (tempDir w) zipPath ex of
                   None \<Rightarrow> (Inl (Error ''ZIP archive does not contain a valid SKILL.md file''), ws)
                 | Some (slugPath, src) \<Rightarrow>
                     copy_save_load vi src ws
                       (resolveSlugConflict ws (extractSlugFromPath slugPath))
                       (stringify (spread [(''type'', Some (JStr ''zip'')),
                                           (''installedAt'', Some (JStr (now w)))] source')))))"

subsection \<open>Folder\<close>

definition importSkillFromFolder ::
  "(json option \<Rightarrow> json option) \<Rightarrow> world \<Rightarrow> dir \<Rightarrow> string \<Rightarrow> (string \<times> json option) list
     \<Rightarrow> (error + LoadedSkill) \<times> dir" where
  "importSkillFromFolder vi w ws folderPath source' =
     (if \<not> is_dir (localfs w folderPath)
        then (Inl (Error (''Folder not found: '' @ folderPath)), ws)
      else if \<not> validateSkillDirectory (localfs w folderPath)
        then (Inl (Error ''Folder does not contain a valid SKILL.md file''), ws)
      else copy_save_load vi (entries (localfs w folderPath)) ws
             (resolveSlugConflict ws (extractSlugFromPath folderPath))
             (stringify (spread [(''type'', Some (JStr ''folder'')),
                                 (''installedAt'', Some (JStr (now w)))] source')))"

subsection \<open>Git\<close>

text \<open>The URL shapes the code tests with regular expressions. The import copies the
  entries of the clone other than \<open>.git\<close> one by one with \<open>cpSync\<close>, into the directory
  \<open>mkdirSync\<close> has made: the copy of \<open>copyDirectory\<close>, of those entries.\<close>

definition strip_http :: "string \<Rightarrow> string option" where
  "strip_http u =
     (if prefix ''https://'' u then Some (drop 8 u)
      else if prefix ''http://'' u then Some (drop 7 u) else None)"

definition github_rest :: "string \<Rightarrow> string option" where
  "github_rest u =
     (case strip_http u of
        None \<Rightarrow> None
      | Some r \<Rightarrow> if prefix ''github.com/'' r then Some (drop 11 r) else None)"

definition is_github_repo_url :: "string \<Rightarrow> bool" where
  "is_github_repo_url u =
     (case github_rest u of
        None \<Rightarrow> False
      | Some r \<Rightarrow>
          (case split CHR ''/'' r of
             [owner, repo] \<Rightarrow> owner \<noteq> [] \<and> repo \<noteq> []
           | [owner, repo, rest] \<Rightarrow> owner \<noteq> [] \<and> repo \<noteq> [] \<and> rest = []
           | _ \<Rightarrow> False))"

definition is_http_url :: "string \<Rightarrow> bool" where
  "is_http_url u = (case strip_http u of Some (c # r) \<Rightarrow> \<not> is_newline c | _ \<Rightarrow> False)"

definition is_ssh_url :: "string \<Rightarrow> bool" where
  "is_ssh_url u =
     (prefix ''git@'' u
      \<and> CHR '':'' \<in> set (butlast (tl (takeWhile (\<lambda>c. \<not> is_newline c) (drop 4 u)))))"

definition normalize_git_url :: "string \<Rightarrow> string" where
  "normalize_git_url gitUrl =
     (let u = trim gitUrl
      in if is_github_repo_url u
         then (if endsWith u ''/'' then butlast u else u) @ ''.git'' else u)"

definition repo_name :: "string \<Rightarrow> string" where
  "repo_name gitUrl =
     (let n = replace_first (last (split CHR ''/'' gitUrl)) ''.git'' []
      in if n = [] then ''skill'' else n)"

definition branch_arg :: "string option \<Rightarrow> string option" where
  "branch_arg branch = (case branch of Some b \<Rightarrow> if b = [] then None else Some b | None \<Rightarrow> None)"

definition importSkillFromGit ::
  "(json option \<Rightarrow> json option) \<Rightarrow> world \<Rightarrow> dir \<Rightarrow> string \<Rightarrow> string option
     \<Rightarrow> (error + LoadedSkill) \<times> dir" where
  "importSkillFromGit vi w ws gitUrl branch =
     (if \<not> (is_http_url (normalize_git_url gitUrl) \<or> is_ssh_url (normalize_git_url gitUrl))
        then (Inl (Error ''Invalid Git URL format. Expected HTTP(S) or SSH URL.''), ws)
      else (case git_clone w (normalize_git_url gitUrl) (branch_arg branch) of
              Inl msg \<Rightarrow> (Inl (Error (''Failed to clone repository: '' @ msg)), ws)
            | Inr tree \<Rightarrow>
                if \<not> validateSkillDirectory (Some (Dir tree))
                  then (Inl (Error ''Git repository does not contain a valid SKILL.md file in the root directory''), ws)
                else copy_save_load vi (filter (\<lambda>(n, x). n \<noteq> ''.git'') tree) ws
                       (resolveSlugConflict ws (sanitizeSlug (repo_name gitUrl)))
                       (stringify
                          [(''type'', Some (JStr ''git'')),
                           (''url'', Some (JStr gitUrl)),
                           (''version'',
                              map_option (\<lambda>out. JStr (take 7 (trim out)))
                                (git_rev_parse w (normalize_git_url gitUrl) (branch_arg branch))),
                           (''installedAt'', Some (JStr (now w)))])))"

subsection \<open>File\<close>

text \<open>\<open>content.includes('---')\<close>: a text with front matter holds the delimiter; a JSON
  document is taken not to.\<close>

definition has_delimiter :: "fdata \<Rightarrow> bool" where
  "has_delimiter c =
     (case c of Plain t \<Rightarrow> str_includes t ''---'' | FrontMatter d b \<Rightarrow> True | JsonDoc j \<Rightarrow> False)"

definition importSkillFromFile ::
  "(json option \<Rightarrow> json option) \<Rightarrow> world \<Rightarrow> dir \<Rightarrow> string \<Rightarrow> string option
     \<Rightarrow> (error + LoadedSkill) \<times> dir" where
  "importSkillFromFile vi w ws filePath suggestedSlug =
     (case localfs w filePath of
        Some (File c) \<Rightarrow>
          if toLowerCase (basename filePath []) \<noteq> ''skill.md''
            then (Inl (Error ''File must be named SKILL.md (case-insensitive)''), ws)
          else if \<not> has_delimiter c
            then (Inl (Error ''SKILL.md must contain YAML frontmatter''), ws)
          else (let baseSlug = (case suggestedSlug of
                                  Some h \<Rightarrow> if h \<noteq> [] then h else extractSlugFromPath filePath
                                | None \<Rightarrow> extractSlugFromPath filePath);
                    slug' = resolveSlugConflict ws baseSlug
                in if is_file (skill_dir ws slug') then (Inl EEXIST, ws)
                   else (case write_file (entries (skill_dir ws slug')) ''SKILL.md'' c of
                           None \<Rightarrow> (Inl EISDIR, put_skill_dir ws slug' (entries (skill_dir ws slug')))
                         | Some d \<Rightarrow>
                             save_and_load vi (put_skill_dir ws slug' d) slug'
                               (stringify [(''type'', Some (JStr ''file'')),
                                           (''installedAt'', Some (JStr (now w)))])))
      | _ \<Rightarrow> (Inl (Error (''File not found: '' @ filePath)), ws))"

subsection \<open>Url\<close>

text \<open>
  Paths: \<open>join\<close> of an absolute directory and a relative path, normalised (empty and
  \<open>.\<close> segments dropped, \<open>..\<close> removing the segment before it). After the clone the
  temporary directory holds the checked-out tree: \<open>mount\<close> is the file system with that
  tree at that place.
\<close>

fun normalize :: "string list \<Rightarrow> string list \<Rightarrow> string list" where
  "normalize acc [] = rev acc"
| "normalize acc (x # xs) =
     (if x = [] \<or> x = ''.'' then normalize acc xs
      else if x = ''..'' then normalize (tl acc) xs
      else normalize (x # acc) xs)"

definition segments :: "string \<Rightarrow> string list" where
  "segments p = normalize [] (split CHR ''/'' p)"

definition join_with :: "string \<Rightarrow> string list \<Rightarrow> string" where
  "join_with sep xs = (case xs of [] \<Rightarrow> [] | y # ys \<Rightarrow> y @ concat (map (\<lambda>x. sep @ x) ys))"

definition join :: "string \<Rightarrow> string \<Rightarrow> string" where
  "join a b = ''/'' @ join_with ''/'' (segments (a @ ''/'' @ b))"

fun lookup_path :: "node \<Rightarrow> string list \<Rightarrow> node option" where
  "lookup_path n [] = Some n"
| "lookup_path n (x # xs) =
     (case map_of (entries (Some n)) x of None \<Rightarrow> None | Some m \<Rightarrow> lookup_path m xs)"

definition mount :: "string \<Rightarrow> dir \<Rightarrow> (string \<Rightarrow> node option) \<Rightarrow> string \<Rightarrow> node option" where
  "mount root tree fs p =
     (if prefix (segments root) (segments p)
      then lookup_path (Dir tree) (drop (length (segments root)) (segments p))
      else fs p)"

definition parse_tree_url :: "string \<Rightarrow> (string \<times> string \<times> string \<times> string) option" where
  "parse_tree_url u =
     (case github_rest u of
        None \<Rightarrow> None
      | Some r \<Rightarrow>
          (case split CHR ''/'' r of
             owner # repo # kind # branch # p # ps \<Rightarrow>
               if owner \<noteq> [] \<and> repo \<noteq> [] \<and> (kind = ''tree'' \<or> kind = ''blob'') \<and> branch \<noteq> []
                  \<and> join_with ''/'' (p # ps) \<noteq> []
                  \<and> \<not> list_ex is_newline (join_with ''/'' (p # ps))
               then Some (owner, repo, branch, join_with ''/'' (p # ps)) else None
           | _ \<Rightarrow> None))"

definition import_tree ::
  "(json option \<Rightarrow> json option) \<Rightarrow> world \<Rightarrow> dir \<Rightarrow> string \<Rightarrow> string \<times> string \<times> string \<times> string
     \<Rightarrow> (error + LoadedSkill) \<times> dir" where
  "import_tree vi w ws trimmedUrl m =
     (case m of (owner, repo, branch, path) \<Rightarrow>
        (case git_clone w (''https://github.com/'' @ owner @ ''/'' @ repo @ ''.git'') (Some branch) of
           Inl msg \<Rightarrow> (Inl (Error (''Failed to clone repository: '' @ msg)), ws)
         | Inr tree \<Rightarrow>
             (let fs = mount (tempDir w) tree (localfs w);
                  skillDir = join (tempDir w) path
              in if fs skillDir = None
                   then (Inl (Error (''Path not found in repository: '' @ path)), ws)
                 else if \<not> validateSkillDirectory (fs skillDir)
                   then (Inl (Error (''No valid SKILL.md found at: '' @ path)), ws)
                 else importSkillFromFolder vi (w\<lparr>localfs := fs\<rparr>) ws skillDir
                        [(''type'', Some (JStr ''git'')), (''url'', Some (JStr trimmedUrl))])))"

definition import_download ::
  "(json option \<Rightarrow> json option) \<Rightarrow> world \<Rightarrow> dir \<Rightarrow> string \<Rightarrow> SkillCatalogEntry option
     \<Rightarrow> (error + LoadedSkill) \<times> dir" where
  "import_download vi w ws trimmedUrl catalogEntry =
     (case fetch w trimmedUrl of
        FetchFailed msg \<Rightarrow> (Inl (Error (''Failed to fetch URL: '' @ msg)), ws)
      | Fetched r \<Rightarrow>
          if \<not> (200 \<le> http_status r \<and> http_status r \<le> 299)
            then (Inl (Error (''Failed to download from URL: '' @ show_nat (http_status r)
                               @ '' '' @ http_statusText r)), ws)
          else (let contentType = (case http_contentType r of Some t \<Rightarrow> t | None \<Rightarrow> [])
                in if str_includes contentType ''application/zip'' \<or> endsWith trimmedUrl ''.zip''
                   then importSkillFromZip vi
                          (w\<lparr>localfs := (localfs w)(join (tempDir w) ''skill.zip'' \<mapsto>
                                File (as_text (http_body r))),
                             archive := (archive w)(join (tempDir w) ''skill.zip'' :=
                                as_zip (http_body r))\<rparr>)
                          ws (join (tempDir w) ''skill.zip'')
                          [(''type'', Some (JStr ''skillssh'')), (''url'', Some (JStr trimmedUrl)),
                           (''version'', (case catalogEntry of
                                            None \<Rightarrow> None
                                          | Some e \<Rightarrow> map_option JStr (version e)))]
                   else if str_includes contentType ''text/markdown'' \<or> endsWith trimmedUrl ''.md''
                   then importSkillFromFile vi
                          (w\<lparr>localfs := (localfs w)(join (tempDir w) ''SKILL.md'' \<mapsto>
                                File (as_text (http_body r)))\<rparr>)
                          ws (join (tempDir w) ''SKILL.md'') (map_option entry_slug catalogEntry)
                   else (Inl (Error (''Unsupported file type. Expected ZIP, Markdown file, or Git repository. Got content-type: '' @ contentType)), ws)))"

definition importSkillFromUrl ::
  "(json option \<Rightarrow> json option) \<Rightarrow> world \<Rightarrow> dir \<Rightarrow> string \<Rightarrow> SkillCatalogEntry option
     \<Rightarrow> (error + LoadedSkill) \<times> dir" where
  "importSkillFromUrl vi w ws url catalogEntry =
     (case parse_tree_url (trim url) of
        Some m \<Rightarrow> import_tree vi w ws (trim url) m
      | None \<Rightarrow>
          if is_github_repo_url (trim url) \<or> is_ssh_url (trim url) \<or> endsWith (trim url) ''.git''
            then importSkillFromGit vi w ws (trim url) None
          else import_download vi w ws (trim url) catalogEntry)"

subsection \<open>Slugs of imported skills\<close>

text \<open>The four direct imports as one operation, and the slug candidate that each derives
  from its source before \<open>resolveSlugConflict\<close>.\<close>

datatype import_source =
    FromZip string "(string \<times> json option) list"
  | FromFolder string "(string \<times> json option) list"
  | FromGit string "string option"
  | FromFile string "string option"

definition import_skill ::
  "(json option \<Rightarrow> json option) \<Rightarrow> world \<Rightarrow> dir \<Rightarrow> import_source \<Rightarrow> (error + LoadedSkill) \<times> dir" where
  "import_skill vi w ws src =
     (case src of
        FromZip zipPath source' \<Rightarrow> importSkillFromZip vi w ws zipPath source'
      | FromFolder folderPath source' \<Rightarrow> importSkillFromFolder vi w ws folderPath source'
      | FromGit gitUrl branch \<Rightarrow> importSkillFromGit vi w ws gitUrl branch
      | FromFile filePath suggestedSlug \<Rightarrow> importSkillFromFile vi w ws filePath suggestedSlug)"

definition base_slug :: "world \<Rightarrow> import_source \<Rightarrow> string" where
  "base_slug w src =
     (case src of
        FromZip zipPath source' \<Rightarrow>
          (case archive w zipPath of
             Inl msg \<Rightarrow> []
           | Inr ex \<Rightarrow>
               (case find_skill_dir (tempDir w) zipPath ex of
                  None \<Rightarrow> []
                | Some (slugPath, d) \<Rightarrow> extractSlugFromPath slugPath))
      | FromFolder folderPath source' \<Rightarrow> extractSlugFromPath folderPath
      | FromGit gitUrl branch \<Rightarrow> sanitizeSlug (repo_name gitUrl)
      | FromFile filePath suggestedSlug \<Rightarrow>
          (case suggestedSlug of
             Some h \<Rightarrow> if h \<noteq> [] then h else extractSlugFromPath filePath
           | None \<Rightarrow> extractSlugFromPath filePath))"

lemma loadSkill_exists: "loadSkill vi ws s = Some sk \<Longrightarrow> skillExists ws s \<and> slug sk = s"
  by (auto simp: loadSkill_def skillExists_def is_dir_def
      split: if_splits option.splits node.splits prod.splits)

lemma skill_dir_put_other:
  "s \<noteq> [] \<Longrightarrow> y \<noteq> s \<Longrightarrow> y \<noteq> [] \<Longrightarrow> skill_dir (put_skill_dir ws s d) y = skill_dir ws y"
  by (simp add: skill_dir_def put_skill_dir_def update_conv')

lemma save_and_load_Inr:
  assumes "save_and_load vi ws s j = (Inr sk, ws')"
  shows "slug sk = s \<and> skillExists ws' s
    \<and> (s \<noteq> [] \<longrightarrow> (\<forall>y. y \<noteq> s \<and> y \<noteq> [] \<longrightarrow> skill_dir ws' y = skill_dir ws y))"
  using assms
  by (auto simp: save_and_load_def saveSourceMetadata_def skill_dir_put_other
      split: option.splits dest: loadSkill_exists)

lemma copyDirectory_put:
  "copyDirectory src ws s = (r, ws1) \<Longrightarrow> ws1 = ws \<or> (\<exists>d. ws1 = put_skill_dir ws s d)"
  by (auto simp: copyDirectory_def split: if_splits prod.splits bool.splits)

lemma copy_save_load_Inr:
  assumes "copy_save_load vi src ws s j = (Inr sk, ws')"
  shows "slug sk = s \<and> skillExists ws' s
    \<and> (s \<noteq> [] \<longrightarrow> (\<forall>y. y \<noteq> s \<and> y \<noteq> [] \<longrightarrow> skill_dir ws' y = skill_dir ws y))"
proof -
  from assms obtain ws1 where c: "copyDirectory src ws s = (None, ws1)"
    and s: "save_and_load vi ws1 s j = (Inr sk, ws')"
    by (auto simp: copy_save_load_def split: option.splits prod.splits)
  from copyDirectory_put [OF c]
  have "s \<noteq> [] \<longrightarrow> (\<forall>y. y \<noteq> s \<and> y \<noteq> [] \<longrightarrow> skill_dir ws1 y = skill_dir ws y)"
    by (auto simp: skill_dir_put_other)
  with save_and_load_Inr [OF s] show ?thesis by simp
qed

lemma import_skill_Inr:
  assumes "import_skill vi w ws src = (Inr sk, ws')"
  shows "slug sk = resolveSlugConflict ws (base_slug w src) \<and> skillExists ws' (slug sk)
    \<and> (slug sk \<noteq> [] \<longrightarrow> (\<forall>y. y \<noteq> slug sk \<and> y \<noteq> [] \<longrightarrow> skill_dir ws' y = skill_dir ws y))"
proof (cases src)
  case (FromZip zipPath source')
  with assms show ?thesis
    by (auto simp: import_skill_def base_slug_def importSkillFromZip_def
        split: if_splits option.splits prod.splits sum.splits dest!: copy_save_load_Inr)
next
  case (FromFolder folderPath source')
  with assms show ?thesis
    by (auto simp: import_skill_def base_slug_def importSkillFromFolder_def
        split: if_splits dest!: copy_save_load_Inr)
next
  case (FromGit gitUrl branch)
  with assms show ?thesis
    by (auto simp: import_skill_def base_slug_def importSkillFromGit_def
        split: if_splits sum.splits dest!: copy_save_load_Inr)
next
  case (FromFile filePath suggestedSlug)
  let ?b = "base_slug w src"
  let ?s = "resolveSlugConflict ws ?b"
  from assms FromFile obtain d where
    s: "save_and_load vi (put_skill_dir ws ?s d) ?s
          (stringify [(''type'', Some (JStr ''file'')), (''installedAt'', Some (JStr (now w)))])
        = (Inr sk, ws')"
    by (auto simp: import_skill_def base_slug_def importSkillFromFile_def Let_def
        split: if_splits option.splits node.splits)
  from save_and_load_Inr [OF s] show ?thesis
    by (auto simp: skill_dir_put_other)
qed

lemma skillExists_cong:
  "skill_dir ws' y = skill_dir ws y \<Longrightarrow> skillExists ws' y = skillExists ws y"
  by (simp add: skillExists_def)

lemma show_nat_1: "show_nat 1 = ''1''"
  by code_simp

lemma candidate_1: "candidate x 1 = x @ ''-1''"
  unfolding candidate_def show_nat_1 by simp

lemma digit_char_slug: "d < 10 \<Longrightarrow> is_slug_char (digit_char d)"
proof -
  assume "d < 10"
  then have "d \<in> set [0, 1, 2, 3, 4, 5, 6, 7, 8, 9]" by auto
  moreover have "list_all (\<lambda>d. is_slug_char (digit_char d)) [0, 1, 2, 3, 4, 5, 6, 7, 8, 9]"
    by code_simp
  ultimately show ?thesis unfolding list_all_iff by blast
qed

lemma show_nat_slug: "c \<in> set (show_nat n) \<Longrightarrow> is_slug_char c"
proof (induction n rule: show_nat.induct)
  case (1 n)
  show ?case
  proof (cases "n < 10")
    case True
    with "1.prems" show ?thesis
      by (subst (asm) show_nat.simps) (auto simp: digit_char_slug)
  next
    case False
    with "1.prems" "1.IH" show ?thesis
      by (subst (asm) show_nat.simps) (auto simp: digit_char_slug)
  qed
qed

lemma resolveSlugConflict_chars:
  assumes "list_all is_slug_char b"
  shows "list_all is_slug_char (resolveSlugConflict ws b)"
proof -
  have h: "is_slug_char CHR ''-''" by (simp add: is_slug_char_def)
  have "list_all is_slug_char (candidate b k)" for k
    using assms h unfolding candidate_def list_all_iff by (auto dest: show_nat_slug)
  with slug_loop_form [of ws b b 1] assms show ?thesis
    by (auto simp: resolveSlugConflict_def)
qed

definition no_hint :: "import_source \<Rightarrow> bool" where
  "no_hint src = (case src of FromFile filePath (Some h) \<Rightarrow> h = [] | _ \<Rightarrow> True)"

lemma base_slug_chars: "no_hint src \<Longrightarrow> list_all is_slug_char (base_slug w src)"
  by (auto simp: no_hint_def base_slug_def extractSlugFromPath_def list_all_iff
      dest: sanitizeSlug_chars split: import_source.splits option.splits)

lemma import_slug_chars:
  assumes "import_skill vi w ws src = (Inr sk, ws')" and "no_hint src"
  shows "list_all is_slug_char (slug sk)"
  using import_skill_Inr [OF assms(1)] resolveSlugConflict_chars [OF base_slug_chars [OF assms(2)]]
  by simp

text \<open>A world and a repository for the examples.\<close>

definition skill_md :: "string \<Rightarrow> node" where
  "skill_md n = File (FrontMatter [(''name'', JStr n), (''description'', JStr ''desc'')] ''body'')"

definition demo_repo :: dir where
  "demo_repo = [(''.git'', Dir []), (''README.md'', File (Plain ''readme'')),
     (''skills'', Dir [(''foo'', Dir [(''SKILL.md'', skill_md ''Foo''), (''ref.md'', File (Plain ''x''))]),
                       (''bar'', Dir [(''notes.txt'', File (Plain ''x''))])])]"

definition demo_world :: world where
  "demo_world = \<lparr>now = ''2026-01-26T00:00:00.000Z'',
     tempDir = ''/tmp/skill-import-0011223344556677'',
     localfs = (\<lambda>p. if p = ''/home/u/My Skill'' then Some (Dir [(''SKILL.md'', skill_md ''Mine'')])
                     else if p = ''/home/u/notes''
                       then Some (Dir [(''SKILL.md'', skill_md ''Notes''), (''private.txt'', File (Plain ''x''))])
                     else if p = ''/home/u/___''
                       then Some (Dir [(''SKILL.md'', skill_md ''Outer''),
                                       (''-1'', Dir [(''SKILL.md'', skill_md ''Inner'')])])
                     else if p = ''/home/u/dl/SKILL.md'' then Some (skill_md ''Single'')
                     else if p = ''/home/u/pack.zip'' then Some (File (Plain ''PK''))
                     else None),
     archive = (\<lambda>p. if p = ''/home/u/pack.zip'' then Inr [(''SKILL.md'', skill_md ''Test'')]
                     else Inl ''ADM-ZIP: Invalid or unsupported zip format. No END header found''),
     git_clone = (\<lambda>u b. if u = ''https://github.com/o/r.git'' then Inr demo_repo
                          else if u = ''https://github.com/o/single.git'' then Inr [(''.git'', Dir []), (''SKILL.md'', skill_md ''Single'')]
                          else if u = ''https://github.com/o/demo.git''
                            then Inr [(''.git'', Dir []), (''SKILL.md'', File (Plain ''# Demo, second version''))]
                          else Inl ''fatal: repository not found''),
     git_rev_parse = (\<lambda>u b. Some ''0123456789abcdef0123456789abcdef01234567''),
     git_ls_remote = (\<lambda>u. if u = ''https://github.com/o/single'' then Some (''89abcdef0123456789abcdef0123456701234567'' @ [CHR 0x09] @ ''HEAD'' @ [CHR 0x0A])
                         else None),
     fetch = (\<lambda>u. if u = ''https://example.com/x/SKILL.md'' then
          Fetched \<lparr>http_status = 200, http_statusText = ''OK'', http_contentType = Some ''text/markdown'',
                  http_body = \<lparr>as_zip = Inl ''ADM-ZIP: Invalid or unsupported zip format. No END header found'',
                               as_text = FrontMatter [(''name'', JStr ''Dl''), (''description'', JStr ''d'')] ''b''\<rparr>\<rparr>
        else FetchFailed ''getaddrinfo ENOTFOUND''),
     rm_failure = (\<lambda>s n. None)\<rparr>"

text \<open>
  C2, as amended. When a zip, folder, git or file import returns a skill, its slug names
  no skill that was in the workspace before the import; a second import of the same
  source into the resulting workspace returns a different slug, again of no skill
  present; and when the slug candidate \<open>x\<close> of the source is not empty and the workspace
  held neither \<open>x\<close> nor \<open>x-1\<close> before the first import, the two slugs are \<open>x\<close> and \<open>x-1\<close>.
  The candidate is empty or a single path segment, as every sanitised candidate is; a hint
  of the file import has to be one.
\<close>

theorem import_slug_unique:
  assumes "import_skill vi w ws src = (Inr sk1, ws1)"
    and "base_slug w src = [] \<or> is_segment (base_slug w src)"
  shows "\<not> skillExists ws (slug sk1)
    \<and> (\<forall>sk2 ws2. import_skill vi w ws1 src = (Inr sk2, ws2) \<longrightarrow>
          slug sk2 \<noteq> slug sk1 \<and> \<not> skillExists ws1 (slug sk2)
          \<and> (base_slug w src \<noteq> [] \<and> \<not> skillExists ws (base_slug w src)
               \<and> \<not> skillExists ws (base_slug w src @ ''-1'') \<longrightarrow>
               slug sk1 = base_slug w src \<and> slug sk2 = base_slug w src @ ''-1''))"
proof (intro conjI allI impI)
  from import_skill_Inr [OF assms(1)]
  have s1: "slug sk1 = resolveSlugConflict ws (base_slug w src)"
    and e1: "skillExists ws1 (slug sk1)"
    and o1: "\<And>y. slug sk1 \<noteq> [] \<Longrightarrow> y \<noteq> slug sk1 \<Longrightarrow> y \<noteq> [] \<Longrightarrow> skill_dir ws1 y = skill_dir ws y"
    by auto
  from s1 show "\<not> skillExists ws (slug sk1)" by (simp add: resolveSlugConflict_fresh)
  fix sk2 ws2 assume 2: "import_skill vi w ws1 src = (Inr sk2, ws2)"
  from import_skill_Inr [OF 2] have s2: "slug sk2 = resolveSlugConflict ws1 (base_slug w src)" by simp
  from s2 show f2: "\<not> skillExists ws1 (slug sk2)" by (simp add: resolveSlugConflict_fresh)
  from f2 e1 show "slug sk2 \<noteq> slug sk1" by auto
  assume free: "base_slug w src \<noteq> [] \<and> \<not> skillExists ws (base_slug w src)
    \<and> \<not> skillExists ws (base_slug w src @ ''-1'')"
  then have x: "slug sk1 = base_slug w src" using s1 by (simp add: resolveSlugConflict_free)
  have "base_slug w src @ ''-1'' \<noteq> slug sk1" "base_slug w src @ ''-1'' \<noteq> []" "slug sk1 \<noteq> []"
    using x free by simp_all
  from o1 [OF this(3) this(1) this(2)] free
  have "\<not> skillExists ws1 (candidate (base_slug w src) 1)"
    unfolding candidate_1 skillExists_def by simp
  with e1 x have "resolveSlugConflict ws1 (base_slug w src) = candidate (base_slug w src) 1"
    using resolveSlugConflict_taken [of ws1 "base_slug w src"] by simp
  with s2 show "slug sk2 = base_slug w src @ ''-1''"
    unfolding candidate_1 by simp
  from x show "slug sk1 = base_slug w src" .
qed

theorem import_slug_unique_witness:
  "\<exists>sk1 ws1 sk2 ws2.
     import_skill validateIconValue_spec demo_world [] (FromFolder ''/home/u/My Skill'' []) = (Inr sk1, ws1)
     \<and> import_skill validateIconValue_spec demo_world ws1 (FromFolder ''/home/u/My Skill'' []) = (Inr sk2, ws2)
     \<and> slug sk1 = ''my-skill'' \<and> slug sk2 = ''my-skill-1''"
proof -
  let ?src = "FromFolder ''/home/u/My Skill'' []"
  let ?r1 = "import_skill validateIconValue_spec demo_world [] ?src"
  let ?r2 = "import_skill validateIconValue_spec demo_world (snd ?r1) ?src"
  have "\<not> isl (fst ?r1)" by code_simp
  then obtain sk1 where 1: "?r1 = (Inr sk1, snd ?r1)"
    by (cases "fst ?r1") (auto simp: prod_eq_iff)
  have "\<not> isl (fst ?r2)" by code_simp
  then obtain sk2 where 2: "?r2 = (Inr sk2, snd ?r2)"
    by (cases "fst ?r2") (auto simp: prod_eq_iff)
  have b: "base_slug demo_world ?src = ''my-skill''" by code_simp
  have g: "base_slug demo_world ?src = [] \<or> is_segment (base_slug demo_world ?src)"
    unfolding b by code_simp
  have f: "''my-skill'' \<noteq> [] \<and> \<not> skillExists [] ''my-skill''
      \<and> \<not> skillExists [] (''my-skill'' @ ''-1'')"
    by (simp add: skillExists_def skill_dir_def)
  from import_slug_unique [OF 1 g] have
    "import_skill validateIconValue_spec demo_world (snd ?r1) ?src = (Inr sk2, snd ?r2) \<longrightarrow>
       (base_slug demo_world ?src \<noteq> [] \<and> \<not> skillExists [] (base_slug demo_world ?src)
          \<and> \<not> skillExists [] (base_slug demo_world ?src @ ''-1'') \<longrightarrow>
        slug sk1 = base_slug demo_world ?src \<and> slug sk2 = base_slug demo_world ?src @ ''-1'')"
    by blast
  with 2 b f have "slug sk1 = ''my-skill'' \<and> slug sk2 = ''my-skill-1''" by simp
  with 1 2 show ?thesis by blast
qed

text \<open>
  The claim as stated fails when the candidate is taken: with a skill \<open>my-skill\<close> in the
  workspace, importing the folder \<open>My Skill\<close> twice gives \<open>my-skill-1\<close> and
  \<open>my-skill-2\<close>.
\<close>

theorem import_twice_taken:
  "base_slug demo_world (FromFolder ''/home/u/My Skill'' []) = ''my-skill''
   \<and> map_sum id slug (fst (import_skill validateIconValue_spec demo_world
        [(''my-skill'', Dir [(''SKILL.md'', skill_md ''Old'')])] (FromFolder ''/home/u/My Skill'' [])))
       = Inr ''my-skill-1''
   \<and> map_sum id slug (fst (import_skill validateIconValue_spec demo_world
        (snd (import_skill validateIconValue_spec demo_world
           [(''my-skill'', Dir [(''SKILL.md'', skill_md ''Old'')])] (FromFolder ''/home/u/My Skill'' [])))
        (FromFolder ''/home/u/My Skill'' [])))
       = Inr ''my-skill-2''"
  by code_simp

text \<open>
  With the empty candidate the skill directory is the skills directory itself. The folder
  \<open>___\<close>, whose candidate is empty, holds a subdirectory \<open>-1\<close> with a \<open>SKILL.md\<close>; the
  first import copies it to the top of the skills directory, where it is a skill \<open>-1\<close>,
  and the second import gets the slug \<open>-2\<close>.
\<close>

lemma import_twice_empty_slug:
  "base_slug demo_world (FromFolder ''/home/u/___'' []) = []
   \<and> map_sum id slug (fst (import_skill validateIconValue_spec demo_world []
        (FromFolder ''/home/u/___'' []))) = Inr []
   \<and> map_sum id slug (fst (import_skill validateIconValue_spec demo_world
        (snd (import_skill validateIconValue_spec demo_world [] (FromFolder ''/home/u/___'' [])))
        (FromFolder ''/home/u/___'' [])))
       = Inr ''-2''"
  by code_simp

text \<open>
  C3. The slug under which an import stores a skill consists of lower-case letters, digits
  and hyphens. The zip, folder and git imports, and the file import without a hint, keep
  to this (\<open>import_slug_chars\<close>). The file import with a caller-supplied hint does not:
  the hint goes to \<open>resolveSlugConflict\<close> without passing \<open>sanitizeSlug\<close>. With the hint
  \<open>../Evil\<close> the skill is stored under \<open>../Evil\<close>, and so it is when the hint is the slug
  of the catalog entry given to the url import.
\<close>

theorem importSkillFromFile_hint_unsanitized:
  "map_sum id slug (fst (importSkillFromFile validateIconValue_spec demo_world []
      ''/home/u/dl/SKILL.md'' (Some ''../Evil''))) = Inr ''../Evil''
   \<and> map (\<lambda>(k, n). k) (snd (importSkillFromFile validateIconValue_spec demo_world []
      ''/home/u/dl/SKILL.md'' (Some ''../Evil''))) = [''../Evil'']
   \<and> \<not> list_all is_slug_char ''../Evil''
   \<and> map_sum id slug (fst (importSkillFromUrl validateIconValue_spec demo_world []
      ''https://example.com/x/SKILL.md''
      (Some \<lparr>entry_slug = ''../Evil'', entry_name = ''Evil'', entry_description = ''d'',
             author = None, version = None, downloadUrl = ''https://example.com/x/SKILL.md'',
             iconUrl = None, tags = None, downloads = None, lastUpdated = None\<rparr>))) = Inr ''../Evil''"
  by code_simp


subsection \<open>Import from a GitHub tree URL\<close>

text \<open>A name in a URL: not empty, not \<open>.\<close> or \<open>..\<close>, without a slash and without white
  space. A path names an entry of the repository when each of its segments is such a
  name.\<close>

definition url_name :: "string \<Rightarrow> bool" where
  "url_name x = (x \<noteq> [] \<and> x \<noteq> ''.'' \<and> x \<noteq> ''..'' \<and> list_all (\<lambda>c. c \<noteq> CHR ''/'' \<and> \<not> is_space c) x)"

lemma split_nonempty: "split c xs \<noteq> []"
  by (induction xs) (auto split: list.splits)

lemma split_no_sep: "c \<notin> set a \<Longrightarrow> split c a = [a]"
  by (induction a) auto

lemma split_append: "split c (a @ c # b) = split c a @ split c b"
  by (induction a) (auto split: list.splits simp: split_nonempty)

lemma split_elems: "x \<in> set (split c xs) \<Longrightarrow> c \<notin> set x"
  by (induction xs arbitrary: x) (auto split: if_splits list.splits)

lemma join_with_split: "join_with [c] (split c xs) = xs"
proof (induction xs)
  case Nil
  show ?case by (simp add: join_with_def)
next
  case (Cons x xs)
  obtain y ys where s: "split c xs = y # ys" using split_nonempty [of c xs] by (cases "split c xs") auto
  with Cons show ?case by (auto simp: join_with_def)
qed

lemma split_join_with:
  "xs \<noteq> [] \<Longrightarrow> \<forall>x \<in> set xs. c \<notin> set x \<Longrightarrow> split c (join_with [c] xs) = xs"
proof (induction xs)
  case Nil
  then show ?case by simp
next
  case (Cons x xs)
  show ?case
  proof (cases xs)
    case Nil
    with Cons.prems show ?thesis by (simp add: join_with_def split_no_sep)
  next
    case (Cons y ys)
    with Cons.IH Cons.prems have ih: "split c (join_with [c] xs) = xs" by simp
    have "join_with [c] (x # xs) = x @ c # join_with [c] xs"
      using Cons by (simp add: join_with_def)
    with ih Cons.prems show ?thesis by (simp add: split_append split_no_sep)
  qed
qed

definition proper :: "string \<Rightarrow> bool" where
  "proper x = (x \<noteq> [] \<and> x \<noteq> ''.'' \<and> x \<noteq> ''..'')"

lemma normalize_proper: "list_all proper xs \<Longrightarrow> normalize acc xs = rev acc @ xs"
  by (induction xs arbitrary: acc) (auto simp: proper_def)

lemma normalize_append: "normalize acc (xs @ ys) = normalize (rev (normalize acc xs)) ys"
  by (induction acc xs rule: normalize.induct) auto

lemma proper_tl: "list_all proper acc \<Longrightarrow> list_all proper (tl acc)"
  by (cases acc) auto

lemma normalize_all_proper: "list_all proper acc \<Longrightarrow> list_all proper (normalize acc xs)"
proof (induction acc xs rule: normalize.induct)
  case (1 acc)
  then show ?case by simp
next
  case (2 acc x xs)
  have t: "list_all proper (tl acc)" using "2.prems" by (rule proper_tl)
  have px: "x \<noteq> [] \<Longrightarrow> x \<noteq> ''.'' \<Longrightarrow> x \<noteq> ''..'' \<Longrightarrow> proper x" by (simp add: proper_def)
  from 2 t px show ?case by auto
qed

lemma normalize_no_sep:
  "list_all (\<lambda>x. c \<notin> set x) acc \<Longrightarrow> list_all (\<lambda>x. c \<notin> set x) xs \<Longrightarrow>
   list_all (\<lambda>x. c \<notin> set x) (normalize acc xs)"
proof (induction acc xs rule: normalize.induct)
  case (1 acc)
  then show ?case by simp
next
  case (2 acc x xs)
  have "list_all (\<lambda>x. c \<notin> set x) (tl acc)" using "2.prems"(1) by (cases acc) auto
  with 2 show ?case by auto
qed

lemma segments_proper: "list_all proper (segments p)"
  by (simp add: segments_def normalize_all_proper)

lemma segments_no_sep: "\<forall>x \<in> set (segments p). CHR ''/'' \<notin> set x"
proof -
  have "list_all (\<lambda>x. CHR ''/'' \<notin> set x) (split CHR ''/'' p)"
    unfolding list_all_iff by (auto dest: split_elems)
  then have "list_all (\<lambda>x. CHR ''/'' \<notin> set x) (segments p)"
    unfolding segments_def by (intro normalize_no_sep) simp_all
  then show ?thesis unfolding list_all_iff .
qed

lemma segments_rooted: "segments (CHR ''/'' # join_with ''/'' (segments p)) = segments p"
proof (cases "segments p")
  case Nil
  then show ?thesis by (simp add: segments_def join_with_def)
next
  case (Cons a as)
  then have "split CHR ''/'' (join_with ''/'' (segments p)) = segments p"
    using split_join_with [of "segments p" "CHR ''/''"] segments_no_sep [of p] by simp
  then have "segments (CHR ''/'' # join_with ''/'' (segments p)) = normalize [] (segments p)"
    by (simp add: segments_def)
  then show ?thesis by (simp add: normalize_proper segments_proper)
qed

lemma segments_join:
  assumes "list_all proper (split CHR ''/'' b)"
  shows "segments (join a b) = segments a @ split CHR ''/'' b"
proof -
  have "segments (join a b) = segments (a @ ''/'' @ b)"
    by (simp add: join_def segments_rooted)
  also have "\<dots> = normalize (rev (segments a)) (split CHR ''/'' b)"
    by (simp add: segments_def split_append normalize_append)
  also have "\<dots> = segments a @ split CHR ''/'' b"
    using assms by (simp add: normalize_proper)
  finally show ?thesis .
qed

lemma mount_join:
  assumes "list_all proper (split CHR ''/'' b)"
  shows "mount a tree fs (join a b) = lookup_path (Dir tree) (split CHR ''/'' b)"
  by (simp add: mount_def segments_join [OF assms])

lemma merge_dir_other:
  "merge_dir d src = (True, m) \<Longrightarrow> k \<notin> fst ` set src \<Longrightarrow> map_of m k = map_of d k"
proof (induction d src arbitrary: m rule: merge_dir.induct)
  case (1 d)
  then show ?case by simp
next
  case (2 d name x src)
  then show ?case
    by (auto simp: update_conv' split: option.splits node.splits prod.splits bool.splits)
qed

lemma merge_dir_file:
  "merge_dir d src = (True, m) \<Longrightarrow> distinct (map fst src) \<Longrightarrow> map_of src k = Some (File c) \<Longrightarrow>
   map_of m k = Some (File c)"
proof (induction d src arbitrary: m rule: merge_dir.induct)
  case (1 d)
  then show ?case by simp
next
  case (2 d name x src)
  show ?case
  proof (cases "k = name")
    case True
    with "2.prems" have x: "x = File c" and nk: "k \<notin> fst ` set src" by auto
    from "2.prems"(1) x obtain d' where d': "merge_dir d' src = (True, m)" "map_of d' k = Some (File c)"
      by (auto simp: update_conv' True split: option.splits node.splits)
    from merge_dir_other [OF d'(1) nk] d'(2) show ?thesis by simp
  next
    case False
    with "2.prems" have k: "map_of src k = Some (File c)" and dist: "distinct (map fst src)" by auto
    show ?thesis
    proof (cases "map_of d name")
      case None
      with "2.prems"(1) have "merge_dir (AList.update name x d) src = (True, m)" by simp
      from "2.IH"(1) [OF refl None this dist k] show ?thesis .
    next
      case (Some y)
      show ?thesis
      proof (cases y)
        case (File c')
        with Some "2.prems"(1) obtain c'' where x: "x = File c''"
          and m: "merge_dir (AList.update name (File c'') d) src = (True, m)"
          by (cases x) auto
        from "2.IH"(2) [OF refl Some File x m dist k] show ?thesis .
      next
        case (Dir d')
        with Some "2.prems"(1) obtain src' m' where x: "x = Dir src'"
          and m': "merge_dir d' src' = (True, m')"
          and m: "merge_dir (AList.update name (Dir m') d) src = (True, m)"
          by (cases x) (auto split: prod.splits bool.splits)
        from "2.IH"(4) [OF refl Some Dir x m' [symmetric] refl m dist k] show ?thesis .
      qed
    qed
  qed
qed

lemma merge_dir_fresh:
  "distinct (map fst src) \<Longrightarrow> fst ` set src \<inter> fst ` set d = {} \<Longrightarrow>
   merge_dir d src = (True, d @ src)"
proof (induction src arbitrary: d)
  case Nil
  show ?case by simp
next
  case (Cons a src)
  obtain name x where a: "a = (name, x)" by (cases a)
  from Cons.prems a have n: "name \<notin> fst ` set d" by auto
  then have none: "map_of d name = None" by (simp add: map_of_eq_None_iff)
  have "merge_dir d (a # src) = merge_dir (AList.update name x d) src"
    by (simp add: a none)
  also have "\<dots> = merge_dir (d @ [(name, x)]) src" using n by (simp add: update_fresh)
  also have "\<dots> = (True, (d @ [(name, x)]) @ src)"
    using Cons.prems a by (intro Cons.IH) auto
  finally show ?case by (simp add: a)
qed

lemma url_name_props:
  assumes "url_name x"
  shows "x \<noteq> []" and "proper x" and "CHR ''/'' \<notin> set x" and "\<forall>c \<in> set x. \<not> is_space c"
  using assms by (auto simp: url_name_def proper_def list_all_iff)

lemma split_chars: "c \<in> set xs \<Longrightarrow> c = sep \<or> (\<exists>x \<in> set (split sep xs). c \<in> set x)"
  by (induction xs) (auto split: list.splits)

lemma split_single: "split c xs = [y] \<Longrightarrow> y = xs"
  using join_with_split [of c xs] by (simp add: join_with_def)

lemma split_last_suffix: "suffix (last (split c xs)) xs"
proof (induction xs)
  case Nil
  show ?case by simp
next
  case (Cons x xs)
  obtain y ys where s: "split c xs = y # ys"
    using split_nonempty [of c xs] by (cases "split c xs") auto
  with Cons show ?case
    by (cases ys) (auto simp: suffix_Cons dest: split_single)
qed

lemma is_newline_space: "is_newline c \<Longrightarrow> is_space c"
  by (auto simp: is_newline_def is_space_def)

lemma path_props:
  assumes "list_all url_name (split CHR ''/'' path)"
  shows "path \<noteq> []" and "\<not> is_space (last path)" and "\<not> list_ex is_newline path"
    and "list_all proper (split CHR ''/'' path)"
proof -
  let ?l = "last (split CHR ''/'' path)"
  have "?l \<in> set (split CHR ''/'' path)" by (simp add: split_nonempty)
  with assms have l: "url_name ?l" by (simp add: list_all_iff)
  from split_last_suffix [of "CHR ''/''" path] obtain pre where p: "path = pre @ ?l"
    by (auto simp: suffix_def)
  from l have ne: "?l \<noteq> []" by (rule url_name_props)
  with p show "path \<noteq> []" by auto
  from p ne have "last path = last ?l" by (metis last_appendR)
  moreover from ne have "last ?l \<in> set ?l" by simp
  ultimately show "\<not> is_space (last path)" using url_name_props(4) [OF l] by simp
  show "\<not> list_ex is_newline path"
  proof
    assume "list_ex is_newline path"
    then obtain c where c: "c \<in> set path" "is_newline c" by (auto simp: list_ex_iff)
    from split_chars [OF c(1), of "CHR ''/''"] show False
    proof
      assume "c = CHR ''/''"
      with c(2) show False by (simp add: is_newline_def)
    next
      assume "\<exists>x \<in> set (split CHR ''/'' path). c \<in> set x"
      then obtain x where "x \<in> set (split CHR ''/'' path)" "c \<in> set x" by blast
      with assms have "\<not> is_space c" by (auto simp: list_all_iff dest: url_name_props(4))
      with c(2) show False by (simp add: is_newline_space)
    qed
  qed
  from assms show "list_all proper (split CHR ''/'' path)"
    by (auto simp: list_all_iff dest: url_name_props(2))
qed

lemma trim_id: "s \<noteq> [] \<Longrightarrow> \<not> is_space (hd s) \<Longrightarrow> \<not> is_space (last s) \<Longrightarrow> trim s = s"
proof -
  assume s: "s \<noteq> []" and h: "\<not> is_space (hd s)" and l: "\<not> is_space (last s)"
  from s h have 1: "dropWhile is_space s = s" by (cases s) auto
  from s l have "dropWhile is_space (rev s) = rev s"
    by (cases "rev s") (auto simp: last_rev [symmetric] hd_rev)
  with 1 show ?thesis by (simp add: trim_def)
qed

lemma tree_url_parse:
  assumes url: "url = ''https://github.com/'' @ owner @ ''/'' @ repo @ ''/tree/'' @ branch @ ''/'' @ path"
    and names: "url_name owner" "url_name repo" "url_name branch"
      "list_all url_name (split CHR ''/'' path)"
  shows "trim url = url" and "parse_tree_url url = Some (owner, repo, branch, path)"
proof -
  note pp = path_props [OF names(4)]
  have "last url = last path" using pp(1) by (simp add: url)
  with pp(2) show "trim url = url"
    by (intro trim_id) (simp_all add: url is_space_def)
  have g: "github_rest url = Some (owner @ ''/'' @ repo @ ''/tree/'' @ branch @ ''/'' @ path)"
    by (simp add: url github_rest_def strip_http_def)
  obtain p ps where ps: "split CHR ''/'' path = p # ps"
    using split_nonempty [of "CHR ''/''" path] by (cases "split CHR ''/'' path") auto
  have sp: "split CHR ''/'' (owner @ ''/'' @ repo @ ''/tree/'' @ branch @ ''/'' @ path)
      = owner # repo # ''tree'' # branch # p # ps"
    using url_name_props(3) [OF names(1)] url_name_props(3) [OF names(2)]
      url_name_props(3) [OF names(3)] ps
    by (simp add: split_append split_no_sep)
  have j: "join_with ''/'' (p # ps) = path"
    using join_with_split [of "CHR ''/''" path] ps by simp
  show "parse_tree_url url = Some (owner, repo, branch, path)"
    using url_name_props(1) [OF names(1)] url_name_props(1) [OF names(2)]
      url_name_props(1) [OF names(3)] pp(1) pp(3)
    by (simp add: parse_tree_url_def g [simplified] sp [simplified] j)
qed

lemma save_and_load_source:
  assumes "save_and_load vi ws s j = (Inr sk, ws')"
  shows "source sk = Some j" and "loadSkill vi ws' s = Some sk"
    and "k \<noteq> ''.source.json'' \<Longrightarrow>
         map_of (entries (skill_dir ws' s)) k = map_of (entries (skill_dir ws s)) k"
    and "ws' = put_skill_dir ws s
           (AList.update ''.source.json'' (File (JsonDoc j)) (entries (skill_dir ws s)))"
  using assms
  by (auto simp: save_and_load_def saveSourceMetadata_def write_file_def loadSkill_def
      load_source_def update_conv'
      split: option.splits if_splits node.splits prod.splits)

lemma put_skill_dir_twice [simp]:
  "put_skill_dir (put_skill_dir ws s a) s b = put_skill_dir ws s b"
  by (simp add: put_skill_dir_def)

lemma copyDirectory_file:
  assumes "copyDirectory src ws s = (None, ws1)" "distinct (map fst src)" "map_of src k = Some (File c)"
  shows "map_of (entries (skill_dir ws1 s)) k = Some (File c)"
  using assms
  by (auto simp: copyDirectory_def split: if_splits prod.splits bool.splits dest: merge_dir_file)

lemma copyDirectory_fresh:
  assumes "copyDirectory src ws s = (None, ws1)" "distinct (map fst src)"
    "entries (skill_dir ws s) = []"
  shows "ws1 = put_skill_dir ws s src"
  using assms merge_dir_fresh [of src "[]"]
  by (auto simp: copyDirectory_def split: if_splits prod.splits bool.splits)

lemma validateSkillDirectory_dir:
  "validateSkillDirectory n \<Longrightarrow> is_dir n \<and> is_file (map_of (entries n) ''SKILL.md'')"
  by (auto simp: validateSkillDirectory_def is_dir_def is_file_def entries_def
      split: option.splits node.splits)

text \<open>
  For a URL \<open>https://github.com/<owner>/<repo>/tree/<branch>/<path>\<close> (owner, repository
  and branch names, and a path whose segments are names) and a clone that succeeds: when
  the path names nothing in the cloned tree the import fails with "Path not found in
  repository"; when what it names holds no \<open>SKILL.md\<close> file it fails with "No valid
  SKILL.md found"; and when the import returns a skill, the skill is the one stored under
  its slug, its persisted provenance is type \<open>git\<close> with the original URL, its
  \<open>SKILL.md\<close> is the one of the named subdirectory, and, when nothing was at the place
  of its directory before, the directory holds exactly the entries of the named
  subdirectory, with the sidecar written among them.
\<close>

lemma importSkillFromUrl_tree_subdirectory:
  assumes url: "url = ''https://github.com/'' @ owner @ ''/'' @ repo @ ''/tree/'' @ branch @ ''/'' @ path"
    and names: "url_name owner" "url_name repo" "url_name branch"
      "list_all url_name (split CHR ''/'' path)"
    and clone: "git_clone w (''https://github.com/'' @ owner @ ''/'' @ repo @ ''.git'') (Some branch) = Inr tree"
  shows "(case lookup_path (Dir tree) (split CHR ''/'' path) of
            None \<Rightarrow>
              importSkillFromUrl vi w ws url catalogEntry
                = (Inl (Error (''Path not found in repository: '' @ path)), ws)
          | Some n \<Rightarrow>
              if \<not> validateSkillDirectory (Some n)
              then importSkillFromUrl vi w ws url catalogEntry
                     = (Inl (Error (''No valid SKILL.md found at: '' @ path)), ws)
              else (\<forall>sk ws'. importSkillFromUrl vi w ws url catalogEntry = (Inr sk, ws')
                       \<and> distinct (map fst (entries (Some n))) \<longrightarrow>
                     source sk = Some (JObj [(''type'', JStr ''git''),
                                             (''installedAt'', JStr (now w)),
                                             (''url'', JStr url)])
                     \<and> loadSkill vi ws' (slug sk) = Some sk
                     \<and> slug sk = resolveSlugConflict ws (extractSlugFromPath (join (tempDir w) path))
                     \<and> map_of (entries (skill_dir ws' (slug sk))) ''SKILL.md''
                         = map_of (entries (Some n)) ''SKILL.md''
                     \<and> (entries (skill_dir ws (slug sk)) = [] \<longrightarrow>
                          ws' = put_skill_dir ws (slug sk)
                                  (AList.update ''.source.json''
                                     (File (JsonDoc (JObj [(''type'', JStr ''git''),
                                                           (''installedAt'', JStr (now w)),
                                                           (''url'', JStr url)])))
                                     (entries (Some n))))))"
proof -
  note parse = tree_url_parse [OF url names]
  note pp = path_props [OF names(4)]
  let ?fs = "mount (tempDir w) tree (localfs w)"
  let ?dir = "join (tempDir w) path"
  have fs: "?fs ?dir = lookup_path (Dir tree) (split CHR ''/'' path)"
    by (rule mount_join [OF pp(4)])
  have imp: "importSkillFromUrl vi w ws url catalogEntry = import_tree vi w ws url (owner, repo, branch, path)"
    by (simp add: importSkillFromUrl_def parse)
  show ?thesis
  proof (cases "lookup_path (Dir tree) (split CHR ''/'' path)")
    case None
    then show ?thesis
      by (simp add: imp import_tree_def clone [simplified] fs Let_def)
  next
    case (Some n)
    show ?thesis
    proof (cases "validateSkillDirectory (Some n)")
      case False
      with Some show ?thesis
        by (simp add: imp import_tree_def clone [simplified] fs Let_def)
    next
      case True
      let ?j = "JObj [(''type'', JStr ''git''), (''installedAt'', JStr (now w)), (''url'', JStr url)]"
      let ?slug = "resolveSlugConflict ws (extractSlugFromPath ?dir)"
      have st: "stringify (spread [(''type'', Some (JStr ''folder'')), (''installedAt'', Some (JStr (now w)))]
                  [(''type'', Some (JStr ''git'')), (''url'', Some (JStr url))]) = ?j"
        by (simp add: stringify_def spread_def field_def)
      from validateSkillDirectory_dir [OF True] have d: "is_dir (Some n)"
        and f: "is_file (map_of (entries (Some n)) ''SKILL.md'')" by simp_all
      have run: "importSkillFromUrl vi w ws url catalogEntry
          = copy_save_load vi (entries (Some n)) ws ?slug ?j"
        using Some True d
        by (simp add: imp import_tree_def clone [simplified] fs Let_def importSkillFromFolder_def st)
      {
        fix sk ws'
        assume r: "importSkillFromUrl vi w ws url catalogEntry = (Inr sk, ws')"
          and dist: "distinct (map fst (entries (Some n)))"
        from r run obtain ws1 where c: "copyDirectory (entries (Some n)) ws ?slug = (None, ws1)"
          and s: "save_and_load vi ws1 ?slug ?j = (Inr sk, ws')"
          by (auto simp: copy_save_load_def split: option.splits prod.splits)
        from f obtain c' where c': "map_of (entries (Some n)) ''SKILL.md'' = Some (File c')"
          by (auto simp: is_file_def split: option.splits node.splits)
        from save_and_load_Inr [OF s] have sl: "slug sk = ?slug" by simp
        have 1: "source sk = Some ?j" by (rule save_and_load_source(1) [OF s])
        have 2: "loadSkill vi ws' (slug sk) = Some sk"
          using save_and_load_source(2) [OF s] sl by simp
        have 3: "map_of (entries (skill_dir ws' (slug sk))) ''SKILL.md''
            = map_of (entries (Some n)) ''SKILL.md''"
          using save_and_load_source(3) [OF s, of "''SKILL.md''"] copyDirectory_file [OF c dist c'] c' sl
          by simp
        have 4: "entries (skill_dir ws (slug sk)) = [] \<longrightarrow>
            ws' = put_skill_dir ws (slug sk)
                    (AList.update ''.source.json'' (File (JsonDoc ?j)) (entries (Some n)))"
        proof
          assume "entries (skill_dir ws (slug sk)) = []"
          with sl have "entries (skill_dir ws ?slug) = []" by simp
          from copyDirectory_fresh [OF c dist this]
          have ws1: "ws1 = put_skill_dir ws ?slug (entries (Some n))" .
          from save_and_load_source(4) [OF s] show "ws' = put_skill_dir ws (slug sk)
                    (AList.update ''.source.json'' (File (JsonDoc ?j)) (entries (Some n)))"
            unfolding ws1 sl by simp
        qed
        from 1 2 3 4 sl
        have "source sk = Some ?j \<and> loadSkill vi ws' (slug sk) = Some sk
          \<and> slug sk = ?slug
          \<and> map_of (entries (skill_dir ws' (slug sk))) ''SKILL.md'' = map_of (entries (Some n)) ''SKILL.md''
          \<and> (entries (skill_dir ws (slug sk)) = [] \<longrightarrow>
              ws' = put_skill_dir ws (slug sk)
                      (AList.update ''.source.json'' (File (JsonDoc ?j)) (entries (Some n))))"
          by simp
      }
      with Some True show ?thesis by auto
    qed
  qed
qed

lemma importSkillFromUrl_tree_example:
  "importSkillFromUrl validateIconValue_spec demo_world []
        ''https://github.com/o/r/tree/main/skills/foo'' None
     = (Inr \<lparr>slug = ''foo'',
             metadata = \<lparr>name = Some (JStr ''Foo''), description = Some (JStr ''desc''),
                         globs = None, alwaysAllow = None, icon = None\<rparr>,
             content = ''body'',
             source = Some (JObj [(''type'', JStr ''git''),
                                  (''installedAt'', JStr ''2026-01-26T00:00:00.000Z''),
                                  (''url'', JStr ''https://github.com/o/r/tree/main/skills/foo'')])\<rparr>,
        [(''foo'', Dir [(''SKILL.md'', skill_md ''Foo''), (''ref.md'', File (Plain ''x'')),
                        (''.source.json'', File (JsonDoc (JObj [(''type'', JStr ''git''),
                                  (''installedAt'', JStr ''2026-01-26T00:00:00.000Z''),
                                  (''url'', JStr ''https://github.com/o/r/tree/main/skills/foo'')])))])])
   \<and> importSkillFromUrl validateIconValue_spec demo_world []
        ''https://github.com/o/r/tree/main/skills/nope'' None
       = (Inl (Error ''Path not found in repository: skills/nope''), [])
   \<and> importSkillFromUrl validateIconValue_spec demo_world []
        ''https://github.com/o/r/tree/main/skills/bar'' None
       = (Inl (Error ''No valid SKILL.md found at: skills/bar''), [])"
  by code_simp

text \<open>
  C8. For a GitHub tree URL, \<open>importSkillFromUrl\<close> is to import exactly the named
  subdirectory of the cloned repository, failing when that subpath is missing or holds no
  \<open>SKILL.md\<close>, and to record the provenance \<open>git\<close> with the URL. For a path whose
  segments are names it does (\<open>importSkillFromUrl_tree_subdirectory\<close>). It does not for a
  path that climbs out of the clone: \<open>join(tempDir, path)\<close> resolves \<open>..\<close>, nothing checks
  that the result lies in the temporary directory, and a directory of the local file
  system is imported as if it came from the repository. With the URL below the path
  \<open>../../home/u/notes\<close> leads from the temporary directory to the local folder
  \<open>/home/u/notes\<close>: the repository holds no such path, yet the import returns the skill
  \<open>notes\<close>, made of the files of that folder, with provenance \<open>git\<close> and the URL.
\<close>

theorem importSkillFromUrl_tree_escapes:
  "importSkillFromUrl validateIconValue_spec demo_world []
        ''https://github.com/o/r/tree/main/../../home/u/notes'' None
     = (Inr \<lparr>slug = ''notes'',
             metadata = \<lparr>name = Some (JStr ''Notes''), description = Some (JStr ''desc''),
                         globs = None, alwaysAllow = None, icon = None\<rparr>,
             content = ''body'',
             source = Some (JObj [(''type'', JStr ''git''),
                                  (''installedAt'', JStr ''2026-01-26T00:00:00.000Z''),
                                  (''url'', JStr ''https://github.com/o/r/tree/main/../../home/u/notes'')])\<rparr>,
        [(''notes'', Dir [(''SKILL.md'', skill_md ''Notes''), (''private.txt'', File (Plain ''x'')),
                          (''.source.json'', File (JsonDoc (JObj [(''type'', JStr ''git''),
                                  (''installedAt'', JStr ''2026-01-26T00:00:00.000Z''),
                                  (''url'', JStr ''https://github.com/o/r/tree/main/../../home/u/notes'')])))])])
   \<and> parse_tree_url ''https://github.com/o/r/tree/main/../../home/u/notes''
       = Some (''o'', ''r'', ''main'', ''../../home/u/notes'')
   \<and> git_clone demo_world ''https://github.com/o/r.git'' (Some ''main'') = Inr demo_repo
   \<and> join (tempDir demo_world) ''../../home/u/notes'' = ''/home/u/notes''
   \<and> lookup_path (Dir demo_repo) [''home'', ''u'', ''notes''] = None
   \<and> lookup_path (Dir demo_repo) [''..'', ''..'', ''home'', ''u'', ''notes''] = None
   \<and> localfs demo_world ''/home/u/notes''
       = Some (Dir [(''SKILL.md'', skill_md ''Notes''), (''private.txt'', File (Plain ''x''))])"
  by code_simp


section \<open>Skill update checker\<close>

text \<open>\<open>String(v)\<close>, as a template literal renders a value.\<close>

definition show_int :: "int \<Rightarrow> string" where
  "show_int i = (if i < 0 then ''-'' @ show_nat (nat (- i)) else show_nat (nat i))"

fun js_string :: "json \<Rightarrow> string" where
  "js_string JNull = ''null''"
| "js_string (JBool b) = (if b then ''true'' else ''false'')"
| "js_string (JNum n) = show_int n"
| "js_string (JStr x) = x"
| "js_string (JArr xs) = join_with '','' (map (\<lambda>x. if x = JNull then [] else js_string x) xs)"
| "js_string (JObj kv) = ''[object Object]''"

definition js_to_string :: "json option \<Rightarrow> string" where
  "js_to_string v = (case v of None \<Rightarrow> ''undefined'' | Some j \<Rightarrow> js_string j)"

text \<open>\<open>a !== b\<close> for a string that may be \<open>undefined\<close> and a value read from the
  provenance.\<close>

definition strict_neq :: "string option \<Rightarrow> json option \<Rightarrow> bool" where
  "strict_neq a b =
     (case (a, b) of
        (None, None) \<Rightarrow> False
      | (Some x, Some (JStr y)) \<Rightarrow> x \<noteq> y
      | _ \<Rightarrow> True)"


definition remote_commit :: "string \<Rightarrow> string" where
  "remote_commit stdout =
     take 7 (case split (CHR 0x09) (trim stdout) of [] \<Rightarrow> [] | p # ps \<Rightarrow> p)"

definition checkSkillUpdate :: "world \<Rightarrow> LoadedSkill \<Rightarrow> SkillCatalog option \<Rightarrow> bool" where
  "checkSkillUpdate w skill catalog =
     (if \<not> truthy (source skill) then False
      else if get_prop (source skill) ''type'' = Some (JStr ''skillssh'') then
        (case catalog of
           None \<Rightarrow> False
         | Some c \<Rightarrow>
             (case find (\<lambda>s. entry_slug s = slug skill) (skills c) of
                None \<Rightarrow> False
              | Some entry \<Rightarrow> strict_neq (version entry) (get_prop (source skill) ''version'')))
      else if get_prop (source skill) ''type'' = Some (JStr ''git'') then
        (if \<not> truthy (get_prop (source skill) ''url'') then False
         else (case git_ls_remote w (js_to_string (get_prop (source skill) ''url'')) of
                 None \<Rightarrow> False
               | Some stdout \<Rightarrow>
                   if remote_commit stdout = [] then False
                   else strict_neq (Some (remote_commit stdout)) (get_prop (source skill) ''version'')))
      else False)"




lemma find_distinct_slug:
  assumes "distinct (map entry_slug es)"
  shows "(\<exists>e. find (\<lambda>s. entry_slug s = x) es = Some e \<and> P e)
       = (\<exists>e \<in> set es. entry_slug e = x \<and> P e)"
  using assms
proof (induction es)
  case Nil
  show ?case by simp
next
  case (Cons a es)
  then show ?case by (auto simp: image_iff)
qed

definition demo_skill :: "string \<Rightarrow> json option \<Rightarrow> LoadedSkill" where
  "demo_skill s src = \<lparr>slug = s, metadata = demo_metadata, content = ''body'', source = src\<rparr>"

definition demo_entry :: "string \<Rightarrow> string \<Rightarrow> SkillCatalogEntry" where
  "demo_entry s v = \<lparr>entry_slug = s, entry_name = ''Pdf'', entry_description = ''d'',
     author = Some ''Anthropic'', version = Some v,
     downloadUrl = ''https://github.com/anthropics/skills/tree/main/skills/'' @ s,
     iconUrl = None, tags = Some [''github'', ''anthropic''], downloads = None, lastUpdated = None\<rparr>"

definition demo_catalog :: "SkillCatalogEntry list \<Rightarrow> SkillCatalog" where
  "demo_catalog es = \<lparr>skills = es, lastFetched = ''2026-01-26T00:00:00.000Z''\<rparr>"

text \<open>
  C6, as amended. \<open>checkSkillUpdate\<close> returns a boolean on every input. For \<open>skillssh\<close>
  provenance it is true exactly when a catalog was supplied and the first entry with the
  skill's slug has a version that differs from the stored one; for a catalog whose slugs
  are distinct that is: exactly when some entry with the slug has a differing version;
  without a catalog it is false. For \<open>git\<close> provenance it is false when the
  \<open>ls-remote\<close> lookup fails or yields no commit. Without source metadata, and for every
  other provenance type, it is false.
\<close>

theorem checkSkillUpdate_cases:
  "(get_prop (source skill) ''type'' = Some (JStr ''skillssh'') \<and> truthy (source skill) \<longrightarrow>
      checkSkillUpdate w skill catalog
        = (\<exists>c e. catalog = Some c \<and> find (\<lambda>s. entry_slug s = slug skill) (skills c) = Some e
             \<and> strict_neq (version e) (get_prop (source skill) ''version''))
      \<and> (\<forall>c. catalog = Some c \<and> distinct (map entry_slug (skills c)) \<longrightarrow>
            checkSkillUpdate w skill catalog
              = (\<exists>e \<in> set (skills c). entry_slug e = slug skill
                   \<and> strict_neq (version e) (get_prop (source skill) ''version'')))
      \<and> (catalog = None \<longrightarrow> \<not> checkSkillUpdate w skill catalog))
   \<and> (get_prop (source skill) ''type'' = Some (JStr ''git'')
        \<and> (git_ls_remote w (js_to_string (get_prop (source skill) ''url'')) = None
            \<or> (\<exists>out. git_ls_remote w (js_to_string (get_prop (source skill) ''url'')) = Some out
                  \<and> remote_commit out = [])) \<longrightarrow>
      \<not> checkSkillUpdate w skill catalog)
   \<and> (\<not> truthy (source skill)
        \<or> (get_prop (source skill) ''type'' \<noteq> Some (JStr ''skillssh'')
            \<and> get_prop (source skill) ''type'' \<noteq> Some (JStr ''git'')) \<longrightarrow>
      \<not> checkSkillUpdate w skill catalog)"
proof (intro conjI impI allI)
  assume a: "get_prop (source skill) ''type'' = Some (JStr ''skillssh'') \<and> truthy (source skill)"
  then show 1: "checkSkillUpdate w skill catalog
        = (\<exists>c e. catalog = Some c \<and> find (\<lambda>s. entry_slug s = slug skill) (skills c) = Some e
             \<and> strict_neq (version e) (get_prop (source skill) ''version''))"
    by (auto simp: checkSkillUpdate_def split: option.splits)
  from a show "catalog = None \<Longrightarrow> \<not> checkSkillUpdate w skill catalog"
    by (simp add: checkSkillUpdate_def)
  fix c assume c: "catalog = Some c \<and> distinct (map entry_slug (skills c))"
  then have "(\<exists>e. find (\<lambda>s. entry_slug s = slug skill) (skills c) = Some e
             \<and> strict_neq (version e) (get_prop (source skill) ''version''))
       = (\<exists>e \<in> set (skills c). entry_slug e = slug skill
                   \<and> strict_neq (version e) (get_prop (source skill) ''version''))"
    by (intro find_distinct_slug) simp
  with 1 c show "checkSkillUpdate w skill catalog
              = (\<exists>e \<in> set (skills c). entry_slug e = slug skill
                   \<and> strict_neq (version e) (get_prop (source skill) ''version''))"
    by simp
next
  assume "get_prop (source skill) ''type'' = Some (JStr ''git'')
        \<and> (git_ls_remote w (js_to_string (get_prop (source skill) ''url'')) = None
            \<or> (\<exists>out. git_ls_remote w (js_to_string (get_prop (source skill) ''url'')) = Some out
                  \<and> remote_commit out = []))"
  then show "\<not> checkSkillUpdate w skill catalog"
    by (auto simp: checkSkillUpdate_def)
next
  assume "\<not> truthy (source skill)
        \<or> (get_prop (source skill) ''type'' \<noteq> Some (JStr ''skillssh'')
            \<and> get_prop (source skill) ''type'' \<noteq> Some (JStr ''git''))"
  then show "\<not> checkSkillUpdate w skill catalog"
    by (auto simp: checkSkillUpdate_def)
qed

theorem checkSkillUpdate_cases_witness:
  "checkSkillUpdate demo_world
      (demo_skill ''pdf'' (Some (JObj [(''type'', JStr ''skillssh''), (''version'', JStr ''1.0.0'')])))
      (Some (demo_catalog [demo_entry ''docx'' ''1.0.0'', demo_entry ''pdf'' ''1.1.0'']))
   \<and> \<not> checkSkillUpdate demo_world
      (demo_skill ''pdf'' (Some (JObj [(''type'', JStr ''skillssh''), (''version'', JStr ''1.0.0'')]))) None
   \<and> \<not> checkSkillUpdate demo_world
      (demo_skill ''r'' (Some (JObj [(''type'', JStr ''git''), (''url'', JStr ''https://github.com/o/gone'')]))) None
   \<and> \<not> checkSkillUpdate demo_world (demo_skill ''mine'' (Some (JObj [(''type'', JStr ''local'')])))
      (Some (demo_catalog [demo_entry ''mine'' ''1.1.0'']))"
proof -
  let ?ssh = "demo_skill ''pdf'' (Some (JObj [(''type'', JStr ''skillssh''), (''version'', JStr ''1.0.0'')]))"
  let ?cat = "demo_catalog [demo_entry ''docx'' ''1.0.0'', demo_entry ''pdf'' ''1.1.0'']"
  let ?git = "demo_skill ''r'' (Some (JObj [(''type'', JStr ''git''), (''url'', JStr ''https://github.com/o/gone'')]))"
  let ?loc = "demo_skill ''mine'' (Some (JObj [(''type'', JStr ''local'')]))"
  have s: "get_prop (source ?ssh) ''type'' = Some (JStr ''skillssh'') \<and> truthy (source ?ssh)"
    by (simp add: demo_skill_def get_prop_def truthy_def)
  have d: "distinct (map entry_slug (skills ?cat))"
    by (simp add: demo_catalog_def demo_entry_def)
  have e: "\<exists>e \<in> set (skills ?cat). entry_slug e = slug ?ssh
      \<and> strict_neq (version e) (get_prop (source ?ssh) ''version'')"
    by (simp add: demo_catalog_def demo_entry_def demo_skill_def get_prop_def strict_neq_def)
  have g: "get_prop (source ?git) ''type'' = Some (JStr ''git'')
      \<and> git_ls_remote demo_world (js_to_string (get_prop (source ?git) ''url'')) = None"
    by (simp add: demo_skill_def get_prop_def demo_world_def js_to_string_def)
  have l: "get_prop (source ?loc) ''type'' \<noteq> Some (JStr ''skillssh'')
      \<and> get_prop (source ?loc) ''type'' \<noteq> Some (JStr ''git'')"
    by (simp add: demo_skill_def get_prop_def)
  from checkSkillUpdate_cases [of ?ssh demo_world "Some ?cat"] s d e
  have 1: "checkSkillUpdate demo_world ?ssh (Some ?cat)" by blast
  from checkSkillUpdate_cases [of ?ssh demo_world None] s
  have 2: "\<not> checkSkillUpdate demo_world ?ssh None" by blast
  from checkSkillUpdate_cases [of ?git demo_world None] g
  have 3: "\<not> checkSkillUpdate demo_world ?git None" by blast
  from checkSkillUpdate_cases [of ?loc demo_world "Some (demo_catalog [demo_entry ''mine'' ''1.1.0''])"] l
  have 4: "\<not> checkSkillUpdate demo_world ?loc (Some (demo_catalog [demo_entry ''mine'' ''1.1.0'']))"
    by blast
  from 1 2 3 4 show ?thesis by simp
qed

text \<open>
  The claim as stated fails on a catalog with two entries of the same slug: \<open>find\<close>
  returns the first, whose version is the stored one, and the result is false although an
  entry with the slug and another version is there.
\<close>

theorem checkSkillUpdate_first_entry:
  "\<not> checkSkillUpdate demo_world
      (demo_skill ''pdf'' (Some (JObj [(''type'', JStr ''skillssh''), (''version'', JStr ''1.0.0'')])))
      (Some (demo_catalog [demo_entry ''pdf'' ''1.0.0'', demo_entry ''pdf'' ''2.0.0'']))
   \<and> list_ex (\<lambda>e. entry_slug e = ''pdf'' \<and> version e \<noteq> Some ''1.0.0'')
        (skills (demo_catalog [demo_entry ''pdf'' ''1.0.0'', demo_entry ''pdf'' ''2.0.0'']))"
  by code_simp

















section \<open>Catalog fetcher: retry with backoff\<close>

















subsection \<open>Catalog entries\<close>

text \<open>
  The regular expressions of the catalog. \<open>/^---\n([\s\S]*?)\n---/\<close>: the text starts
  with the delimiter line, and the block runs to the first line break followed by the
  delimiter. \<open>/key:\s*(.+)/\<close>: at the first place where the key stands and the rest
  matches, the white space is skipped and the capture runs to the end of the line; when
  only white space follows the key, the capture is the last character of it that is not a
  line terminator. \<open>/description:\s*["']?([^"'\n]+)["']?/\<close> likewise, with an optional
  opening quote and a capture that stops at a quote or a line feed.
\<close>

definition frontmatter_block :: "string \<Rightarrow> string option" where
  "frontmatter_block content' =
     (if prefix (''---'' @ [CHR 0x0A]) content'
      then before_first ([CHR 0x0A] @ ''---'') (drop 4 content') else None)"

fun find_match :: "string \<Rightarrow> (string \<Rightarrow> string option) \<Rightarrow> string \<Rightarrow> string option" where
  "find_match key cap [] = None"
| "find_match key cap (x # xs) =
     (if prefix key (x # xs)
      then (case cap (drop (length key) (x # xs)) of
              Some c \<Rightarrow> Some c
            | None \<Rightarrow> find_match key cap xs)
      else find_match key cap xs)"

definition capture_line :: "string \<Rightarrow> string option" where
  "capture_line r =
     (if dropWhile is_space r \<noteq> []
      then Some (takeWhile (\<lambda>c. \<not> is_newline c) (dropWhile is_space r))
      else (case filter (\<lambda>c. \<not> is_newline c) (takeWhile is_space r) of
              [] \<Rightarrow> None
            | y # ys \<Rightarrow> Some [last (y # ys)]))"

definition is_quote :: "char \<Rightarrow> bool" where
  "is_quote c = (c = CHR 0x22 \<or> c = CHR 0x27)"

definition desc_char :: "char \<Rightarrow> bool" where
  "desc_char c = (\<not> is_quote c \<and> c \<noteq> CHR 0x0A)"

definition capture_desc :: "string \<Rightarrow> string option" where
  "capture_desc r =
     (let fallback = (case filter (\<lambda>c. c \<noteq> CHR 0x0A) (takeWhile is_space r) of
                        [] \<Rightarrow> None
                      | y # ys \<Rightarrow> Some [last (y # ys)])
      in case dropWhile is_space r of
           [] \<Rightarrow> fallback
         | c # t \<Rightarrow>
             if is_quote c
             then (if takeWhile desc_char t \<noteq> [] then Some (takeWhile desc_char t) else fallback)
             else Some (takeWhile desc_char (c # t)))"

text \<open>\<open>.replace(/^["']|["']$/g, '')\<close>, and the conversion of a name to a display
  name: \<open>word.charAt(0).toUpperCase() + word.slice(1)\<close> on the words between hyphens,
  with \<open>up\<close> the upper case of a character outside ASCII.\<close>

definition strip_quotes :: "string \<Rightarrow> string" where
  "strip_quotes x =
     (let y = (case x of [] \<Rightarrow> [] | c # t \<Rightarrow> if is_quote c then t else x)
      in if y \<noteq> [] \<and> is_quote (last y) then butlast y else y)"

definition capitalize :: "(char \<Rightarrow> string) \<Rightarrow> string \<Rightarrow> string" where
  "capitalize up word =
     (case word of [] \<Rightarrow> [] | c # t \<Rightarrow> (if is_ascii c then [upper_char c] else up c) @ t)"

definition title_case :: "(char \<Rightarrow> string) \<Rightarrow> string \<Rightarrow> string" where
  "title_case up rawName = join_with '' '' (map (capitalize up) (split CHR ''-'' rawName))"

text \<open>
  The callback that \<open>fetchSkillsCatalog\<close> maps over the directories of the listing.
  \<open>skillMd\<close> is what the request for the directory's \<open>SKILL.md\<close> gave: \<open>None\<close> when it
  failed or was not ok, else the decoded text and the \<open>sha\<close>. \<open>catalog_skills\<close> is the
  list of skills of the catalog: the entries of the directories, without the skipped ones.
\<close>

definition raw_name :: "string \<Rightarrow> string \<Rightarrow> string" where
  "raw_name frontmatter dirName =
     (case find_match ''name:'' capture_line frontmatter of
        Some n \<Rightarrow> strip_quotes (trim n)
      | None \<Rightarrow> dirName)"

definition skill_entry :: "(char \<Rightarrow> string) \<Rightarrow> string \<Rightarrow> string \<Rightarrow> string
    \<Rightarrow> (string \<times> string option) option \<Rightarrow> SkillCatalogEntry option" where
  "skill_entry up marketplaceUrl now' dirName skillMd =
     (case skillMd of
        None \<Rightarrow> None
      | Some (content', sha) \<Rightarrow>
          (case frontmatter_block content' of
             None \<Rightarrow> None
           | Some frontmatter \<Rightarrow>
               if frontmatter = [] then None
               else Some \<lparr>entry_slug = dirName,
                          entry_name = title_case up (raw_name frontmatter dirName),
                          entry_description =
                            (case find_match ''description:'' capture_desc frontmatter of
                               Some d \<Rightarrow> trim d | None \<Rightarrow> []),
                          author =
                            Some (case find_match ''author:'' capture_line frontmatter of
                                    Some a \<Rightarrow> strip_quotes (trim a) | None \<Rightarrow> ''Anthropic''),
                          version =
                            Some (case find_match ''version:'' capture_line frontmatter of
                                    Some v \<Rightarrow> strip_quotes (trim v) | None \<Rightarrow> ''1.0.0''),
                          downloadUrl = marketplaceUrl @ ''/tree/main/skills/'' @ dirName,
                          iconUrl = None,
                          tags = Some [''github'', ''anthropic''],
                          downloads = None,
                          lastUpdated = (case sha of
                                           None \<Rightarrow> None
                                         | Some h \<Rightarrow> if h = [] then None else Some now')\<rparr>))"

definition catalog_skills :: "(char \<Rightarrow> string) \<Rightarrow> string \<Rightarrow> string \<Rightarrow> (string \<times> string) list
    \<Rightarrow> (string \<Rightarrow> (string \<times> string option) option) \<Rightarrow> SkillCatalogEntry list" where
  "catalog_skills up marketplaceUrl now' contents skillMds =
     List.map_filter (\<lambda>(n, t). skill_entry up marketplaceUrl now' n (skillMds n))
       (filter (\<lambda>(n, t). t = ''dir'') contents)"

definition demo_skill_md :: string where
  "demo_skill_md = ''---'' @ [CHR 0x0A] @ ''name: my-skill'' @ [CHR 0x0A]
     @ ''description: \"Does things\"'' @ [CHR 0x0A] @ ''---'' @ [CHR 0x0A] @ ''# Body''"

lemma map_filter_elem: "y \<in> set (List.map_filter f xs) \<Longrightarrow> \<exists>x \<in> set xs. f x = Some y"
  by (induction xs) (auto split: option.splits)

lemma title_case_plain:
  assumes "CHR ''-'' \<notin> set x" and "capitalize up x = x"
  shows "title_case up x = x"
proof -
  from assms(1) have "split CHR ''-'' x = [x]" by (rule split_no_sep)
  with assms(2) show ?thesis by (simp add: title_case_def join_with_def)
qed

lemma before_first_None: "(before_first p s = None) = (\<not> str_includes s p)"
  by (induction s) auto

lemma before_first_Some: "before_first p s = Some pre \<Longrightarrow> \<exists>post. s = pre @ p @ post"
proof (induction s arbitrary: pre)
  case Nil
  then show ?case by (auto split: if_splits)
next
  case (Cons x s)
  show ?case
  proof (cases "prefix p (x # s)")
    case True
    with Cons.prems show ?thesis by (auto simp: prefix_def)
  next
    case False
    with Cons.prems obtain pre' where p: "pre = x # pre'" "before_first p s = Some pre'" by auto
    from Cons.IH [OF p(2)] p(1) show ?thesis by auto
  qed
qed

lemma find_match_none: "\<not> str_includes s key \<Longrightarrow> find_match key cap s = None"
  by (induction s) auto

lemma find_match_first:
  "key \<noteq> [] \<Longrightarrow> before_first key s = Some pre \<Longrightarrow>
   cap (drop (length pre + length key) s) = Some c \<Longrightarrow> find_match key cap s = Some c"
proof (induction s arbitrary: pre)
  case Nil
  then show ?case by (auto split: if_splits)
next
  case (Cons x s)
  show ?case
  proof (cases "prefix key (x # s)")
    case True
    with Cons.prems show ?thesis by simp
  next
    case False
    with Cons.prems obtain pre' where p: "pre = x # pre'" "before_first key s = Some pre'" by auto
    with Cons.prems(3) have "cap (drop (length pre' + length key) s) = Some c" by simp
    from Cons.IH [OF Cons.prems(1) p(2) this] False show ?thesis by simp
  qed
qed

lemma capture_line_value:
  assumes "list_all is_space blanks" "v \<noteq> []" "\<not> is_space (hd v)"
    "list_all (\<lambda>c. \<not> is_newline c) v" "rest = [] \<or> is_newline (hd rest)"
  shows "capture_line (blanks @ v @ rest) = Some v"
proof -
  from assms(2) obtain c t where v: "v = c # t" by (cases v) auto
  with assms(3) have c: "\<not> is_space c" by simp
  have d: "dropWhile is_space (blanks @ v @ rest) = v @ rest"
    using assms(1) c v by (simp add: list_all_iff dropWhile_append3)
  have t: "takeWhile (\<lambda>c. \<not> is_newline c) (v @ rest) = v"
  proof (cases rest)
    case Nil
    with assms(4) show ?thesis by (simp add: list_all_iff)
  next
    case (Cons r rs)
    with assms(5) have "is_newline r" by simp
    with assms(4) Cons show ?thesis by (simp add: list_all_iff takeWhile_tail)
  qed
  from d t v show ?thesis by (simp add: capture_line_def)
qed

definition demo_contents :: "(string \<times> string) list" where
  "demo_contents = [(''README.md'', ''file''), (''my-skill'', ''dir''), (''algorithmic-art'', ''dir'')]"

definition demo_skill_mds :: "string \<Rightarrow> (string \<times> string option) option" where
  "demo_skill_mds n =
     (if n = ''my-skill'' then Some (demo_skill_md, Some ''abc'')
      else if n = ''algorithmic-art''
        then Some (''---'' @ [CHR 0x0A] @ ''description: Art'' @ [CHR 0x0A] @ ''---'', None)
      else None)"

text \<open>The names of the examples are ASCII; the upper case of other characters is not
  called for.\<close>

definition demo_up :: "char \<Rightarrow> string" where
  "demo_up c = [c]"

text \<open>
  C4, as amended. Every entry of the catalog comes from a directory of the listing whose
  \<open>SKILL.md\<close> has a front matter block, and its name is the Title-Cased form of a raw
  name. When the text \<open>name:\<close> occurs nowhere in the block, the raw name is the directory
  slug. When the first occurrence of \<open>name:\<close> in the block is followed, after white space
  if any, by a value that runs to the end of its line, the raw name is that value, trimmed
  and with a surrounding quote removed: whether the occurrence is the key \<open>name\<close> or the
  end of another key. The entry's name is the raw name itself when that has no hyphen and
  capitalising it changes nothing.
\<close>

theorem catalog_entry_name:
  assumes "e \<in> set (catalog_skills up marketplaceUrl t contents skillMds)"
  shows "\<exists>content' sha frontmatter.
           (entry_slug e, ''dir'') \<in> set contents
         \<and> skillMds (entry_slug e) = Some (content', sha)
         \<and> frontmatter_block content' = Some frontmatter
         \<and> (\<not> str_includes frontmatter ''name:'' \<longrightarrow>
              entry_name e = title_case up (entry_slug e))
         \<and> (\<forall>pre blanks v rest.
              before_first ''name:'' frontmatter = Some pre
              \<and> drop (length pre + 5) frontmatter = blanks @ v @ rest
              \<and> list_all is_space blanks \<and> v \<noteq> [] \<and> \<not> is_space (hd v)
              \<and> list_all (\<lambda>c. \<not> is_newline c) v \<and> (rest = [] \<or> is_newline (hd rest)) \<longrightarrow>
              entry_name e = title_case up (strip_quotes (trim v))
              \<and> (CHR ''-'' \<notin> set (strip_quotes (trim v))
                   \<and> capitalize up (strip_quotes (trim v)) = strip_quotes (trim v) \<longrightarrow>
                 entry_name e = strip_quotes (trim v)))"
proof -
  from assms obtain n ty where m: "(n, ty) \<in> set contents" "ty = ''dir''"
    and se: "skill_entry up marketplaceUrl t n (skillMds n) = Some e"
    by (auto simp: catalog_skills_def dest!: map_filter_elem)
  from se obtain content' sha frontmatter where md: "skillMds n = Some (content', sha)"
    and fm: "frontmatter_block content' = Some frontmatter"
    and sl: "entry_slug e = n"
    and nm: "entry_name e = title_case up (raw_name frontmatter n)"
    by (auto simp: skill_entry_def split: option.splits prod.splits if_splits)
  have a: "\<not> str_includes frontmatter ''name:'' \<longrightarrow> entry_name e = title_case up (entry_slug e)"
    using nm sl by (simp add: raw_name_def find_match_none)
  have b: "entry_name e = title_case up (strip_quotes (trim v))
      \<and> (CHR ''-'' \<notin> set (strip_quotes (trim v))
           \<and> capitalize up (strip_quotes (trim v)) = strip_quotes (trim v) \<longrightarrow>
         entry_name e = strip_quotes (trim v))"
    if h: "before_first ''name:'' frontmatter = Some pre
         \<and> drop (length pre + 5) frontmatter = blanks @ v @ rest
         \<and> list_all is_space blanks \<and> v \<noteq> [] \<and> \<not> is_space (hd v)
         \<and> list_all (\<lambda>c. \<not> is_newline c) v \<and> (rest = [] \<or> is_newline (hd rest))"
    for pre blanks v rest
  proof -
    from h have cl: "capture_line (blanks @ v @ rest) = Some v"
      by (intro capture_line_value) simp_all
    from h have dr: "drop (length pre + 5) frontmatter = blanks @ v @ rest" by blast
    have "length pre + length ''name:'' = length pre + 5" by simp
    with dr cl have "capture_line (drop (length pre + length ''name:'') frontmatter) = Some v"
      by (simp only:)
    moreover from h have "before_first ''name:'' frontmatter = Some pre" by blast
    moreover have "''name:'' \<noteq> []" by simp
    ultimately have "find_match ''name:'' capture_line frontmatter = Some v"
      by (intro find_match_first)
    with nm have "entry_name e = title_case up (strip_quotes (trim v))"
      by (simp add: raw_name_def)
    then show ?thesis by (simp add: title_case_plain)
  qed
  from m md fm sl a b show ?thesis by blast
qed

theorem catalog_entry_name_witness:
  "map entry_name (catalog_skills demo_up ''https://github.com/anthropics/skills''
       ''2026-01-26T00:00:00.000Z'' demo_contents demo_skill_mds)
     = [''My Skill'', ''Algorithmic Art'']
   \<and> \<not> str_includes ''description: Art'' ''name:''
   \<and> before_first ''name:''
        (''name: my-skill'' @ [CHR 0x0A] @ ''description: '' @ [CHR 0x22] @ ''Does things'' @ [CHR 0x22])
       = Some []"
proof -
  let ?cs = "catalog_skills demo_up ''https://github.com/anthropics/skills''
       ''2026-01-26T00:00:00.000Z'' demo_contents demo_skill_mds"
  let ?fa = "''name: my-skill'' @ [CHR 0x0A] @ ''description: '' @ [CHR 0x22] @ ''Does things'' @ [CHR 0x22]"
  let ?ra = "[CHR 0x0A] @ ''description: '' @ [CHR 0x22] @ ''Does things'' @ [CHR 0x22]"
  have l: "map entry_slug ?cs = [''my-skill'', ''algorithmic-art'']" by code_simp
  then obtain a b where ab: "?cs = [a, b]" "entry_slug a = ''my-skill''" "entry_slug b = ''algorithmic-art''"
    by (cases ?cs; cases "tl ?cs"; cases "tl (tl ?cs)") auto
  have fa: "frontmatter_block demo_skill_md = Some ?fa" by code_simp
  have fb: "frontmatter_block (''---'' @ [CHR 0x0A] @ ''description: Art'' @ [CHR 0x0A] @ ''---'')
      = Some ''description: Art''" by code_simp
  have nb: "\<not> str_includes ''description: Art'' ''name:''" by code_simp
  have pa: "before_first ''name:'' ?fa = Some []" by code_simp
  have da: "drop (length ([] :: string) + 5) ?fa = '' '' @ ''my-skill'' @ ?ra" by simp
  have ca: "list_all is_space '' '' \<and> ''my-skill'' \<noteq> [] \<and> \<not> is_space (hd ''my-skill'')
      \<and> list_all (\<lambda>c. \<not> is_newline c) ''my-skill'' \<and> (?ra = [] \<or> is_newline (hd ?ra))"
    by code_simp
  have ta: "title_case demo_up (strip_quotes (trim ''my-skill'')) = ''My Skill''" by code_simp
  have tb: "title_case demo_up ''algorithmic-art'' = ''Algorithmic Art''" by code_simp
  have "a \<in> set ?cs" using ab by simp
  from catalog_entry_name [OF this] obtain ca' sa fma where
    1: "demo_skill_mds (entry_slug a) = Some (ca', sa)"
      "frontmatter_block ca' = Some fma"
    and 2: "\<And>pre blanks v rest.
              before_first ''name:'' fma = Some pre
              \<and> drop (length pre + 5) fma = blanks @ v @ rest
              \<and> list_all is_space blanks \<and> v \<noteq> [] \<and> \<not> is_space (hd v)
              \<and> list_all (\<lambda>c. \<not> is_newline c) v \<and> (rest = [] \<or> is_newline (hd rest)) \<Longrightarrow>
              entry_name a = title_case demo_up (strip_quotes (trim v))"
    by blast
  from 1(1) ab(2) have "ca' = demo_skill_md" by (simp add: demo_skill_mds_def)
  with 1(2) fa have fma: "fma = ?fa" by simp
  from 2 [of "[]" "'' ''" "''my-skill''" ?ra] pa da ca ta
  have na: "entry_name a = ''My Skill''" unfolding fma by simp
  have "b \<in> set ?cs" using ab by simp
  from catalog_entry_name [OF this] obtain cb sb fmb where
    3: "demo_skill_mds (entry_slug b) = Some (cb, sb)" "frontmatter_block cb = Some fmb"
    and 4: "\<not> str_includes fmb ''name:'' \<longrightarrow> entry_name b = title_case demo_up (entry_slug b)"
    by blast
  from 3(1) ab(3) have "cb = ''---'' @ [CHR 0x0A] @ ''description: Art'' @ [CHR 0x0A] @ ''---''"
    by (simp add: demo_skill_mds_def)
  with 3(2) fb have fmb: "fmb = ''description: Art''" by simp
  from 4 nb tb ab(3) have nbm: "entry_name b = ''Algorithmic Art''" unfolding fmb by simp
  from ab na nbm nb pa show ?thesis by simp
qed

text \<open>
  The claim as stated fails on a name with a hyphen: from \<open>name: my-skill\<close> the regular
  expression extracts \<open>my-skill\<close>, and the entry's name is \<open>My Skill\<close>. It fails on a
  block without a name: in the block of the directory \<open>fancy\<close> below no line opens with
  the key \<open>name\<close>, the regular expression, which is not anchored, matches inside
  \<open>display_name: Fancy-Tool\<close>, and the entry's name is \<open>Fancy Tool\<close>, not \<open>Fancy\<close>.
\<close>

theorem catalog_entry_name_title_cased:
  "map_option entry_name (skill_entry demo_up ''https://github.com/anthropics/skills''
       ''2026-01-26T00:00:00.000Z'' ''my-skill'' (Some (demo_skill_md, Some ''abc'')))
     = Some ''My Skill''
   \<and> map_option (find_match ''name:'' capture_line) (frontmatter_block demo_skill_md)
     = Some (Some ''my-skill'')
   \<and> strip_quotes (trim ''my-skill'') = ''my-skill''
   \<and> map_option entry_name (skill_entry demo_up ''https://github.com/anthropics/skills''
       ''2026-01-26T00:00:00.000Z'' ''fancy''
       (Some (''---'' @ [CHR 0x0A] @ ''display_name: Fancy-Tool'' @ [CHR 0x0A]
                @ ''description: A tool'' @ [CHR 0x0A] @ ''---'' @ [CHR 0x0A], None)))
     = Some ''Fancy Tool''
   \<and> map_option (\<lambda>block. list_all (\<lambda>line. \<not> prefix ''name:'' (dropWhile is_space line))
                            (split (CHR 0x0A) block))
       (frontmatter_block (''---'' @ [CHR 0x0A] @ ''display_name: Fancy-Tool'' @ [CHR 0x0A]
                @ ''description: A tool'' @ [CHR 0x0A] @ ''---'' @ [CHR 0x0A]))
     = Some True
   \<and> title_case demo_up ''fancy'' = ''Fancy''"
  by code_simp


section \<open>External transcript writer\<close>

text \<open>
  \<open>ClaudeCodeWriter.exportSession\<close> writes a stored session into the directory of the
  external tool: one transcript file of JSON lines per session inside a project directory, a
  line of \<open>history.jsonl\<close>, and an entry of the project's \<open>sessions-index.json\<close>.

  The state is that directory. \<open>projects\<close> lists the project directories in the order
  \<open>readdir\<close> gives them, each under its path relative to the projects directory, in the
  normal form \<open>path.join\<close> leaves; the names are distinct, as the names of a directory
  are. A transcript file is the list of values \<open>readTranscriptEntries\<close> parses from it (it
  skips blank and malformed lines); a file is taken to end with a line break, as the files the
  writer writes do, so that the lines appended to it are read back as they were written;
  \<open>sessions_index\<close> is \<open>None\<close> when the file is missing or is not JSON, in which case
  the source falls back to the default index.

  \<open>writer_env\<close> holds what the writer reads from outside: the identifiers \<open>randomUUID\<close>
  returns for the session and for the snapshot line, the clock, the location of the projects
  directory, \<open>process.cwd()\<close>, \<open>expandPath\<close> followed by \<open>realpathSync\<close>, the branch
  \<open>detectGitBranch\<close> finds (it catches every error), the modification time of the
  transcript, \<open>toISOString\<close> and the parsing of dates. Time stamps are taken to be valid
  time values, on which \<open>toISOString\<close> returns.
\<close>
record StoredMessage =
  msg_id :: string
  msg_type :: string
  msg_content :: string
  msg_timestamp :: "int option"

record StoredSession =
  sdkSessionId :: "string option"
  session_name :: "string option"
  workingDirectory :: "string option"
  sdkCwd :: "string option"
  messages :: "StoredMessage list"
  createdAt :: int
  lastUsedAt :: int

record project =
  transcripts :: "(string \<times> json list) list"
  sessions_index :: "json option"

record claude_home =
  projects :: "(string \<times> project) list"
  history :: "json list"

record writer_env =
  session_uuid :: string
  snapshot_uuid :: string
  now_iso :: string
  now_ms :: int
  projects_dir :: string
  process_cwd :: string
  resolve_dir :: "string \<Rightarrow> string"
  git_branch_of :: "string \<Rightarrow> string option"
  file_mtime :: int
  to_iso :: "int \<Rightarrow> string"
  date_ms :: "json option \<Rightarrow> int"

text \<open>\<open>a || b\<close> on strings that may be undefined: the empty string is falsy.\<close>

definition or_else :: "string option \<Rightarrow> string \<Rightarrow> string" where
  "or_else a b = (case a of Some x \<Rightarrow> if x \<noteq> [] then x else b | None \<Rightarrow> b)"

definition normalizeCustomTitle :: "string option \<Rightarrow> string option" where
  "normalizeCustomTitle n =
     (case n of None \<Rightarrow> None | Some x \<Rightarrow> if trim x = [] then None else Some (trim x))"

definition is_alnum :: "char \<Rightarrow> bool" where
  "is_alnum c = (let n = (of_char c :: nat)
                 in (48 \<le> n \<and> n \<le> 57) \<or> (65 \<le> n \<and> n \<le> 90) \<or> (97 \<le> n \<and> n \<le> 122))"

definition extractProjectName :: "string \<Rightarrow> string" where
  "extractProjectName workDir =
     (if workDir = [] then ''craft-agents''
      else map (\<lambda>c. if is_alnum c then c else CHR ''-'') workDir)"

definition resolveWorkDir :: "writer_env \<Rightarrow> StoredSession \<Rightarrow> string" where
  "resolveWorkDir env session =
     resolve_dir env (or_else (workingDirectory session) (or_else (sdkCwd session) (process_cwd env)))"

text \<open>
  \<open>convertMessage\<close>. The loop over \<open>/\[Thinking: (.*?)\]/gs\<close> is \<open>content_blocks\<close>: the
  next match starts at the first \<open>[Thinking: \<close> and ends at the first \<open>]\<close> after it; when no
  \<open>]\<close> follows, no later occurrence matches either, and the rest is remaining text.
\<close>

function content_blocks :: "string \<Rightarrow> json list" where
  "content_blocks s =
     (case before_first ''[Thinking: '' s of
        None \<Rightarrow> (if trim s = [] then [] else [JObj [(''type'', JStr ''text''), (''text'', JStr (trim s))]])
      | Some pre \<Rightarrow>
          (case before_first '']'' (drop (length pre + 11) s) of
             None \<Rightarrow> (if trim s = [] then [] else [JObj [(''type'', JStr ''text''), (''text'', JStr (trim s))]])
           | Some inner \<Rightarrow>
               (if trim pre = [] then [] else [JObj [(''type'', JStr ''text''), (''text'', JStr (trim pre))]])
               @ [JObj [(''type'', JStr ''thinking''), (''text'', JStr inner)]]
               @ content_blocks (drop (length pre + 11 + length inner + 1) s)))"
  by pat_completeness auto
termination
proof (relation "measure length")
  show "wf (measure length)" by simp
next
  fix s pre inner :: string
  assume p: "before_first ''[Thinking: '' s = Some pre"
  have "prefix ''[Thinking: '' (drop (length pre) s)" using p
  proof (induction s arbitrary: pre)
    case Nil
    then show ?case by simp
  next
    case (Cons a s)
    then show ?case by (auto split: if_splits)
  qed
  then have "length ''[Thinking: '' \<le> length (drop (length pre) s)"
    by (rule prefix_length_le)
  then have "length pre + 11 \<le> length s" by simp
  then show "(drop (length pre + 11 + length inner + 1) s, s) \<in> measure length"
    by simp
qed

declare content_blocks.simps [simp del]

definition convertMessage :: "writer_env \<Rightarrow> StoredMessage \<Rightarrow> string \<Rightarrow> string \<Rightarrow> string option \<Rightarrow> json" where
  "convertMessage env message sessionId cwd parentUuid =
     (let blocks = (if content_blocks (msg_content message) = []
                    then [JObj [(''type'', JStr ''text''), (''text'', JStr (msg_content message))]]
                    else content_blocks (msg_content message))
      in JObj [(''type'', JStr (msg_type message)),
               (''message'',
                  JObj ([(''role'', JStr (msg_type message)), (''content'', JArr blocks)]
                        @ (if msg_type message = ''assistant''
                           then [(''id'', JStr (msg_id message)), (''type'', JStr ''message'')]
                           else []))),
               (''uuid'', JStr (msg_id message)),
               (''timestamp'',
                  JStr (case msg_timestamp message of
                          Some t \<Rightarrow> if t \<noteq> 0 then to_iso env t else now_iso env
                        | None \<Rightarrow> now_iso env)),
               (''sessionId'', JStr sessionId),
               (''cwd'', JStr cwd),
               (''parentUuid'', (case parentUuid of None \<Rightarrow> JNull | Some p \<Rightarrow> JStr p)),
               (''isSidechain'', JBool False),
               (''userType'', JStr ''external'')])"

definition with_branch :: "string option \<Rightarrow> json \<Rightarrow> json" where
  "with_branch gitBranch line =
     (case (gitBranch, line) of
        (Some b, JObj kv) \<Rightarrow> if b \<noteq> [] then JObj (AList.update ''gitBranch'' (JStr b) kv) else line
      | _ \<Rightarrow> line)"

text \<open>
  \<open>buildTranscriptLines\<close>: \<open>message_lines\<close> is its loop over the messages, with the set
  of known identifiers (\<open>None\<close> when the option is absent) and the running parent.
\<close>

definition is_message_type :: "string \<Rightarrow> bool" where
  "is_message_type t = (t = ''user'' \<or> t = ''assistant'')"

fun message_lines :: "writer_env \<Rightarrow> string \<Rightarrow> string \<Rightarrow> string option \<Rightarrow> string list option
    \<Rightarrow> StoredMessage list \<Rightarrow> string option \<Rightarrow> json list" where
  "message_lines env sessionId workDir gitBranch existingUuids [] parentUuid = []"
| "message_lines env sessionId workDir gitBranch existingUuids (m # ms) parentUuid =
     (if \<not> is_message_type (msg_type m)
      then message_lines env sessionId workDir gitBranch existingUuids ms parentUuid
      else (if (case existingUuids of None \<Rightarrow> False | Some us \<Rightarrow> msg_id m \<in> set us) then []
            else [with_branch gitBranch (convertMessage env m sessionId workDir parentUuid)])
           @ message_lines env sessionId workDir gitBranch existingUuids ms (Some (msg_id m)))"

definition snapshot_line :: "writer_env \<Rightarrow> json" where
  "snapshot_line env =
     JObj [(''type'', JStr ''file-history-snapshot''),
           (''messageId'', JStr (snapshot_uuid env)),
           (''snapshot'', JObj [(''messageId'', JStr (snapshot_uuid env)),
                                (''trackedFileBackups'', JObj []),
                                (''timestamp'', JStr (now_iso env))]),
           (''isSnapshotUpdate'', JBool False)]"

definition buildTranscriptLines :: "writer_env \<Rightarrow> StoredSession \<Rightarrow> string \<Rightarrow> string \<Rightarrow> string option
    \<Rightarrow> string list option \<Rightarrow> bool \<Rightarrow> string option \<Rightarrow> json list" where
  "buildTranscriptLines env session sessionId workDir gitBranch existingUuids includeSnapshot parentUuid =
     (if includeSnapshot then [snapshot_line env] else [])
     @ message_lines env sessionId workDir gitBranch existingUuids (messages session) parentUuid"

text \<open>Readers of the parsed transcript. \<open>string_prop e k\<close> is \<open>e[k]\<close> when
  \<open>typeof e[k] === 'string'\<close>.\<close>

definition string_prop :: "json \<Rightarrow> string \<Rightarrow> string option" where
  "string_prop e k = (case get_prop (Some e) k of Some (JStr x) \<Rightarrow> Some x | _ \<Rightarrow> None)"

definition is_message_entry :: "json \<Rightarrow> bool" where
  "is_message_entry e =
     (get_prop (Some e) ''type'' = Some (JStr ''user'')
      \<or> get_prop (Some e) ''type'' = Some (JStr ''assistant''))"

definition collectExistingUuids :: "json list \<Rightarrow> string list" where
  "collectExistingUuids es = List.map_filter (\<lambda>e. string_prop e ''uuid'') es"

definition getLastMessageUuid :: "json list \<Rightarrow> string option" where
  "getLastMessageUuid es =
     (case find (\<lambda>e. is_message_entry e \<and> string_prop e ''uuid'' \<noteq> None) (rev es) of
        None \<Rightarrow> None
      | Some e \<Rightarrow> string_prop e ''uuid'')"

definition getLastCustomTitle :: "json list \<Rightarrow> string option" where
  "getLastCustomTitle es =
     (case find (\<lambda>e. get_prop (Some e) ''type'' = Some (JStr ''custom-title'')
                     \<and> string_prop e ''customTitle'' \<noteq> None) (rev es) of
        None \<Rightarrow> None
      | Some e \<Rightarrow> string_prop e ''customTitle'')"

definition extractProjectPath :: "json list \<Rightarrow> string option" where
  "extractProjectPath es =
     (case find (\<lambda>e. string_prop e ''cwd'' \<noteq> None) es of
        None \<Rightarrow> None
      | Some e \<Rightarrow> string_prop e ''cwd'')"

definition buildCustomTitleLine :: "string \<Rightarrow> string \<Rightarrow> json" where
  "buildCustomTitleLine sessionId title =
     JObj [(''type'', JStr ''custom-title''), (''customTitle'', JStr title), (''sessionId'', JStr sessionId)]"

text \<open>Reading \<open>line.type\<close> throws on \<open>null\<close>.\<close>

definition getMessageLines :: "json list \<Rightarrow> error + json list" where
  "getMessageLines ls =
     (if JNull \<in> set ls then Inl (TypeError ''Cannot read properties of null'')
      else Inr (filter is_message_entry ls))"

text \<open>\<open>countTranscriptMessages\<close>; \<open>some_text\<close> is the callback of \<open>content.some\<close>, which
  throws on a \<open>null\<close> block it reaches.\<close>

definition has_text :: "json \<Rightarrow> bool" where
  "has_text b =
     (get_prop (Some b) ''type'' = Some (JStr ''text'')
      \<and> get_prop (Some b) ''text'' \<noteq> None
      \<and> trim (js_to_string (get_prop (Some b) ''text'')) \<noteq> [])"

fun some_text :: "json list \<Rightarrow> error + bool" where
  "some_text [] = Inr False"
| "some_text (b # bs) =
     (if b = JNull then Inl (TypeError ''Cannot read properties of null'')
      else if has_text b then Inr True else some_text bs)"

definition message_content :: "json \<Rightarrow> json option" where
  "message_content line =
     (case get_prop (Some line) ''message'' of
        None \<Rightarrow> None
      | Some JNull \<Rightarrow> None
      | Some m \<Rightarrow> get_prop (Some m) ''content'')"

definition counts :: "json \<Rightarrow> error + bool" where
  "counts line =
     (if line = JNull then Inl (TypeError ''Cannot read properties of null'')
      else if get_prop (Some line) ''type'' = Some (JStr ''user'') then
        (case message_content line of
           Some (JStr x) \<Rightarrow> Inr (trim x \<noteq> [])
         | Some (JArr bs) \<Rightarrow> some_text bs
         | _ \<Rightarrow> Inr False)
      else if get_prop (Some line) ''type'' = Some (JStr ''assistant'') then
        (case message_content line of
           Some (JArr bs) \<Rightarrow> some_text bs
         | _ \<Rightarrow> Inr False)
      else Inr False)"

fun countTranscriptMessages :: "json list \<Rightarrow> error + nat" where
  "countTranscriptMessages [] = Inr 0"
| "countTranscriptMessages (l # ls) =
     (case counts l of
        Inl e \<Rightarrow> Inl e
      | Inr c \<Rightarrow>
          (case countTranscriptMessages ls of
             Inl e \<Rightarrow> Inl e
           | Inr n \<Rightarrow> Inr (if c then Suc n else n)))"

text \<open>\<open>updateSessionsIndex\<close>. \<open>first_prompt\<close> is the computation of \<open>firstPrompt\<close>
  (\<open>join\<close> writes nothing for \<open>null\<close>); \<open>index_entry\<close> is the new entry as
  \<open>JSON.stringify\<close> writes it; \<open>upsert_entry\<close> is the filter, push and sort, which throw
  when the parsed index has no array of entries or holds a \<open>null\<close> entry. \<open>date_ms\<close> stands
  for \<open>new Date(e.modified).getTime()\<close> and the sort is stable; for dates that do not parse
  the source leaves the order to the engine, and nothing below depends on the order.\<close>

definition first_prompt :: "json list \<Rightarrow> error + string" where
  "first_prompt transcriptLines =
     (case find (\<lambda>l. get_prop (Some l) ''type'' = Some (JStr ''user'')) transcriptLines of
        None \<Rightarrow> Inr []
      | Some l \<Rightarrow>
          (case get_prop (Some l) ''message'' of
             None \<Rightarrow> Inl (TypeError ''Cannot read properties of undefined'')
           | Some JNull \<Rightarrow> Inl (TypeError ''Cannot read properties of null'')
           | Some m \<Rightarrow>
               (case get_prop (Some m) ''content'' of
                  Some (JArr bs) \<Rightarrow>
                    if JNull \<in> set bs then Inl (TypeError ''Cannot read properties of null'')
                    else Inr (concat (map (\<lambda>b. case get_prop (Some b) ''text'' of
                                                 Some JNull \<Rightarrow> [] | v \<Rightarrow> js_to_string v)
                           (filter (\<lambda>b. get_prop (Some b) ''type'' = Some (JStr ''text'')
                                        \<and> get_prop (Some b) ''text'' \<noteq> None) bs)))
                | Some (JStr x) \<Rightarrow> Inr x
                | _ \<Rightarrow> Inr [])))"

definition nullish_or :: "json option \<Rightarrow> json \<Rightarrow> json" where
  "nullish_or v d = (case v of None \<Rightarrow> d | Some JNull \<Rightarrow> d | Some x \<Rightarrow> x)"

definition last_opt :: "'a list \<Rightarrow> 'a option" where
  "last_opt xs = (if xs = [] then None else Some (last xs))"

definition first_opt :: "'a list \<Rightarrow> 'a option" where
  "first_opt xs = (case xs of [] \<Rightarrow> None | x # r \<Rightarrow> Some x)"

definition index_entry :: "writer_env \<Rightarrow> string \<Rightarrow> string \<Rightarrow> string \<Rightarrow> StoredSession
    \<Rightarrow> string option \<Rightarrow> string \<Rightarrow> json list \<Rightarrow> nat \<Rightarrow> json" where
  "index_entry env sessionId transcriptPath projectPath session customTitle firstPrompt messageLines messageCount =
     stringify
       [(''sessionId'', Some (JStr sessionId)),
        (''fullPath'', Some (JStr transcriptPath)),
        (''fileMtime'', Some (JNum (file_mtime env))),
        (''firstPrompt'', Some (JStr firstPrompt)),
        (''customTitle'', map_option JStr customTitle),
        (''messageCount'', Some (JNum (int messageCount))),
        (''created'', Some (nullish_or (get_prop (first_opt messageLines) ''timestamp'')
                                 (JStr (to_iso env (createdAt session))))),
        (''modified'', Some (nullish_or (get_prop (last_opt messageLines) ''timestamp'')
                                  (JStr (to_iso env (lastUsedAt session))))),
        (''gitBranch'', (if truthy (get_prop (last_opt messageLines) ''gitBranch'')
                         then get_prop (last_opt messageLines) ''gitBranch'' else None)),
        (''projectPath'', Some (JStr projectPath)),
        (''isSidechain'', Some (JBool False))]"

definition default_index :: json where
  "default_index = JObj [(''version'', JNum 1), (''entries'', JArr [])]"

definition upsert_entry :: "writer_env \<Rightarrow> string \<Rightarrow> json \<Rightarrow> json \<Rightarrow> error + json" where
  "upsert_entry env sessionId entry index =
     (case index of
        JObj kv \<Rightarrow>
          (case map_of kv ''entries'' of
             Some (JArr es) \<Rightarrow>
               if JNull \<in> set es then Inl (TypeError ''Cannot read properties of null'')
               else Inr (JObj (AList.update ''entries''
                      (JArr (sort_key (\<lambda>e. - date_ms env (get_prop (Some e) ''modified''))
                               (filter (\<lambda>e. get_prop (Some e) ''sessionId'' \<noteq> Some (JStr sessionId)) es
                                @ [entry]))) kv))
           | _ \<Rightarrow> Inl (TypeError ''index.entries.filter is not a function''))
      | _ \<Rightarrow> Inl (TypeError ''Cannot read properties of index.entries''))"

definition updateSessionsIndex :: "writer_env \<Rightarrow> json option \<Rightarrow> string \<Rightarrow> string \<Rightarrow> string
    \<Rightarrow> StoredSession \<Rightarrow> json list \<Rightarrow> string option \<Rightarrow> error + json" where
  "updateSessionsIndex env indexFile sessionId transcriptPath projectPath session transcriptLines customTitle =
     (case first_prompt transcriptLines of
        Inl e \<Rightarrow> Inl e
      | Inr firstPrompt \<Rightarrow>
          (case getMessageLines transcriptLines of
             Inl e \<Rightarrow> Inl e
           | Inr messageLines \<Rightarrow>
               (case countTranscriptMessages transcriptLines of
                  Inl e \<Rightarrow> Inl e
                | Inr messageCount \<Rightarrow>
                    upsert_entry env sessionId
                      (index_entry env sessionId transcriptPath projectPath session customTitle
                         firstPrompt messageLines messageCount)
                      (case indexFile of None \<Rightarrow> default_index | Some j \<Rightarrow> j))))"

text \<open>
  \<open>findTranscriptFile\<close> reads the direct children of the projects directory only. A project
  whose name is not a single path segment (a hint with a separator, \<open>.\<close> or \<open>..\<close>) is created
  by \<open>path.join\<close> and \<open>mkdir\<close> in a nested or outer directory, where it does not look.
\<close>

definition findTranscriptFile :: "claude_home \<Rightarrow> string \<Rightarrow> (string \<times> project) option" where
  "findTranscriptFile st sessionId =
     find (\<lambda>(n, p). is_segment n \<and> map_of (transcripts p) sessionId \<noteq> None) (projects st)"

definition transcript_path :: "writer_env \<Rightarrow> string \<Rightarrow> string \<Rightarrow> string" where
  "transcript_path env projectDir sessionId =
     projects_dir env @ ''/'' @ projectDir @ ''/'' @ sessionId @ ''.jsonl''"

definition history_entry :: "writer_env \<Rightarrow> string \<Rightarrow> string \<Rightarrow> string \<Rightarrow> json" where
  "history_entry env sessionId workingDir preview =
     JObj [(''display'', JStr preview), (''pastedContents'', JObj []),
           (''timestamp'', JNum (now_ms env)), (''project'', JStr workingDir),
           (''sessionId'', JStr sessionId)]"

record export_result =
  claudeSessionId :: string
  projectPath :: string
  claudeProjectDir :: string

text \<open>
  \<open>exportSession\<close>: \<open>export_existing\<close> is the branch taken when a transcript of the session
  is found, \<open>export_new\<close> the rest of the function. Both return the state reached when a
  later step throws.
\<close>

definition set_project :: "claude_home \<Rightarrow> string \<Rightarrow> project \<Rightarrow> claude_home" where
  "set_project st n p = st\<lparr>projects := AList.update n p (projects st)\<rparr>"

definition export_existing :: "writer_env \<Rightarrow> claude_home \<Rightarrow> StoredSession \<Rightarrow> string \<Rightarrow> string
    \<Rightarrow> string \<times> project \<Rightarrow> (error + export_result) \<times> claude_home" where
  "export_existing env st session sid workDir found =
     (case found of (pname, pr) \<Rightarrow>
        (let existingEntries = (case map_of (transcripts pr) sid of Some ls \<Rightarrow> ls | None \<Rightarrow> []);
             customTitle = normalizeCustomTitle (session_name session);
             newLines = buildTranscriptLines env session sid workDir (git_branch_of env workDir)
                          (Some (collectExistingUuids existingEntries)) False
                          (getLastMessageUuid existingEntries);
             metadataLines = (case customTitle of
                                Some t \<Rightarrow> if getLastCustomTitle existingEntries \<noteq> Some t
                                          then [buildCustomTitleLine sid t] else []
                              | None \<Rightarrow> []);
             entries' = existingEntries @ newLines @ metadataLines;
             pr1 = pr\<lparr>transcripts := AList.update sid entries' (transcripts pr)\<rparr>;
             projPath = or_else (extractProjectPath entries') workDir
         in case getMessageLines entries' of
              Inl e \<Rightarrow> (Inl e, set_project st pname pr1)
            | Inr transcriptLines \<Rightarrow>
                (case updateSessionsIndex env (sessions_index pr1) sid
                        (transcript_path env pname sid) projPath session transcriptLines customTitle of
                   Inl e \<Rightarrow> (Inl e, set_project st pname pr1)
                 | Inr idx \<Rightarrow>
                     (Inr \<lparr>claudeSessionId = sid, projectPath = projPath,
                           claudeProjectDir = projects_dir env @ ''/'' @ pname\<rparr>,
                      set_project st pname (pr1\<lparr>sessions_index := Some idx\<rparr>)))))"

definition export_new :: "writer_env \<Rightarrow> claude_home \<Rightarrow> StoredSession \<Rightarrow> string \<Rightarrow> string
    \<Rightarrow> string \<Rightarrow> (error + export_result) \<times> claude_home" where
  "export_new env st session sid workDir pname =
     (let customTitle = normalizeCustomTitle (session_name session);
          transcriptLines = buildTranscriptLines env session sid workDir (git_branch_of env workDir)
                              None True None;
          metadataLines = (case customTitle of Some t \<Rightarrow> [buildCustomTitleLine sid t] | None \<Rightarrow> []);
          pr = (case map_of (projects st) pname of
                  Some p \<Rightarrow> p
                | None \<Rightarrow> \<lparr>transcripts = [], sessions_index = None\<rparr>);
          pr1 = pr\<lparr>transcripts := AList.update sid (transcriptLines @ metadataLines) (transcripts pr)\<rparr>;
          st1 = (set_project st pname pr1)\<lparr>history := history st
                   @ [history_entry env sid workDir (or_else (session_name session) ''Exported Session'')]\<rparr>
      in case updateSessionsIndex env (sessions_index pr1) sid (transcript_path env pname sid)
                workDir session transcriptLines customTitle of
           Inl e \<Rightarrow> (Inl e, st1)
         | Inr idx \<Rightarrow>
             (Inr \<lparr>claudeSessionId = sid, projectPath = workDir,
                   claudeProjectDir = projects_dir env @ ''/'' @ pname\<rparr>,
              set_project st1 pname (pr1\<lparr>sessions_index := Some idx\<rparr>)))"

definition exportSession :: "writer_env \<Rightarrow> claude_home \<Rightarrow> StoredSession \<Rightarrow> string option
    \<Rightarrow> (error + export_result) \<times> claude_home" where
  "exportSession env st session projectName =
     (let sid = or_else (sdkSessionId session) (session_uuid env);
          workDir = resolveWorkDir env session
      in case findTranscriptFile st sid of
           Some found \<Rightarrow> export_existing env st session sid workDir found
         | None \<Rightarrow> export_new env st session sid workDir
                     (or_else projectName (extractProjectName workDir)))"

text \<open>A session of two messages and a tool record, and an environment to export it in.\<close>

definition demo_env :: "string \<Rightarrow> writer_env" where
  "demo_env u = \<lparr>session_uuid = u, snapshot_uuid = ''snap-'' @ u,
     now_iso = ''2026-01-26T00:00:00.000Z'', now_ms = 1769385600000,
     projects_dir = ''/home/u/.claude/projects'', process_cwd = ''/home/u/work'',
     resolve_dir = (\<lambda>p. p), git_branch_of = (\<lambda>p. Some ''main''), file_mtime = 1769385600000,
     to_iso = (\<lambda>t. ''t'' @ show_int t), date_ms = (\<lambda>v. 0)\<rparr>"

definition demo_session :: "string option \<Rightarrow> StoredSession" where
  "demo_session sid = \<lparr>sdkSessionId = sid, session_name = Some '' My chat '',
     workingDirectory = Some ''/home/u/work'', sdkCwd = None,
     messages = [\<lparr>msg_id = ''m1'', msg_type = ''user'', msg_content = ''hello'', msg_timestamp = Some 5\<rparr>,
                 \<lparr>msg_id = ''m2'', msg_type = ''assistant'', msg_content = ''[Thinking: hm] hi there'', msg_timestamp = Some 6\<rparr>,
                 \<lparr>msg_id = ''m3'', msg_type = ''tool'', msg_content = ''ls'', msg_timestamp = Some 7\<rparr>],
     createdAt = 5, lastUsedAt = 7\<rparr>"

subsection \<open>Exporting a session twice\<close>

lemma or_else_Some: "x \<noteq> [] \<Longrightarrow> or_else (Some x) d = x"
  by (simp add: or_else_def)

lemma uuid_of_line:
  "string_prop (with_branch gb (convertMessage env m sid cwd parent)) ''uuid'' = Some (msg_id m)"
  by (auto simp: with_branch_def convertMessage_def string_prop_def get_prop_def Let_def update_conv'
      split: option.splits)

lemma type_of_line:
  "get_prop (Some (with_branch gb (convertMessage env m sid cwd parent))) ''type'' = Some (JStr (msg_type m))"
  by (auto simp: with_branch_def convertMessage_def get_prop_def Let_def update_conv'
      split: option.splits)

lemma line_not_null: "with_branch gb (convertMessage env m sid cwd parent) \<noteq> JNull"
  by (auto simp: with_branch_def convertMessage_def Let_def split: option.splits)

lemma collect_append:
  "collectExistingUuids (a @ b) = collectExistingUuids a @ collectExistingUuids b"
  by (induction a) (auto simp: collectExistingUuids_def split: option.splits)

lemma collect_Cons:
  "collectExistingUuids (x # b) =
     (case string_prop x ''uuid'' of None \<Rightarrow> [] | Some u \<Rightarrow> [u]) @ collectExistingUuids b"
  by (auto simp: collectExistingUuids_def split: option.splits)

lemma message_lines_covers:
  "m \<in> set ms \<Longrightarrow> is_message_type (msg_type m) \<Longrightarrow>
   msg_id m \<in> (case ex of None \<Rightarrow> {} | Some us \<Rightarrow> set us)
       \<union> set (collectExistingUuids (message_lines env sid cwd gb ex ms parent))"
proof (induction ms arbitrary: parent)
  case Nil
  then show ?case by simp
next
  case (Cons a ms)
  show ?case
  proof (cases "m = a")
    case True
    with Cons.prems show ?thesis
      by (auto simp: collect_append collect_Cons uuid_of_line split: option.splits)
  next
    case False
    with Cons.prems have "m \<in> set ms" by simp
    from Cons.IH [OF this Cons.prems(2)] show ?thesis
      by (auto simp: collect_append split: option.splits)
  qed
qed

lemma message_lines_nothing:
  "\<forall>m \<in> set ms. is_message_type (msg_type m) \<longrightarrow> msg_id m \<in> set us \<Longrightarrow>
   message_lines env sid cwd gb (Some us) ms parent = []"
  by (induction ms arbitrary: parent) auto

lemma message_lines_are_messages:
  "l \<in> set (message_lines env sid cwd gb ex ms parent) \<Longrightarrow> is_message_entry l \<and> l \<noteq> JNull"
proof (induction ms arbitrary: parent)
  case Nil
  then show ?case by simp
next
  case (Cons a ms)
  then show ?case
    by (auto simp: is_message_entry_def type_of_line line_not_null is_message_type_def
        split: if_splits)
qed

lemma title_line_props:
  "get_prop (Some (buildCustomTitleLine sid t)) ''type'' = Some (JStr ''custom-title'')"
  "string_prop (buildCustomTitleLine sid t) ''customTitle'' = Some t"
  "\<not> is_message_entry (buildCustomTitleLine sid t)"
  "buildCustomTitleLine sid t \<noteq> JNull"
  "string_prop (buildCustomTitleLine sid t) ''uuid'' = None"
  "JNull \<noteq> buildCustomTitleLine sid t"
  by (simp_all add: buildCustomTitleLine_def get_prop_def string_prop_def is_message_entry_def)

lemma snapshot_line_props:
  "\<not> is_message_entry (snapshot_line env)" "snapshot_line env \<noteq> JNull"
  "get_prop (Some (snapshot_line env)) ''type'' = Some (JStr ''file-history-snapshot'')"
  "JNull \<noteq> snapshot_line env"
  by (simp_all add: snapshot_line_def get_prop_def is_message_entry_def)

lemma last_title_snoc: "getLastCustomTitle (ls @ [buildCustomTitleLine sid t]) = Some t"
  by (simp add: getLastCustomTitle_def title_line_props)

lemma find_app:
  "find P (xs @ ys) = (case find P xs of None \<Rightarrow> find P ys | Some x \<Rightarrow> Some x)"
  by (induction xs) auto

lemma last_title_messages:
  assumes a: "\<forall>l \<in> set new. is_message_entry l"
  shows "getLastCustomTitle (ls @ new) = getLastCustomTitle ls"
proof -
  have "find (\<lambda>e. get_prop (Some e) ''type'' = Some (JStr ''custom-title'')
                     \<and> string_prop e ''customTitle'' \<noteq> None) (rev new) = None"
    using a by (auto simp: find_None_iff is_message_entry_def)
  then show ?thesis by (simp add: getLastCustomTitle_def find_app)
qed

lemma find_filter_imp: "(\<And>x. P x \<Longrightarrow> Q x) \<Longrightarrow> find P (filter Q xs) = find P xs"
  by (induction xs) auto

lemma first_prompt_filter: "first_prompt (filter is_message_entry ls) = first_prompt ls"
proof -
  have "find (\<lambda>l. get_prop (Some l) ''type'' = Some (JStr ''user'')) (filter is_message_entry ls)
      = find (\<lambda>l. get_prop (Some l) ''type'' = Some (JStr ''user'')) ls"
    by (rule find_filter_imp) (simp add: is_message_entry_def)
  then show ?thesis by (simp add: first_prompt_def)
qed

lemma counts_other: "l \<noteq> JNull \<Longrightarrow> \<not> is_message_entry l \<Longrightarrow> counts l = Inr False"
  by (simp add: counts_def is_message_entry_def)

lemma count_filter:
  "JNull \<notin> set ls \<Longrightarrow>
   countTranscriptMessages (filter is_message_entry ls) = countTranscriptMessages ls"
proof (induction ls)
  case Nil
  then show ?case by simp
next
  case (Cons a ls)
  then have ih: "countTranscriptMessages (filter is_message_entry ls) = countTranscriptMessages ls"
    and a: "a \<noteq> JNull" by auto
  show ?case
  proof (cases "is_message_entry a")
    case True
    with ih show ?thesis by (simp split: sum.splits)
  next
    case False
    with a have "counts a = Inr False" by (simp add: counts_other)
    with False ih show ?thesis by (simp split: sum.splits)
  qed
qed

lemma find_update_fresh:
  "\<forall>x \<in> set ps. \<not> P x \<Longrightarrow> P (k, v) \<Longrightarrow> find P (AList.update k v ps) = Some (k, v)"
  by (induction ps) auto

lemma find_update_found:
  "find P ps = Some (k, v0) \<Longrightarrow> distinct (map fst ps) \<Longrightarrow> P (k, v) \<Longrightarrow>
   find P (AList.update k v ps) = Some (k, v)"
proof (induction ps)
  case Nil
  then show ?case by simp
next
  case (Cons a ps)
  show ?case
  proof (cases "P a")
    case True
    with Cons.prems show ?thesis by (cases a) auto
  next
    case False
    with Cons.prems have f: "find P ps = Some (k, v0)" by simp
    then have "(k, v0) \<in> set ps" by (auto simp: find_Some_iff)
    then have "k \<in> fst ` set ps" by force
    with Cons.prems(2) have "fst a \<noteq> k" by auto
    with False Cons.IH [OF f _ Cons.prems(3)] Cons.prems(2) show ?thesis
      by (cases a) auto
  qed
qed

lemma map_of_find:
  "find P ps = Some (k, v0) \<Longrightarrow> distinct (map fst ps) \<Longrightarrow> map_of ps k = Some v0"
  by (auto simp: find_Some_iff)

lemma find_holds: "find P ps = Some x \<Longrightarrow> P x"
  by (auto simp: find_Some_iff)

lemma same_files:
  "map_of ps k = Some v \<Longrightarrow> g v' = g v \<Longrightarrow>
   map (\<lambda>(n, p). (n, g p)) (AList.update k v' ps) = map (\<lambda>(n, p). (n, g p)) ps"
  by (induction ps) auto

text \<open>
  What the statement observes: the message counts the index of a project records for a
  session, and the transcript files of every project.
\<close>

definition index_counts :: "json option \<Rightarrow> string \<Rightarrow> json option list" where
  "index_counts indexFile sessionId =
     (case indexFile of
        Some (JObj kv) \<Rightarrow>
          (case map_of kv ''entries'' of
             Some (JArr es) \<Rightarrow>
               map (\<lambda>e. get_prop (Some e) ''messageCount'')
                 (filter (\<lambda>e. get_prop (Some e) ''sessionId'' = Some (JStr sessionId)) es)
           | _ \<Rightarrow> [])
      | _ \<Rightarrow> [])"

definition recorded_counts :: "claude_home \<Rightarrow> string \<Rightarrow> string \<Rightarrow> json option list" where
  "recorded_counts st projectDir sessionId =
     (case map_of (projects st) projectDir of
        None \<Rightarrow> []
      | Some p \<Rightarrow> index_counts (sessions_index p) sessionId)"

definition transcript_files :: "claude_home \<Rightarrow> (string \<times> (string \<times> json list) list) list" where
  "transcript_files st = map (\<lambda>(n, p). (n, transcripts p)) (projects st)"

lemma index_entry_props:
  "get_prop (Some (index_entry env sid tp pp session ct fp ml n)) ''sessionId'' = Some (JStr sid)"
  "get_prop (Some (index_entry env sid tp pp session ct fp ml n)) ''messageCount'' = Some (JNum (int n))"
  "index_entry env sid tp pp session ct fp ml n \<noteq> JNull"
  by (simp_all add: index_entry_def stringify_def get_prop_def map_of_field map_add_def
      split: option.splits)

lemma upsert_entry_Inr:
  assumes "upsert_entry env sid entry idx = Inr idx'"
  obtains kv es where "idx = JObj kv" "map_of kv ''entries'' = Some (JArr es)" "JNull \<notin> set es"
    "idx' = JObj (AList.update ''entries''
         (JArr (sort_key (\<lambda>e. - date_ms env (get_prop (Some e) ''modified''))
                  (filter (\<lambda>e. get_prop (Some e) ''sessionId'' \<noteq> Some (JStr sid)) es @ [entry]))) kv)"
  using assms
  by (auto simp: upsert_entry_def split: json.splits option.splits if_splits)

lemma upsert_entry_counts:
  assumes "upsert_entry env sid (index_entry env sid tp pp session ct fp ml n) idx = Inr idx'"
  shows "\<exists>kv es. idx' = JObj kv \<and> map_of kv ''entries'' = Some (JArr es) \<and> JNull \<notin> set es"
    and "index_counts (Some idx') sid = [Some (JNum (int n))]"
proof -
  let ?e = "index_entry env sid tp pp session ct fp ml n"
  let ?P = "\<lambda>e. get_prop (Some e) ''sessionId'' = Some (JStr sid)"
  let ?f = "\<lambda>e. - date_ms env (get_prop (Some e) ''modified'')"
  from assms obtain kv es where k: "idx = JObj kv" "map_of kv ''entries'' = Some (JArr es)"
      "JNull \<notin> set es"
      "idx' = JObj (AList.update ''entries''
         (JArr (sort_key ?f (filter (\<lambda>e. \<not> ?P e) es @ [?e]))) kv)"
    by (rule upsert_entry_Inr)
  let ?es = "sort_key ?f (filter (\<lambda>e. \<not> ?P e) es @ [?e])"
  have m: "map_of (AList.update ''entries'' (JArr ?es) kv) ''entries'' = Some (JArr ?es)"
    by (simp add: update_conv')
  have "?e \<noteq> JNull" by (rule index_entry_props(3))
  then have n: "JNull \<notin> set ?es" using k(3) by auto
  from k(4) m n show "\<exists>kv es. idx' = JObj kv \<and> map_of kv ''entries'' = Some (JArr es) \<and> JNull \<notin> set es"
    by blast
  have "filter ?P ?es = sort_key ?f (filter ?P (filter (\<lambda>e. \<not> ?P e) es @ [?e]))"
    by (rule filter_sort)
  also have "filter ?P (filter (\<lambda>e. \<not> ?P e) es @ [?e]) = [?e]"
    by (simp add: index_entry_props)
  finally have "filter ?P ?es = [?e]" by simp
  with k(4) m show "index_counts (Some idx') sid = [Some (JNum (int n))]"
    by (simp add: index_counts_def index_entry_props)
qed

lemma upsert_entry_returns:
  "map_of kv ''entries'' = Some (JArr es) \<Longrightarrow> JNull \<notin> set es \<Longrightarrow>
   \<exists>idx'. upsert_entry env sid entry (JObj kv) = Inr idx'"
  by (simp add: upsert_entry_def)

lemma getMessageLines_Inr: "getMessageLines ls = Inr ms \<longleftrightarrow> JNull \<notin> set ls \<and> ms = filter is_message_entry ls"
  by (auto simp: getMessageLines_def)

lemma updateSessionsIndex_Inr:
  assumes "updateSessionsIndex env idxf sid tp pp session T ct = Inr idx'"
  obtains fp n where "first_prompt T = Inr fp" "JNull \<notin> set T" "countTranscriptMessages T = Inr n"
    "upsert_entry env sid (index_entry env sid tp pp session ct fp (filter is_message_entry T) n)
        (case idxf of None \<Rightarrow> default_index | Some j \<Rightarrow> j) = Inr idx'"
  using assms
  by (auto simp: updateSessionsIndex_def getMessageLines_def split: sum.splits if_splits)

lemma updateSessionsIndex_returns:
  assumes "first_prompt T = Inr fp" "JNull \<notin> set T" "countTranscriptMessages T = Inr n"
    "idxf = Some (JObj kv)" "map_of kv ''entries'' = Some (JArr es)" "JNull \<notin> set es"
  shows "\<exists>idx'. updateSessionsIndex env idxf sid tp pp session T ct = Inr idx'
           \<and> index_counts (Some idx') sid = [Some (JNum (int n))]"
proof -
  from upsert_entry_returns [OF assms(5,6)]
  obtain idx' where u: "upsert_entry env sid
      (index_entry env sid tp pp session ct fp (filter is_message_entry T) n) (JObj kv) = Inr idx'"
    by blast
  from upsert_entry_counts(2) [OF u] have "index_counts (Some idx') sid = [Some (JNum (int n))]" .
  with u assms show ?thesis
    by (simp add: updateSessionsIndex_def getMessageLines_def)
qed

lemma export_again:
  assumes sdk: "sdkSessionId session = Some sid" "sid \<noteq> []"
    and f: "findTranscriptFile st sid = Some (pname, pr)"
    and tr: "map_of (transcripts pr) sid = Some L"
    and nn: "JNull \<notin> set L"
    and cov: "\<forall>m \<in> set (messages session).
                is_message_type (msg_type m) \<longrightarrow> msg_id m \<in> set (collectExistingUuids L)"
    and ti: "\<forall>t. normalizeCustomTitle (session_name session) = Some t
                \<longrightarrow> getLastCustomTitle L = Some t"
    and fp: "first_prompt (filter is_message_entry L) = Inr p"
    and cn: "countTranscriptMessages (filter is_message_entry L) = Inr n"
    and ix: "sessions_index pr = Some (JObj kv)" "map_of kv ''entries'' = Some (JArr es)"
            "JNull \<notin> set es"
  shows "\<exists>r idx. exportSession env st session pn
             = (Inr r, set_project st pname (pr\<lparr>sessions_index := Some idx\<rparr>))
           \<and> claudeSessionId r = sid
           \<and> claudeProjectDir r = projects_dir env @ ''/'' @ pname
           \<and> index_counts (Some idx) sid = [Some (JNum (int n))]"
proof -
  let ?wd = "resolveWorkDir env session"
  let ?M = "filter is_message_entry L"
  have nl: "buildTranscriptLines env session sid ?wd gb (Some (collectExistingUuids L)) False parent = []"
    for gb parent
    using cov by (simp add: buildTranscriptLines_def message_lines_nothing)
  have ml: "(case normalizeCustomTitle (session_name session) of
               Some t \<Rightarrow> if getLastCustomTitle L \<noteq> Some t then [buildCustomTitleLine sid t] else []
             | None \<Rightarrow> []) = []"
    using ti by (auto split: option.splits)
  have up: "AList.update sid L (transcripts pr) = transcripts pr"
    using tr by (rule update_triv)
  have gm: "getMessageLines L = Inr ?M" using nn by (simp add: getMessageLines_def)
  have nnM: "JNull \<notin> set ?M" using nn by simp
  have "\<exists>idx. updateSessionsIndex env (sessions_index pr) sid (transcript_path env pname sid)
            (or_else (extractProjectPath L) ?wd) session ?M
            (normalizeCustomTitle (session_name session)) = Inr idx
          \<and> index_counts (Some idx) sid = [Some (JNum (int n))]"
    using fp nnM cn ix by (rule updateSessionsIndex_returns)
  then obtain idx where u: "updateSessionsIndex env (sessions_index pr) sid
            (transcript_path env pname sid) (or_else (extractProjectPath L) ?wd) session ?M
            (normalizeCustomTitle (session_name session)) = Inr idx"
    and c: "index_counts (Some idx) sid = [Some (JNum (int n))]" by blast
  let ?r = "\<lparr>claudeSessionId = sid, projectPath = or_else (extractProjectPath L) ?wd,
               claudeProjectDir = projects_dir env @ ''/'' @ pname\<rparr>"
  have "export_existing env st session sid ?wd (pname, pr)
      = (Inr ?r, set_project st pname (pr\<lparr>sessions_index := Some idx\<rparr>))"
    by (simp add: export_existing_def tr nl ml up gm u)
  with f sdk have "exportSession env st session pn
      = (Inr ?r, set_project st pname (pr\<lparr>sessions_index := Some idx\<rparr>))"
    by (simp add: exportSession_def or_else_Some)
  moreover have "claudeSessionId ?r = sid" "claudeProjectDir ?r = projects_dir env @ ''/'' @ pname"
    by simp_all
  ultimately show ?thesis using c by blast
qed

lemma export_new_state:
  assumes sdk: "sdkSessionId session = Some sid" "sid \<noteq> []"
    and seg: "is_segment (or_else pn (extractProjectName (resolveWorkDir env session)))"
    and none: "findTranscriptFile st sid = None"
    and ex: "exportSession env st session pn = (Inr r, st1)"
  obtains pname pr L p n kv es where
    "findTranscriptFile st1 sid = Some (pname, pr)"
    "map_of (projects st1) pname = Some pr"
    "map_of (transcripts pr) sid = Some L"
    "JNull \<notin> set L"
    "\<forall>m \<in> set (messages session).
        is_message_type (msg_type m) \<longrightarrow> msg_id m \<in> set (collectExistingUuids L)"
    "\<forall>t. normalizeCustomTitle (session_name session) = Some t \<longrightarrow> getLastCustomTitle L = Some t"
    "first_prompt (filter is_message_entry L) = Inr p"
    "countTranscriptMessages (filter is_message_entry L) = Inr n"
    "sessions_index pr = Some (JObj kv)" "map_of kv ''entries'' = Some (JArr es)"
    "JNull \<notin> set es"
    "index_counts (sessions_index pr) sid = [Some (JNum (int n))]"
    "claudeSessionId r = sid" "claudeProjectDir r = projects_dir env @ ''/'' @ pname"
proof -
  define wd where "wd = resolveWorkDir env session"
  define pname where "pname = or_else pn (extractProjectName wd)"
  define ct where "ct = normalizeCustomTitle (session_name session)"
  define msgs where
    "msgs = message_lines env sid wd (git_branch_of env wd) None (messages session) None"
  define T where "T = snapshot_line env # msgs"
  define meta where "meta = (case ct of Some t \<Rightarrow> [buildCustomTitleLine sid t] | None \<Rightarrow> [])"
  define pr0 where "pr0 = (case map_of (projects st) pname of
                             Some p \<Rightarrow> p
                           | None \<Rightarrow> \<lparr>transcripts = [], sessions_index = None\<rparr>)"
  define pr1 where "pr1 = pr0\<lparr>transcripts := AList.update sid (T @ meta) (transcripts pr0)\<rparr>"
  from ex none sdk have en: "export_new env st session sid wd pname = (Inr r, st1)"
    by (simp add: exportSession_def or_else_Some wd_def pname_def Let_def)
  have "\<exists>idx. updateSessionsIndex env (sessions_index pr1) sid (transcript_path env pname sid)
                 wd session T ct = Inr idx
          \<and> r = \<lparr>claudeSessionId = sid, projectPath = wd,
                   claudeProjectDir = projects_dir env @ ''/'' @ pname\<rparr>
          \<and> projects st1 = AList.update pname (pr1\<lparr>sessions_index := Some idx\<rparr>) (projects st)"
    using en unfolding pr1_def pr0_def meta_def ct_def T_def msgs_def
    by (auto simp: export_new_def Let_def buildTranscriptLines_def set_project_def
        split: sum.splits)
  then obtain idx where u: "updateSessionsIndex env (sessions_index pr1) sid
        (transcript_path env pname sid) wd session T ct = Inr idx"
    and r: "r = \<lparr>claudeSessionId = sid, projectPath = wd,
                   claudeProjectDir = projects_dir env @ ''/'' @ pname\<rparr>"
    and s1: "projects st1 = AList.update pname (pr1\<lparr>sessions_index := Some idx\<rparr>) (projects st)"
    by blast
  let ?pr = "pr1\<lparr>sessions_index := Some idx\<rparr>"
  let ?L = "T @ meta"
  have tr: "map_of (transcripts ?pr) sid = Some ?L"
    by (simp add: pr1_def update_conv')
  from seg have sg: "is_segment pname" by (simp add: pname_def wd_def)
  from none have "\<forall>x \<in> set (projects st).
      \<not> (case x of (n, p) \<Rightarrow> is_segment n \<and> map_of (transcripts p) sid \<noteq> None)"
    by (auto simp: findTranscriptFile_def find_None_iff)
  then have f: "findTranscriptFile st1 sid = Some (pname, ?pr)"
    unfolding findTranscriptFile_def s1 by (rule find_update_fresh) (use tr sg in simp)
  have mp: "map_of (projects st1) pname = Some ?pr" by (simp add: s1 update_conv')
  have nnT: "JNull \<notin> set T"
    using message_lines_are_messages [of JNull env sid wd "git_branch_of env wd" None "messages session" None]
    by (auto simp: T_def msgs_def snapshot_line_props)
  have nn: "JNull \<notin> set ?L"
    using nnT by (auto simp: meta_def title_line_props split: option.splits)
  have cov: "\<forall>m \<in> set (messages session).
        is_message_type (msg_type m) \<longrightarrow> msg_id m \<in> set (collectExistingUuids ?L)"
  proof (intro ballI impI)
    fix m assume "m \<in> set (messages session)" "is_message_type (msg_type m)"
    from message_lines_covers [OF this, of None env sid wd "git_branch_of env wd" None]
    show "msg_id m \<in> set (collectExistingUuids ?L)"
      by (simp add: T_def msgs_def collect_append collect_Cons)
  qed
  have ti: "\<forall>t. normalizeCustomTitle (session_name session) = Some t \<longrightarrow> getLastCustomTitle ?L = Some t"
    by (simp add: meta_def ct_def last_title_snoc del: append_Cons)
  have fM: "filter is_message_entry ?L = filter is_message_entry T"
    by (simp add: meta_def title_line_props split: option.splits)
  from u obtain p n where fp: "first_prompt T = Inr p" and cn: "countTranscriptMessages T = Inr n"
    and up: "upsert_entry env sid (index_entry env sid (transcript_path env pname sid) wd session ct p
               (filter is_message_entry T) n)
        (case sessions_index pr1 of None \<Rightarrow> default_index | Some j \<Rightarrow> j) = Inr idx"
    by (rule updateSessionsIndex_Inr)
  have fp': "first_prompt (filter is_message_entry ?L) = Inr p"
    unfolding fM by (simp add: first_prompt_filter fp)
  have cn': "countTranscriptMessages (filter is_message_entry ?L) = Inr n"
    unfolding fM by (simp add: count_filter nnT cn)
  from upsert_entry_counts(1) [OF up] obtain kv es where
    ix: "idx = JObj kv" "map_of kv ''entries'' = Some (JArr es)" "JNull \<notin> set es" by blast
  have ic: "index_counts (sessions_index ?pr) sid = [Some (JNum (int n))]"
    using upsert_entry_counts(2) [OF up] by simp
  show ?thesis
  proof (rule that [OF f mp tr nn cov ti fp' cn' _ ix(2,3) ic])
    show "sessions_index ?pr = Some (JObj kv)" by (simp add: ix(1))
    show "claudeSessionId r = sid" by (simp add: r)
    show "claudeProjectDir r = projects_dir env @ ''/'' @ pname" by (simp add: r)
  qed
qed

lemma export_existing_state:
  assumes sdk: "sdkSessionId session = Some sid" "sid \<noteq> []"
    and dist: "distinct (map fst (projects st))"
    and found: "findTranscriptFile st sid = Some (pname, pr0)"
    and ex: "exportSession env st session pn = (Inr r, st1)"
  obtains pr L p n kv es where
    "findTranscriptFile st1 sid = Some (pname, pr)"
    "map_of (projects st1) pname = Some pr"
    "map_of (transcripts pr) sid = Some L"
    "JNull \<notin> set L"
    "\<forall>m \<in> set (messages session).
        is_message_type (msg_type m) \<longrightarrow> msg_id m \<in> set (collectExistingUuids L)"
    "\<forall>t. normalizeCustomTitle (session_name session) = Some t \<longrightarrow> getLastCustomTitle L = Some t"
    "first_prompt (filter is_message_entry L) = Inr p"
    "countTranscriptMessages (filter is_message_entry L) = Inr n"
    "sessions_index pr = Some (JObj kv)" "map_of kv ''entries'' = Some (JArr es)"
    "JNull \<notin> set es"
    "index_counts (sessions_index pr) sid = [Some (JNum (int n))]"
    "claudeSessionId r = sid" "claudeProjectDir r = projects_dir env @ ''/'' @ pname"
proof -
  define wd where "wd = resolveWorkDir env session"
  define ct where "ct = normalizeCustomTitle (session_name session)"
  from found have "is_segment pname \<and> map_of (transcripts pr0) sid \<noteq> None"
    by (auto simp: findTranscriptFile_def dest: find_holds)
  then obtain L0 where l0: "map_of (transcripts pr0) sid = Some L0" and sg: "is_segment pname"
    by auto
  define new where "new = message_lines env sid wd (git_branch_of env wd)
      (Some (collectExistingUuids L0)) (messages session) (getLastMessageUuid L0)"
  define meta where "meta = (case ct of
        Some t \<Rightarrow> if getLastCustomTitle L0 \<noteq> Some t then [buildCustomTitleLine sid t] else []
      | None \<Rightarrow> [])"
  define L where "L = L0 @ new @ meta"
  define pr1 where "pr1 = pr0\<lparr>transcripts := AList.update sid L (transcripts pr0)\<rparr>"
  define pp where "pp = or_else (extractProjectPath L) wd"
  from ex found sdk have ee: "export_existing env st session sid wd (pname, pr0) = (Inr r, st1)"
    by (simp add: exportSession_def or_else_Some wd_def Let_def)
  have "\<exists>idx. JNull \<notin> set L
          \<and> updateSessionsIndex env (sessions_index pr1) sid (transcript_path env pname sid)
                 pp session (filter is_message_entry L) ct = Inr idx
          \<and> r = \<lparr>claudeSessionId = sid, projectPath = pp,
                   claudeProjectDir = projects_dir env @ ''/'' @ pname\<rparr>
          \<and> projects st1 = AList.update pname (pr1\<lparr>sessions_index := Some idx\<rparr>) (projects st)"
    using ee unfolding pp_def pr1_def L_def meta_def new_def ct_def
      export_existing_def prod.case Let_def l0 option.case
    by (auto simp: buildTranscriptLines_def set_project_def
        getMessageLines_def split: sum.splits if_splits)
  then obtain idx where nn: "JNull \<notin> set L"
    and u: "updateSessionsIndex env (sessions_index pr1) sid
        (transcript_path env pname sid) pp session (filter is_message_entry L) ct = Inr idx"
    and r: "r = \<lparr>claudeSessionId = sid, projectPath = pp,
                   claudeProjectDir = projects_dir env @ ''/'' @ pname\<rparr>"
    and s1: "projects st1 = AList.update pname (pr1\<lparr>sessions_index := Some idx\<rparr>) (projects st)"
    by blast
  let ?pr = "pr1\<lparr>sessions_index := Some idx\<rparr>"
  have tr: "map_of (transcripts ?pr) sid = Some L"
    by (simp add: pr1_def update_conv')
  from found have "find (\<lambda>(n, p). is_segment n \<and> map_of (transcripts p) sid \<noteq> None) (projects st)
      = Some (pname, pr0)"
    by (simp add: findTranscriptFile_def)
  then have f: "findTranscriptFile st1 sid = Some (pname, ?pr)"
    unfolding findTranscriptFile_def s1 using dist by (rule find_update_found) (use tr sg in simp)
  have mp: "map_of (projects st1) pname = Some ?pr" by (simp add: s1 update_conv')
  have cov: "\<forall>m \<in> set (messages session).
        is_message_type (msg_type m) \<longrightarrow> msg_id m \<in> set (collectExistingUuids L)"
  proof (intro ballI impI)
    fix m assume "m \<in> set (messages session)" "is_message_type (msg_type m)"
    from message_lines_covers [OF this, of "Some (collectExistingUuids L0)" env sid wd
        "git_branch_of env wd" "getLastMessageUuid L0"]
    show "msg_id m \<in> set (collectExistingUuids L)"
      by (auto simp: L_def new_def collect_append)
  qed
  have newm: "\<forall>l \<in> set new. is_message_entry l"
    unfolding new_def using message_lines_are_messages by blast
  have ti: "\<forall>t. normalizeCustomTitle (session_name session) = Some t \<longrightarrow> getLastCustomTitle L = Some t"
  proof (intro allI impI)
    fix t assume t: "normalizeCustomTitle (session_name session) = Some t"
    show "getLastCustomTitle L = Some t"
    proof (cases "getLastCustomTitle L0 = Some t")
      case True
      with t have "L = L0 @ new" by (simp add: L_def meta_def ct_def)
      with True newm show ?thesis by (simp add: last_title_messages)
    next
      case False
      with t have "L = (L0 @ new) @ [buildCustomTitleLine sid t]"
        by (simp add: L_def meta_def ct_def)
      then show ?thesis by (simp only: last_title_snoc)
    qed
  qed
  from u obtain p n where fp: "first_prompt (filter is_message_entry L) = Inr p"
    and cn: "countTranscriptMessages (filter is_message_entry L) = Inr n"
    and up: "upsert_entry env sid (index_entry env sid (transcript_path env pname sid) pp session ct p
               (filter is_message_entry (filter is_message_entry L)) n)
        (case sessions_index pr1 of None \<Rightarrow> default_index | Some j \<Rightarrow> j) = Inr idx"
    by (rule updateSessionsIndex_Inr)
  from upsert_entry_counts(1) [OF up] obtain kv es where
    ix: "idx = JObj kv" "map_of kv ''entries'' = Some (JArr es)" "JNull \<notin> set es" by blast
  have ic: "index_counts (sessions_index ?pr) sid = [Some (JNum (int n))]"
    using upsert_entry_counts(2) [OF up] by simp
  show ?thesis
  proof (rule that [OF f mp tr nn cov ti fp cn _ ix(2,3) ic])
    show "sessions_index ?pr = Some (JObj kv)" by (simp add: ix(1))
    show "claudeSessionId r = sid" by (simp add: r)
    show "claudeProjectDir r = projects_dir env @ ''/'' @ pname" by (simp add: r)
  qed
qed

lemma export_first_state:
  assumes sdk: "sdkSessionId session = Some sid" "sid \<noteq> []"
    and seg: "is_segment (or_else pn (extractProjectName (resolveWorkDir env session)))"
    and dist: "distinct (map fst (projects st))"
    and ex: "exportSession env st session pn = (Inr r, st1)"
  obtains pname pr L p n kv es where
    "findTranscriptFile st1 sid = Some (pname, pr)"
    "map_of (projects st1) pname = Some pr"
    "map_of (transcripts pr) sid = Some L"
    "JNull \<notin> set L"
    "\<forall>m \<in> set (messages session).
        is_message_type (msg_type m) \<longrightarrow> msg_id m \<in> set (collectExistingUuids L)"
    "\<forall>t. normalizeCustomTitle (session_name session) = Some t \<longrightarrow> getLastCustomTitle L = Some t"
    "first_prompt (filter is_message_entry L) = Inr p"
    "countTranscriptMessages (filter is_message_entry L) = Inr n"
    "sessions_index pr = Some (JObj kv)" "map_of kv ''entries'' = Some (JArr es)"
    "JNull \<notin> set es"
    "index_counts (sessions_index pr) sid = [Some (JNum (int n))]"
    "claudeSessionId r = sid" "claudeProjectDir r = projects_dir env @ ''/'' @ pname"
proof (cases "findTranscriptFile st sid")
  case None
  show ?thesis by (rule export_new_state [OF sdk seg None ex]) (rule that)
next
  case (Some a)
  then obtain pname pr0 where found: "findTranscriptFile st sid = Some (pname, pr0)"
    by (cases a) simp
  show ?thesis by (rule export_existing_state [OF sdk dist found ex]) (rule that)
qed

definition empty_home :: claude_home where
  "empty_home = \<lparr>projects = [], history = []\<rparr>"

text \<open>
  C1 (exporting twice is idempotent). For a session that carries a non-empty \<open>sdkSessionId\<close>
  (a file name), exported by the same writer into a project directory that lies directly
  under the projects directory: when the first export returns, a second export of the same
  session returns as well, under any clock, branch and project hint; it reports the same
  session and project directory, leaves every transcript file as it was (no message line and
  no title entry is appended), adds nothing to the history, and the index of the project
  records for the session one entry, whose message count is the one recorded after the first
  export.
\<close>

theorem exportSession_idempotent:
  assumes sdk: "sdkSessionId session = Some sid"
    and sid: "sid \<noteq> []" "CHR ''/'' \<notin> set sid"
    and seg: "is_segment (or_else pn1 (extractProjectName (resolveWorkDir env1 session)))"
    and dist: "distinct (map fst (projects st))"
    and same: "projects_dir env2 = projects_dir env1"
    and ex: "exportSession env1 st session pn1 = (Inr r1, st1)"
  shows "\<exists>r2 st2 pname n.
           exportSession env2 st1 session pn2 = (Inr r2, st2)
         \<and> claudeSessionId r1 = sid \<and> claudeSessionId r2 = sid
         \<and> claudeProjectDir r1 = projects_dir env1 @ ''/'' @ pname
         \<and> claudeProjectDir r2 = claudeProjectDir r1
         \<and> transcript_files st2 = transcript_files st1
         \<and> history st2 = history st1
         \<and> recorded_counts st1 pname sid = [Some (JNum n)]
         \<and> recorded_counts st2 pname sid = [Some (JNum n)]"
proof -
  from sdk sid(1) seg dist ex obtain pname pr L p n kv es where
    f: "findTranscriptFile st1 sid = Some (pname, pr)"
    and mp: "map_of (projects st1) pname = Some pr"
    and tr: "map_of (transcripts pr) sid = Some L"
    and nn: "JNull \<notin> set L"
    and cov: "\<forall>m \<in> set (messages session).
        is_message_type (msg_type m) \<longrightarrow> msg_id m \<in> set (collectExistingUuids L)"
    and ti: "\<forall>t. normalizeCustomTitle (session_name session) = Some t
        \<longrightarrow> getLastCustomTitle L = Some t"
    and fp: "first_prompt (filter is_message_entry L) = Inr p"
    and cn: "countTranscriptMessages (filter is_message_entry L) = Inr n"
    and ix: "sessions_index pr = Some (JObj kv)" "map_of kv ''entries'' = Some (JArr es)"
      "JNull \<notin> set es"
    and ic: "index_counts (sessions_index pr) sid = [Some (JNum (int n))]"
    and r1: "claudeSessionId r1 = sid" "claudeProjectDir r1 = projects_dir env1 @ ''/'' @ pname"
    by (rule export_first_state)
  from export_again [OF sdk sid(1) f tr nn cov ti fp cn ix, of env2 pn2]
  obtain r2 idx where e2: "exportSession env2 st1 session pn2
        = (Inr r2, set_project st1 pname (pr\<lparr>sessions_index := Some idx\<rparr>))"
    and r2: "claudeSessionId r2 = sid" "claudeProjectDir r2 = projects_dir env2 @ ''/'' @ pname"
    and c2: "index_counts (Some idx) sid = [Some (JNum (int n))]" by blast
  let ?st2 = "set_project st1 pname (pr\<lparr>sessions_index := Some idx\<rparr>)"
  have t: "transcript_files ?st2 = transcript_files st1"
    using same_files [OF mp, of transcripts "pr\<lparr>sessions_index := Some idx\<rparr>"]
    by (simp add: transcript_files_def set_project_def)
  have h: "history ?st2 = history st1" by (simp add: set_project_def)
  have c1: "recorded_counts st1 pname sid = [Some (JNum (int n))]"
    using mp ic by (simp add: recorded_counts_def)
  have c2': "recorded_counts ?st2 pname sid = [Some (JNum (int n))]"
    using c2 by (simp add: recorded_counts_def set_project_def update_conv')
  from r1(2) r2(2) same have d: "claudeProjectDir r2 = claudeProjectDir r1" by simp
  from e2 r1 r2(1) d t h c1 c2' show ?thesis by blast
qed

theorem exportSession_idempotent_witness:
  "\<exists>r2 st2.
      exportSession (demo_env ''u2'')
        (snd (exportSession (demo_env ''u1'') empty_home (demo_session (Some ''s1'')) None))
        (demo_session (Some ''s1'')) (Some ''elsewhere'') = (Inr r2, st2)
    \<and> claudeProjectDir r2 = ''/home/u/.claude/projects/-home-u-work''
    \<and> transcript_files st2
        = transcript_files (snd (exportSession (demo_env ''u1'') empty_home (demo_session (Some ''s1'')) None))
    \<and> history st2
        = history (snd (exportSession (demo_env ''u1'') empty_home (demo_session (Some ''s1'')) None))
    \<and> recorded_counts st2 ''-home-u-work'' ''s1'' = [Some (JNum 2)]"
proof -
  let ?s = "demo_session (Some ''s1'')"
  let ?st1 = "snd (exportSession (demo_env ''u1'') empty_home ?s None)"
  let ?r1 = "\<lparr>claudeSessionId = ''s1'', projectPath = ''/home/u/work'',
               claudeProjectDir = ''/home/u/.claude/projects/-home-u-work''\<rparr>"
  have a: "fst (exportSession (demo_env ''u1'') empty_home ?s None) = Inr ?r1" by code_simp
  have c: "recorded_counts ?st1 ''-home-u-work'' ''s1'' = [Some (JNum 2)]" by code_simp
  have sdk: "sdkSessionId ?s = Some ''s1''" by (simp add: demo_session_def)
  have sid: "''s1'' \<noteq> []" "CHR ''/'' \<notin> set ''s1''" by simp_all
  have seg: "is_segment (or_else None (extractProjectName (resolveWorkDir (demo_env ''u1'') ?s)))"
    by code_simp
  have d: "distinct (map fst (projects empty_home))" by (simp add: empty_home_def)
  have same: "projects_dir (demo_env ''u2'') = projects_dir (demo_env ''u1'')"
    by (simp add: demo_env_def)
  from a have e: "exportSession (demo_env ''u1'') empty_home ?s None = (Inr ?r1, ?st1)"
    by (simp add: prod_eq_iff)
  from exportSession_idempotent [OF sdk sid seg d same e, of "Some ''elsewhere''"]
  obtain r2 st2 pname n where
    e2: "exportSession (demo_env ''u2'') ?st1 ?s (Some ''elsewhere'') = (Inr r2, st2)"
    and p1: "claudeProjectDir ?r1 = projects_dir (demo_env ''u1'') @ ''/'' @ pname"
    and p2: "claudeProjectDir r2 = claudeProjectDir ?r1"
    and t: "transcript_files st2 = transcript_files ?st1"
    and h: "history st2 = history ?st1"
    and c1: "recorded_counts ?st1 pname ''s1'' = [Some (JNum n)]"
    and c2: "recorded_counts st2 pname ''s1'' = [Some (JNum n)]"
    by auto
  from p1 have pn: "pname = ''-home-u-work''" by (simp add: demo_env_def)
  from c c1 pn have n: "n = 2" by simp
  from p2 have "claudeProjectDir r2 = ''/home/u/.claude/projects/-home-u-work''" by simp
  with e2 t h c2 pn n show ?thesis by blast
qed

text \<open>
  A session without \<open>sdkSessionId\<close> gets a fresh identifier on every call, so the second
  export finds no transcript and writes the two message lines again, into a second file.
\<close>

theorem exportSession_fresh_id_duplicates:
  "sdkSessionId (demo_session None) = None
   \<and> map (\<lambda>(n, ts). (n, map (\<lambda>(sid, ls). (sid, length (filter is_message_entry ls))) ts))
        (transcript_files
           (snd (exportSession (demo_env ''u1'') empty_home (demo_session None) None)))
      = [(''-home-u-work'', [(''u1'', 2)])]
   \<and> map (\<lambda>(n, ts). (n, map (\<lambda>(sid, ls). (sid, length (filter is_message_entry ls))) ts))
        (transcript_files
           (snd (exportSession (demo_env ''u2'')
                   (snd (exportSession (demo_env ''u1'') empty_home (demo_session None) None))
                   (demo_session None) None)))
      = [(''-home-u-work'', [(''u1'', 2), (''u2'', 2)])]
   \<and> map_sum (\<lambda>e. ()) claudeSessionId
        (fst (exportSession (demo_env ''u2'')
                (snd (exportSession (demo_env ''u1'') empty_home (demo_session None) None))
                (demo_session None) None)) = Inr ''u2''"
  by code_simp

text \<open>
  With a hint that names a nested directory the transcript of the first export is not found by
  the second, which writes the file and the history line again.
\<close>

lemma exportSession_nested_hint:
  "map (\<lambda>r. length (history (snd r)))
     [exportSession (demo_env ''u1'') empty_home (demo_session (Some ''s1'')) (Some ''a/b''),
      exportSession (demo_env ''u2'')
        (snd (exportSession (demo_env ''u1'') empty_home (demo_session (Some ''s1'')) (Some ''a/b'')))
        (demo_session (Some ''s1'')) (Some ''a/b'')] = [1, 2]"
  by code_simp

end
